theory Spec2Isabelle
  imports Main "HOL-Library.Sublist"
begin

section \<open>Python strings\<close>

text \<open>
  A Python \<open>str\<close> is a sequence of Unicode code points, so a string is a list of
  code points and \<open>length\<close> counts what Python's \<open>len\<close> counts. The source's
  literals are Chinese; they are written out as code-point lists, with an English gloss.
\<close>

type_synonym pystr = "nat list"

definition ascii :: "string \<Rightarrow> pystr" where
  "ascii s = map of_char s"

text \<open>
  \<open>str.isspace\<close>, which is also the separator set of \<open>str.split()\<close> and the set
  \<open>str.strip()\<close> removes: the 29 white-space code points of Unicode.
\<close>

definition isspace :: "nat \<Rightarrow> bool" where
  "isspace c \<longleftrightarrow>
     (9 \<le> c \<and> c \<le> 13) \<or> (28 \<le> c \<and> c \<le> 32) \<or> c = 133 \<or> c = 160 \<or> c = 5760 \<or>
     (8192 \<le> c \<and> c \<le> 8202) \<or> c = 8232 \<or> c = 8233 \<or> c = 8239 \<or> c = 8287 \<or> c = 12288"

text \<open>
  \<open>str.lower\<close> and \<open>str.isupper\<close> as CPython 3.11 computes them from the
  Unicode 14.0 character database. A table lists code points as arithmetic ranges
  \<open>(first, last, step)\<close>.
\<close>

type_synonym code_range = "nat \<times> nat \<times> nat"

definition in_range :: "nat \<Rightarrow> code_range \<Rightarrow> bool" where
  "in_range c r = (case r of (lo, hi, st) \<Rightarrow> lo \<le> c \<and> c \<le> hi \<and> (c - lo) mod st = 0)"

definition in_ranges :: "nat \<Rightarrow> code_range list \<Rightarrow> bool" where
  "in_ranges c rs = list_ex (in_range c) rs"

text \<open>
  The code points with a lower-case form of one character that differs from them: each
  range comes with the lower-case form of its first code point, and the forms of the
  others follow at the same distance.
\<close>

definition lower_table :: "(code_range \<times> nat) list" where
  "lower_table =
    [((65, 90, 1), 97), ((192, 214, 1), 224), ((216, 222, 1), 248), ((256, 302, 2), 257),
     ((306, 310, 2), 307), ((313, 327, 2), 314), ((330, 374, 2), 331), ((376, 376, 1), 255),
     ((377, 381, 2), 378), ((385, 385, 1), 595), ((386, 388, 2), 387), ((390, 390, 1), 596),
     ((391, 391, 1), 392), ((393, 394, 1), 598), ((395, 395, 1), 396), ((398, 398, 1), 477),
     ((399, 399, 1), 601), ((400, 400, 1), 603), ((401, 401, 1), 402), ((403, 403, 1), 608),
     ((404, 404, 1), 611), ((406, 406, 1), 617), ((407, 407, 1), 616), ((408, 408, 1), 409),
     ((412, 412, 1), 623), ((413, 413, 1), 626), ((415, 415, 1), 629), ((416, 420, 2), 417),
     ((422, 422, 1), 640), ((423, 423, 1), 424), ((425, 425, 1), 643), ((428, 428, 1), 429),
     ((430, 430, 1), 648), ((431, 431, 1), 432), ((433, 434, 1), 650), ((435, 437, 2), 436),
     ((439, 439, 1), 658), ((440, 440, 1), 441), ((444, 444, 1), 445), ((452, 452, 1), 454),
     ((453, 453, 1), 454), ((455, 455, 1), 457), ((456, 456, 1), 457), ((458, 458, 1), 460),
     ((459, 475, 2), 460), ((478, 494, 2), 479), ((497, 497, 1), 499), ((498, 500, 2), 499),
     ((502, 502, 1), 405), ((503, 503, 1), 447), ((504, 542, 2), 505), ((544, 544, 1), 414),
     ((546, 562, 2), 547), ((570, 570, 1), 11365), ((571, 571, 1), 572), ((573, 573, 1), 410),
     ((574, 574, 1), 11366), ((577, 577, 1), 578), ((579, 579, 1), 384), ((580, 580, 1), 649),
     ((581, 581, 1), 652), ((582, 590, 2), 583), ((880, 882, 2), 881), ((886, 886, 1), 887),
     ((895, 895, 1), 1011), ((902, 902, 1), 940), ((904, 906, 1), 941), ((908, 908, 1), 972),
     ((910, 911, 1), 973), ((913, 929, 1), 945), ((931, 939, 1), 963), ((975, 975, 1), 983),
     ((984, 1006, 2), 985), ((1012, 1012, 1), 952), ((1015, 1015, 1), 1016), ((1017, 1017, 1), 1010),
     ((1018, 1018, 1), 1019), ((1021, 1023, 1), 891), ((1024, 1039, 1), 1104), ((1040, 1071, 1), 1072),
     ((1120, 1152, 2), 1121), ((1162, 1214, 2), 1163), ((1216, 1216, 1), 1231), ((1217, 1229, 2), 1218),
     ((1232, 1326, 2), 1233), ((1329, 1366, 1), 1377), ((4256, 4293, 1), 11520), ((4295, 4295, 1), 11559),
     ((4301, 4301, 1), 11565), ((5024, 5103, 1), 43888), ((5104, 5109, 1), 5112), ((7312, 7354, 1), 4304),
     ((7357, 7359, 1), 4349), ((7680, 7828, 2), 7681), ((7838, 7838, 1), 223), ((7840, 7934, 2), 7841),
     ((7944, 7951, 1), 7936), ((7960, 7965, 1), 7952), ((7976, 7983, 1), 7968), ((7992, 7999, 1), 7984),
     ((8008, 8013, 1), 8000), ((8025, 8031, 2), 8017), ((8040, 8047, 1), 8032), ((8072, 8079, 1), 8064),
     ((8088, 8095, 1), 8080), ((8104, 8111, 1), 8096), ((8120, 8121, 1), 8112), ((8122, 8123, 1), 8048),
     ((8124, 8124, 1), 8115), ((8136, 8139, 1), 8050), ((8140, 8140, 1), 8131), ((8152, 8153, 1), 8144),
     ((8154, 8155, 1), 8054), ((8168, 8169, 1), 8160), ((8170, 8171, 1), 8058), ((8172, 8172, 1), 8165),
     ((8184, 8185, 1), 8056), ((8186, 8187, 1), 8060), ((8188, 8188, 1), 8179), ((8486, 8486, 1), 969),
     ((8490, 8490, 1), 107), ((8491, 8491, 1), 229), ((8498, 8498, 1), 8526), ((8544, 8559, 1), 8560),
     ((8579, 8579, 1), 8580), ((9398, 9423, 1), 9424), ((11264, 11311, 1), 11312), ((11360, 11360, 1), 11361),
     ((11362, 11362, 1), 619), ((11363, 11363, 1), 7549), ((11364, 11364, 1), 637), ((11367, 11371, 2), 11368),
     ((11373, 11373, 1), 593), ((11374, 11374, 1), 625), ((11375, 11375, 1), 592), ((11376, 11376, 1), 594),
     ((11378, 11378, 1), 11379), ((11381, 11381, 1), 11382), ((11390, 11391, 1), 575), ((11392, 11490, 2), 11393),
     ((11499, 11501, 2), 11500), ((11506, 11506, 1), 11507), ((42560, 42604, 2), 42561), ((42624, 42650, 2), 42625),
     ((42786, 42798, 2), 42787), ((42802, 42862, 2), 42803), ((42873, 42875, 2), 42874), ((42877, 42877, 1), 7545),
     ((42878, 42886, 2), 42879), ((42891, 42891, 1), 42892), ((42893, 42893, 1), 613), ((42896, 42898, 2), 42897),
     ((42902, 42920, 2), 42903), ((42922, 42922, 1), 614), ((42923, 42923, 1), 604), ((42924, 42924, 1), 609),
     ((42925, 42925, 1), 620), ((42926, 42926, 1), 618), ((42928, 42928, 1), 670), ((42929, 42929, 1), 647),
     ((42930, 42930, 1), 669), ((42931, 42931, 1), 43859), ((42932, 42946, 2), 42933), ((42948, 42948, 1), 42900),
     ((42949, 42949, 1), 642), ((42950, 42950, 1), 7566), ((42951, 42953, 2), 42952), ((42960, 42960, 1), 42961),
     ((42966, 42968, 2), 42967), ((42997, 42997, 1), 42998), ((65313, 65338, 1), 65345), ((66560, 66599, 1), 66600),
     ((66736, 66771, 1), 66776), ((66928, 66938, 1), 66967), ((66940, 66954, 1), 66979), ((66956, 66962, 1), 66995),
     ((66964, 66965, 1), 67003), ((68736, 68786, 1), 68800), ((71840, 71871, 1), 71872), ((93760, 93791, 1), 93792),
     ((125184, 125217, 1), 125218)]"

text \<open>
  The two character classes the rule for the capital sigma consults. A character that is
  both cased and case-ignorable is skipped as case-ignorable before it is asked whether it
  is cased, so \<open>cased_table\<close> lists the cased characters that are not case-ignorable.
\<close>

definition cased_table :: "code_range list" where
  "cased_table =
    [(65, 90, 1), (97, 122, 1), (170, 170, 1), (181, 181, 1), (186, 186, 1),
     (192, 214, 1), (216, 246, 1), (248, 442, 1), (444, 447, 1), (452, 659, 1),
     (661, 687, 1), (880, 883, 1), (886, 887, 1), (891, 893, 1), (895, 895, 1),
     (902, 902, 1), (904, 906, 1), (908, 908, 1), (910, 929, 1), (931, 1013, 1),
     (1015, 1153, 1), (1162, 1327, 1), (1329, 1366, 1), (1376, 1416, 1), (4256, 4293, 1),
     (4295, 4295, 1), (4301, 4301, 1), (4304, 4346, 1), (4349, 4351, 1), (5024, 5109, 1),
     (5112, 5117, 1), (7296, 7304, 1), (7312, 7354, 1), (7357, 7359, 1), (7424, 7467, 1),
     (7531, 7543, 1), (7545, 7578, 1), (7680, 7957, 1), (7960, 7965, 1), (7968, 8005, 1),
     (8008, 8013, 1), (8016, 8023, 1), (8025, 8029, 2), (8031, 8061, 1), (8064, 8116, 1),
     (8118, 8124, 1), (8126, 8126, 1), (8130, 8132, 1), (8134, 8140, 1), (8144, 8147, 1),
     (8150, 8155, 1), (8160, 8172, 1), (8178, 8180, 1), (8182, 8188, 1), (8450, 8450, 1),
     (8455, 8455, 1), (8458, 8467, 1), (8469, 8469, 1), (8473, 8477, 1), (8484, 8488, 2),
     (8490, 8493, 1), (8495, 8500, 1), (8505, 8505, 1), (8508, 8511, 1), (8517, 8521, 1),
     (8526, 8526, 1), (8544, 8575, 1), (8579, 8580, 1), (9398, 9449, 1), (11264, 11387, 1),
     (11390, 11492, 1), (11499, 11502, 1), (11506, 11507, 1), (11520, 11557, 1), (11559, 11559, 1),
     (11565, 11565, 1), (42560, 42605, 1), (42624, 42651, 1), (42786, 42863, 1), (42865, 42887, 1),
     (42891, 42894, 1), (42896, 42954, 1), (42960, 42961, 1), (42963, 42963, 1), (42965, 42969, 1),
     (42997, 42998, 1), (43002, 43002, 1), (43824, 43866, 1), (43872, 43880, 1), (43888, 43967, 1),
     (64256, 64262, 1), (64275, 64279, 1), (65313, 65338, 1), (65345, 65370, 1), (66560, 66639, 1),
     (66736, 66771, 1), (66776, 66811, 1), (66928, 66938, 1), (66940, 66954, 1), (66956, 66962, 1),
     (66964, 66965, 1), (66967, 66977, 1), (66979, 66993, 1), (66995, 67001, 1), (67003, 67004, 1),
     (68736, 68786, 1), (68800, 68850, 1), (71840, 71903, 1), (93760, 93823, 1), (119808, 119892, 1),
     (119894, 119964, 1), (119966, 119967, 1), (119970, 119970, 1), (119973, 119974, 1), (119977, 119980, 1),
     (119982, 119993, 1), (119995, 119995, 1), (119997, 120003, 1), (120005, 120069, 1), (120071, 120074, 1),
     (120077, 120084, 1), (120086, 120092, 1), (120094, 120121, 1), (120123, 120126, 1), (120128, 120132, 1),
     (120134, 120134, 1), (120138, 120144, 1), (120146, 120485, 1), (120488, 120512, 1), (120514, 120538, 1),
     (120540, 120570, 1), (120572, 120596, 1), (120598, 120628, 1), (120630, 120654, 1), (120656, 120686, 1),
     (120688, 120712, 1), (120714, 120744, 1), (120746, 120770, 1), (120772, 120779, 1), (122624, 122633, 1),
     (122635, 122654, 1), (125184, 125251, 1), (127280, 127305, 1), (127312, 127337, 1), (127344, 127369, 1)]"

definition case_ignorable_table :: "code_range list" where
  "case_ignorable_table =
    [(39, 39, 1), (46, 46, 1), (58, 58, 1), (94, 96, 2), (168, 168, 1),
     (173, 175, 2), (180, 180, 1), (183, 184, 1), (688, 879, 1), (884, 885, 1),
     (890, 890, 1), (900, 901, 1), (903, 903, 1), (1155, 1161, 1), (1369, 1369, 1),
     (1375, 1375, 1), (1425, 1469, 1), (1471, 1471, 1), (1473, 1474, 1), (1476, 1477, 1),
     (1479, 1479, 1), (1524, 1524, 1), (1536, 1541, 1), (1552, 1562, 1), (1564, 1564, 1),
     (1600, 1600, 1), (1611, 1631, 1), (1648, 1648, 1), (1750, 1757, 1), (1759, 1768, 1),
     (1770, 1773, 1), (1807, 1809, 2), (1840, 1866, 1), (1958, 1968, 1), (2027, 2037, 1),
     (2042, 2042, 1), (2045, 2045, 1), (2070, 2093, 1), (2137, 2139, 1), (2184, 2184, 1),
     (2192, 2193, 1), (2200, 2207, 1), (2249, 2306, 1), (2362, 2364, 2), (2369, 2376, 1),
     (2381, 2381, 1), (2385, 2391, 1), (2402, 2403, 1), (2417, 2417, 1), (2433, 2433, 1),
     (2492, 2492, 1), (2497, 2500, 1), (2509, 2509, 1), (2530, 2531, 1), (2558, 2558, 1),
     (2561, 2562, 1), (2620, 2620, 1), (2625, 2626, 1), (2631, 2632, 1), (2635, 2637, 1),
     (2641, 2641, 1), (2672, 2673, 1), (2677, 2677, 1), (2689, 2690, 1), (2748, 2748, 1),
     (2753, 2757, 1), (2759, 2760, 1), (2765, 2765, 1), (2786, 2787, 1), (2810, 2815, 1),
     (2817, 2817, 1), (2876, 2876, 1), (2879, 2879, 1), (2881, 2884, 1), (2893, 2893, 1),
     (2901, 2902, 1), (2914, 2915, 1), (2946, 2946, 1), (3008, 3008, 1), (3021, 3021, 1),
     (3072, 3072, 1), (3076, 3076, 1), (3132, 3132, 1), (3134, 3136, 1), (3142, 3144, 1),
     (3146, 3149, 1), (3157, 3158, 1), (3170, 3171, 1), (3201, 3201, 1), (3260, 3260, 1),
     (3263, 3263, 1), (3270, 3270, 1), (3276, 3277, 1), (3298, 3299, 1), (3328, 3329, 1),
     (3387, 3388, 1), (3393, 3396, 1), (3405, 3405, 1), (3426, 3427, 1), (3457, 3457, 1),
     (3530, 3530, 1), (3538, 3540, 1), (3542, 3542, 1), (3633, 3633, 1), (3636, 3642, 1),
     (3654, 3662, 1), (3761, 3761, 1), (3764, 3772, 1), (3782, 3782, 1), (3784, 3789, 1),
     (3864, 3865, 1), (3893, 3897, 2), (3953, 3966, 1), (3968, 3972, 1), (3974, 3975, 1),
     (3981, 3991, 1), (3993, 4028, 1), (4038, 4038, 1), (4141, 4144, 1), (4146, 4151, 1),
     (4153, 4154, 1), (4157, 4158, 1), (4184, 4185, 1), (4190, 4192, 1), (4209, 4212, 1),
     (4226, 4226, 1), (4229, 4230, 1), (4237, 4237, 1), (4253, 4253, 1), (4348, 4348, 1),
     (4957, 4959, 1), (5906, 5908, 1), (5938, 5939, 1), (5970, 5971, 1), (6002, 6003, 1),
     (6068, 6069, 1), (6071, 6077, 1), (6086, 6086, 1), (6089, 6099, 1), (6103, 6103, 1),
     (6109, 6109, 1), (6155, 6159, 1), (6211, 6211, 1), (6277, 6278, 1), (6313, 6313, 1),
     (6432, 6434, 1), (6439, 6440, 1), (6450, 6450, 1), (6457, 6459, 1), (6679, 6680, 1),
     (6683, 6683, 1), (6742, 6742, 1), (6744, 6750, 1), (6752, 6754, 2), (6757, 6764, 1),
     (6771, 6780, 1), (6783, 6783, 1), (6823, 6823, 1), (6832, 6862, 1), (6912, 6915, 1),
     (6964, 6964, 1), (6966, 6970, 1), (6972, 6972, 1), (6978, 6978, 1), (7019, 7027, 1),
     (7040, 7041, 1), (7074, 7077, 1), (7080, 7081, 1), (7083, 7085, 1), (7142, 7142, 1),
     (7144, 7145, 1), (7149, 7149, 1), (7151, 7153, 1), (7212, 7219, 1), (7222, 7223, 1),
     (7288, 7293, 1), (7376, 7378, 1), (7380, 7392, 1), (7394, 7400, 1), (7405, 7405, 1),
     (7412, 7412, 1), (7416, 7417, 1), (7468, 7530, 1), (7544, 7544, 1), (7579, 7679, 1),
     (8125, 8125, 1), (8127, 8129, 1), (8141, 8143, 1), (8157, 8159, 1), (8173, 8175, 1),
     (8189, 8190, 1), (8203, 8207, 1), (8216, 8217, 1), (8228, 8228, 1), (8231, 8231, 1),
     (8234, 8238, 1), (8288, 8292, 1), (8294, 8303, 1), (8305, 8305, 1), (8319, 8319, 1),
     (8336, 8348, 1), (8400, 8432, 1), (11388, 11389, 1), (11503, 11505, 1), (11631, 11631, 1),
     (11647, 11647, 1), (11744, 11775, 1), (11823, 11823, 1), (12293, 12293, 1), (12330, 12333, 1),
     (12337, 12341, 1), (12347, 12347, 1), (12441, 12446, 1), (12540, 12542, 1), (40981, 40981, 1),
     (42232, 42237, 1), (42508, 42508, 1), (42607, 42610, 1), (42612, 42621, 1), (42623, 42623, 1),
     (42652, 42655, 1), (42736, 42737, 1), (42752, 42785, 1), (42864, 42864, 1), (42888, 42890, 1),
     (42994, 42996, 1), (43000, 43001, 1), (43010, 43010, 1), (43014, 43014, 1), (43019, 43019, 1),
     (43045, 43046, 1), (43052, 43052, 1), (43204, 43205, 1), (43232, 43249, 1), (43263, 43263, 1),
     (43302, 43309, 1), (43335, 43345, 1), (43392, 43394, 1), (43443, 43443, 1), (43446, 43449, 1),
     (43452, 43453, 1), (43471, 43471, 1), (43493, 43494, 1), (43561, 43566, 1), (43569, 43570, 1),
     (43573, 43574, 1), (43587, 43587, 1), (43596, 43596, 1), (43632, 43632, 1), (43644, 43644, 1),
     (43696, 43696, 1), (43698, 43700, 1), (43703, 43704, 1), (43710, 43711, 1), (43713, 43713, 1),
     (43741, 43741, 1), (43756, 43757, 1), (43763, 43764, 1), (43766, 43766, 1), (43867, 43871, 1),
     (43881, 43883, 1), (44005, 44005, 1), (44008, 44008, 1), (44013, 44013, 1), (64286, 64286, 1),
     (64434, 64450, 1), (65024, 65039, 1), (65043, 65043, 1), (65056, 65071, 1), (65106, 65106, 1),
     (65109, 65109, 1), (65279, 65279, 1), (65287, 65287, 1), (65294, 65294, 1), (65306, 65306, 1),
     (65342, 65344, 2), (65392, 65392, 1), (65438, 65439, 1), (65507, 65507, 1), (65529, 65531, 1),
     (66045, 66045, 1), (66272, 66272, 1), (66422, 66426, 1), (67456, 67461, 1), (67463, 67504, 1),
     (67506, 67514, 1), (68097, 68099, 1), (68101, 68102, 1), (68108, 68111, 1), (68152, 68154, 1),
     (68159, 68159, 1), (68325, 68326, 1), (68900, 68903, 1), (69291, 69292, 1), (69446, 69456, 1),
     (69506, 69509, 1), (69633, 69633, 1), (69688, 69702, 1), (69744, 69744, 1), (69747, 69748, 1),
     (69759, 69761, 1), (69811, 69814, 1), (69817, 69818, 1), (69821, 69821, 1), (69826, 69826, 1),
     (69837, 69837, 1), (69888, 69890, 1), (69927, 69931, 1), (69933, 69940, 1), (70003, 70003, 1),
     (70016, 70017, 1), (70070, 70078, 1), (70089, 70092, 1), (70095, 70095, 1), (70191, 70193, 1),
     (70196, 70196, 1), (70198, 70199, 1), (70206, 70206, 1), (70367, 70367, 1), (70371, 70378, 1),
     (70400, 70401, 1), (70459, 70460, 1), (70464, 70464, 1), (70502, 70508, 1), (70512, 70516, 1),
     (70712, 70719, 1), (70722, 70724, 1), (70726, 70726, 1), (70750, 70750, 1), (70835, 70840, 1),
     (70842, 70842, 1), (70847, 70848, 1), (70850, 70851, 1), (71090, 71093, 1), (71100, 71101, 1),
     (71103, 71104, 1), (71132, 71133, 1), (71219, 71226, 1), (71229, 71229, 1), (71231, 71232, 1),
     (71339, 71341, 2), (71344, 71349, 1), (71351, 71351, 1), (71453, 71455, 1), (71458, 71461, 1),
     (71463, 71467, 1), (71727, 71735, 1), (71737, 71738, 1), (71995, 71996, 1), (71998, 71998, 1),
     (72003, 72003, 1), (72148, 72151, 1), (72154, 72155, 1), (72160, 72160, 1), (72193, 72202, 1),
     (72243, 72248, 1), (72251, 72254, 1), (72263, 72263, 1), (72273, 72278, 1), (72281, 72283, 1),
     (72330, 72342, 1), (72344, 72345, 1), (72752, 72758, 1), (72760, 72765, 1), (72767, 72767, 1),
     (72850, 72871, 1), (72874, 72880, 1), (72882, 72883, 1), (72885, 72886, 1), (73009, 73014, 1),
     (73018, 73018, 1), (73020, 73021, 1), (73023, 73029, 1), (73031, 73031, 1), (73104, 73105, 1),
     (73109, 73111, 2), (73459, 73460, 1), (78896, 78904, 1), (92912, 92916, 1), (92976, 92982, 1),
     (92992, 92995, 1), (94031, 94031, 1), (94095, 94111, 1), (94176, 94177, 1), (94179, 94180, 1),
     (110576, 110579, 1), (110581, 110587, 1), (110589, 110590, 1), (113821, 113822, 1), (113824, 113827, 1),
     (118528, 118573, 1), (118576, 118598, 1), (119143, 119145, 1), (119155, 119170, 1), (119173, 119179, 1),
     (119210, 119213, 1), (119362, 119364, 1), (121344, 121398, 1), (121403, 121452, 1), (121461, 121461, 1),
     (121476, 121476, 1), (121499, 121503, 1), (121505, 121519, 1), (122880, 122886, 1), (122888, 122904, 1),
     (122907, 122913, 1), (122915, 122916, 1), (122918, 122922, 1), (123184, 123197, 1), (123566, 123566, 1),
     (123628, 123631, 1), (125136, 125142, 1), (125252, 125259, 1), (127995, 127999, 1), (917505, 917505, 1),
     (917536, 917631, 1), (917760, 917999, 1)]"

text \<open>The characters for which \<open>str.isupper\<close> holds.\<close>

definition upper_table :: "code_range list" where
  "upper_table =
    [(65, 90, 1), (192, 214, 1), (216, 222, 1), (256, 310, 2), (313, 327, 2),
     (330, 374, 2), (376, 377, 1), (379, 381, 2), (385, 386, 1), (388, 388, 1),
     (390, 391, 1), (393, 395, 1), (398, 401, 1), (403, 404, 1), (406, 408, 1),
     (412, 413, 1), (415, 416, 1), (418, 420, 2), (422, 423, 1), (425, 425, 1),
     (428, 428, 1), (430, 431, 1), (433, 435, 1), (437, 437, 1), (439, 440, 1),
     (444, 444, 1), (452, 452, 1), (455, 455, 1), (458, 458, 1), (461, 475, 2),
     (478, 494, 2), (497, 497, 1), (500, 500, 1), (502, 504, 1), (506, 562, 2),
     (570, 571, 1), (573, 574, 1), (577, 577, 1), (579, 582, 1), (584, 590, 2),
     (880, 882, 2), (886, 886, 1), (895, 895, 1), (902, 902, 1), (904, 906, 1),
     (908, 908, 1), (910, 911, 1), (913, 929, 1), (931, 939, 1), (975, 975, 1),
     (978, 980, 1), (984, 1006, 2), (1012, 1012, 1), (1015, 1015, 1), (1017, 1018, 1),
     (1021, 1071, 1), (1120, 1152, 2), (1162, 1214, 2), (1216, 1217, 1), (1219, 1229, 2),
     (1232, 1326, 2), (1329, 1366, 1), (4256, 4293, 1), (4295, 4295, 1), (4301, 4301, 1),
     (5024, 5109, 1), (7312, 7354, 1), (7357, 7359, 1), (7680, 7828, 2), (7838, 7934, 2),
     (7944, 7951, 1), (7960, 7965, 1), (7976, 7983, 1), (7992, 7999, 1), (8008, 8013, 1),
     (8025, 8031, 2), (8040, 8047, 1), (8120, 8123, 1), (8136, 8139, 1), (8152, 8155, 1),
     (8168, 8172, 1), (8184, 8187, 1), (8450, 8450, 1), (8455, 8455, 1), (8459, 8461, 1),
     (8464, 8466, 1), (8469, 8469, 1), (8473, 8477, 1), (8484, 8488, 2), (8490, 8493, 1),
     (8496, 8499, 1), (8510, 8511, 1), (8517, 8517, 1), (8544, 8559, 1), (8579, 8579, 1),
     (9398, 9423, 1), (11264, 11311, 1), (11360, 11360, 1), (11362, 11364, 1), (11367, 11371, 2),
     (11373, 11376, 1), (11378, 11378, 1), (11381, 11381, 1), (11390, 11392, 1), (11394, 11490, 2),
     (11499, 11501, 2), (11506, 11506, 1), (42560, 42604, 2), (42624, 42650, 2), (42786, 42798, 2),
     (42802, 42862, 2), (42873, 42875, 2), (42877, 42878, 1), (42880, 42886, 2), (42891, 42893, 2),
     (42896, 42898, 2), (42902, 42920, 2), (42922, 42926, 1), (42928, 42932, 1), (42934, 42946, 2),
     (42948, 42951, 1), (42953, 42953, 1), (42960, 42960, 1), (42966, 42968, 2), (42997, 42997, 1),
     (65313, 65338, 1), (66560, 66599, 1), (66736, 66771, 1), (66928, 66938, 1), (66940, 66954, 1),
     (66956, 66962, 1), (66964, 66965, 1), (68736, 68786, 1), (71840, 71871, 1), (93760, 93791, 1),
     (119808, 119833, 1), (119860, 119885, 1), (119912, 119937, 1), (119964, 119964, 1), (119966, 119967, 1),
     (119970, 119970, 1), (119973, 119974, 1), (119977, 119980, 1), (119982, 119989, 1), (120016, 120041, 1),
     (120068, 120069, 1), (120071, 120074, 1), (120077, 120084, 1), (120086, 120092, 1), (120120, 120121, 1),
     (120123, 120126, 1), (120128, 120132, 1), (120134, 120134, 1), (120138, 120144, 1), (120172, 120197, 1),
     (120224, 120249, 1), (120276, 120301, 1), (120328, 120353, 1), (120380, 120405, 1), (120432, 120457, 1),
     (120488, 120512, 1), (120546, 120570, 1), (120604, 120628, 1), (120662, 120686, 1), (120720, 120744, 1),
     (120778, 120778, 1), (125184, 125217, 1), (127280, 127305, 1), (127312, 127337, 1), (127344, 127369, 1)]"

definition isupper :: "nat \<Rightarrow> bool" where
  "isupper c = in_ranges c upper_table"

definition cased :: "nat \<Rightarrow> bool" where
  "cased c = in_ranges c cased_table"

definition case_ignorable :: "nat \<Rightarrow> bool" where
  "case_ignorable c = in_ranges c case_ignorable_table"

text \<open>
  The lower-case form of one character, out of context: U+0130 has a form of two
  characters, a character of the table has the form the table gives, every other
  character is its own form.
\<close>

definition lower_char :: "nat \<Rightarrow> pystr" where
  "lower_char c =
     (if c = 304 then [105, 775]
      else case find (\<lambda>(r, t). in_range c r) lower_table of
             None \<Rightarrow> [c]
           | Some ((lo, hi, st), t) \<Rightarrow> [t + (c - lo)])"

text \<open>
  The capital sigma U+03A3 becomes the final sigma U+03C2 when a cased character stands
  before it and none after it, case-ignorable characters skipped on both sides, and the
  small sigma U+03C3 otherwise. \<open>followed_by_cased\<close> looks ahead;
  \<open>lower_from p\<close> carries in \<open>p\<close> whether the nearest character behind that is
  not case-ignorable is cased.
\<close>

fun followed_by_cased :: "pystr \<Rightarrow> bool" where
  "followed_by_cased [] = False"
| "followed_by_cased (c # cs) = (if case_ignorable c then followed_by_cased cs else cased c)"

fun lower_from :: "bool \<Rightarrow> pystr \<Rightarrow> pystr" where
  "lower_from p [] = []"
| "lower_from p (c # cs) =
     (if c = 931 then [if p \<and> \<not> followed_by_cased cs then 962 else 963] else lower_char c) @
     lower_from (if case_ignorable c then p else cased c) cs"

definition lower :: "pystr \<Rightarrow> pystr" where
  "lower s = lower_from False s"

text \<open>\<open>s.strip()\<close>: white space removed at both ends.\<close>

definition strip :: "pystr \<Rightarrow> pystr" where
  "strip s = rev (dropWhile isspace (rev (dropWhile isspace s)))"

text \<open>
  \<open>s.split()\<close>: the maximal runs of characters that are not white space, in order;
  \<open>cur\<close> is the word being read.
\<close>

fun split_from :: "pystr \<Rightarrow> pystr \<Rightarrow> pystr list" where
  "split_from cur [] = (if cur = [] then [] else [cur])"
| "split_from cur (c # cs) =
     (if isspace c then (if cur = [] then split_from [] cs else cur # split_from [] cs)
      else split_from (cur @ [c]) cs)"

definition split :: "pystr \<Rightarrow> pystr list" where
  "split s = split_from [] s"

text \<open>\<open>sep.join(xs)\<close>.\<close>

fun join :: "pystr \<Rightarrow> pystr list \<Rightarrow> pystr" where
  "join sep [] = []"
| "join sep [x] = x"
| "join sep (x # y # ys) = x @ sep @ join sep (y # ys)"

text \<open>The exceptions the modelled code raises.\<close>

datatype error = AttributeError | ValueError | RecursionError | ValidationError "pystr list"

text \<open>\<open>str(n)\<close> of a non-negative and of an arbitrary integer: its decimal digits.\<close>

fun str_nat :: "nat \<Rightarrow> pystr" where
  "str_nat n = (if n < 10 then [48 + n] else str_nat (n div 10) @ [48 + n mod 10])"

declare str_nat.simps [simp del]

definition str_int :: "int \<Rightarrow> pystr" where
  "str_int i = (if i < 0 then 45 # str_nat (nat (- i)) else str_nat (nat i))"

text \<open>
  The interpreter refuses to convert an integer of more than
  \<open>sys.int_info.default_max_str_digits\<close> decimal digits, the sign not counted:
  \<open>str\<close> raises \<open>ValueError\<close>. \<open>str_int\<close> is the text \<open>str\<close>
  returns where it returns one; \<open>str_of_int\<close> is the call with its limit.
\<close>

definition int_max_str_digits :: nat where
  "int_max_str_digits = 4300"

definition str_of_int :: "int \<Rightarrow> error + pystr" where
  "str_of_int i = (if 10 ^ int_max_str_digits \<le> \<bar>i\<bar> then Inl ValueError else Inr (str_int i))"

subsection \<open>Checks of the character tables\<close>

text \<open>
  Properties of the tables that are decided by running over them. \<open>ws_free a b\<close>: no
  white-space character lies between \<open>a\<close> and \<open>b\<close>.
\<close>

definition ws_free :: "nat \<Rightarrow> nat \<Rightarrow> bool" where
  "ws_free a b \<longleftrightarrow>
     (b < 9 \<or> 13 < a) \<and> (b < 28 \<or> 32 < a) \<and> (b < 133 \<or> 133 < a) \<and> (b < 160 \<or> 160 < a) \<and>
     (b < 5760 \<or> 5760 < a) \<and> (b < 8192 \<or> 8202 < a) \<and> (b < 8232 \<or> 8233 < a) \<and>
     (b < 8239 \<or> 8239 < a) \<and> (b < 8287 \<or> 8287 < a) \<and> (b < 12288 \<or> 12288 < a)"

definition range_ws_free :: "code_range \<Rightarrow> bool" where
  "range_ws_free r = (case r of (lo, hi, st) \<Rightarrow> ws_free lo hi)"

text \<open>
  An entry of \<open>lower_table\<close> is in order when neither its range nor the range of its
  lower-case forms holds a white-space character, and no lower-case form is one of the two
  characters \<open>lower_from\<close> and \<open>lower_char\<close> treat apart.
\<close>

definition entry_ok :: "code_range \<times> nat \<Rightarrow> bool" where
  "entry_ok e = (case e of ((lo, hi, st), t) \<Rightarrow>
     ws_free lo hi \<and> ws_free t (t + (hi - lo)) \<and>
     (t + (hi - lo) < 304 \<or> 304 < t) \<and> (t + (hi - lo) < 931 \<or> 931 < t))"

text \<open>
  The lower-case forms \<open>t, \<dots>, thi\<close> of an entry miss the range of the entry
  \<open>d\<close>: they lie before it, or after it, or in its gaps (\<open>d\<close> takes every
  second code point and the forms are all of the other parity).
\<close>

definition target_fixed :: "nat \<Rightarrow> nat \<Rightarrow> bool \<Rightarrow> code_range \<times> nat \<Rightarrow> bool" where
  "target_fixed t thi uniform d = (case d of ((lo', hi', st'), t') \<Rightarrow>
     (if thi < lo' then True else if hi' < t then True
      else st' = 2 \<and> uniform \<and> t mod 2 \<noteq> lo' mod 2))"

definition targets_fixed :: "code_range \<times> nat \<Rightarrow> bool" where
  "targets_fixed e = (case e of ((lo, hi, st), t) \<Rightarrow>
     list_all (target_fixed t (t + (hi - lo)) (st = 2 \<or> lo = hi)) lower_table)"

section \<open>The keyword rule engine (keyword\_rule\_engine.py)\<close>

text \<open>\<open>normalize_text\<close>; \<open>value or ""\<close> turns \<open>None\<close> into the empty string.\<close>

definition normalize_text :: "pystr option \<Rightarrow> pystr" where
  "normalize_text v = join [32] (split (lower (case v of None \<Rightarrow> [] | Some s \<Rightarrow> s)))"

text \<open>
  \<open>_normalize_keywords\<close>: the loop over the raw keywords, with the list built so far
  and the set of texts seen.
\<close>

fun normalize_keywords_loop :: "pystr list \<Rightarrow> pystr list \<Rightarrow> pystr set \<Rightarrow> pystr list" where
  "normalize_keywords_loop [] normalized seen = normalized"
| "normalize_keywords_loop (raw # rest) normalized seen =
     (let text = normalize_text (Some (strip raw)) in
      if text = [] \<or> text \<in> seen then normalize_keywords_loop rest normalized seen
      else normalize_keywords_loop rest (normalized @ [text]) (insert text seen))"

definition normalize_keywords :: "pystr list option \<Rightarrow> pystr list" where
  "normalize_keywords vs =
     normalize_keywords_loop (case vs of None \<Rightarrow> [] | Some l \<Rightarrow> l) [] {}"

text \<open>
  A rule group as the evaluator receives it: a mapping or an object with the entries
  \<open>name\<close>, \<open>include_keywords\<close> and \<open>exclude_keywords\<close>. Both branches of
  \<open>_extract_group_fields\<close> read the three entries the same way (\<open>get\<close> on a mapping,
  \<open>getattr\<close> with a default on an object), and an entry that is missing reads as
  \<open>None\<close>, so one record stands for both representations.
\<close>

record raw_group =
  raw_name :: "pystr option"
  raw_include_keywords :: "pystr list option"
  raw_exclude_keywords :: "pystr list option"

record group_fields =
  group_name :: pystr
  include_keywords :: "pystr list"
  exclude_keywords :: "pystr list"

definition extract_group_fields :: "raw_group \<Rightarrow> pystr \<Rightarrow> group_fields" where
  "extract_group_fields g fallback_name =
     (let name = raw_name g;
          incl = (case raw_include_keywords g of None \<Rightarrow> [] | Some l \<Rightarrow> l);
          excl = (case raw_exclude_keywords g of None \<Rightarrow> [] | Some l \<Rightarrow> l)
      in \<lparr> group_name = (case name of None \<Rightarrow> fallback_name
                          | Some n \<Rightarrow> if n = [] then fallback_name else strip n),
           include_keywords = normalize_keywords (Some incl),
           exclude_keywords = normalize_keywords (Some excl) \<rparr>)"

record verdict =
  analysis_source :: pystr
  is_recommended :: bool
  reason :: pystr
  matched_groups :: "pystr list"
  matched_keywords :: "pystr list"
  blocked_keywords :: "pystr list"

text \<open>The message constants of the evaluator.\<close>

definition msg_empty_text :: pystr where
  \<comment> \<open>"the matchable text is empty, the keyword rules cannot run."\<close>
  "msg_empty_text = [21487, 21305, 37197, 25991, 26412, 20026, 31354, 65292, 20851, 38190,
     35789, 35268, 21017, 26080, 27861, 25191, 34892, 12290]"

definition msg_no_groups :: pystr where
  \<comment> \<open>"no keyword rule groups are configured."\<close>
  "msg_no_groups = [26410, 37197, 32622, 20851, 38190, 35789, 35268, 21017, 20998, 32452, 12290]"

definition fallback_prefix :: pystr where
  \<comment> \<open>"rule group", followed by the group's position\<close>
  "fallback_prefix = [35268, 21017, 32452]"

definition msg_missing_include :: pystr where
  \<comment> \<open>": include keywords are missing"\<close>
  "msg_missing_include = [58, 32, 32570, 23569, 21253, 21547, 20851, 38190, 35789]"

definition missing_prefix :: pystr where
  \<comment> \<open>"missing "\<close>
  "missing_prefix = [32570, 23569, 32]"

definition blocked_prefix :: pystr where
  \<comment> \<open>"hit exclude word "\<close>
  "blocked_prefix = [21629, 20013, 25490, 38500, 35789, 32]"

definition reason_sep :: pystr where
  \<comment> \<open>the full-width semicolon\<close>
  "reason_sep = [65307]"

definition msg_hit_prefix :: pystr where
  \<comment> \<open>"hit keyword rule:"\<close>
  "msg_hit_prefix = [21629, 20013, 20851, 38190, 35789, 35268, 21017, 65306]"

definition msg_hit_suffix :: pystr where
  \<comment> \<open>"(all include words satisfied, and no exclude word triggered)."\<close>
  "msg_hit_suffix = [65288, 21253, 21547, 35789, 20840, 37096, 28385, 36275, 65292, 19988,
     26410, 35302, 21457, 25490, 38500, 35789, 65289, 12290]"

definition msg_no_hit :: pystr where
  \<comment> \<open>"no keyword rule group was hit."\<close>
  "msg_no_hit = [25152, 26377, 20851, 38190, 35789, 35268, 21017, 32452, 22343, 26410, 21629,
     20013, 12290]"

definition negative_verdict :: "pystr \<Rightarrow> verdict" where
  "negative_verdict r =
     \<lparr> analysis_source = ascii ''keyword'', is_recommended = False, reason = r,
       matched_groups = [], matched_keywords = [], blocked_keywords = [] \<rparr>"

text \<open>
  The body of the loop of \<open>evaluate_keyword_rules\<close> for one group at position
  \<open>index\<close>: \<open>Inl\<close> is the failure reason appended before \<open>continue\<close>,
  \<open>Inr\<close> the verdict returned. \<open>kw in normalized_text\<close> on strings is the
  contiguous-substring test.
\<close>

definition evaluate_group :: "pystr \<Rightarrow> nat \<Rightarrow> raw_group \<Rightarrow> pystr + verdict" where
  "evaluate_group normalized_text index raw =
     (let group = extract_group_fields raw (fallback_prefix @ str_nat index);
          incl = include_keywords group;
          excl = exclude_keywords group;
          name = group_name group
      in if incl = [] then Inl (name @ msg_missing_include)
         else
           let missing = filter (\<lambda>kw. \<not> sublist kw normalized_text) incl;
               blocked = filter (\<lambda>kw. sublist kw normalized_text) excl
           in if missing \<noteq> [] \<or> blocked \<noteq> [] then
                let detail_parts =
                      (if missing \<noteq> [] then [missing_prefix @ join (ascii '', '') missing] else []) @
                      (if blocked \<noteq> [] then [blocked_prefix @ join (ascii '', '') blocked] else [])
                in Inl (name @ ascii '': '' @ join (ascii ''; '') detail_parts)
              else
                Inr \<lparr> analysis_source = ascii ''keyword'', is_recommended = True,
                      reason = msg_hit_prefix @ name @ msg_hit_suffix,
                      matched_groups = [name], matched_keywords = incl, blocked_keywords = [] \<rparr>)"

text \<open>
  The loop over \<open>enumerate(groups, start=1)\<close>, with the reasons collected so far, and
  the negative verdict after it.
\<close>

fun evaluate_loop :: "pystr \<Rightarrow> nat \<Rightarrow> raw_group list \<Rightarrow> pystr list \<Rightarrow> verdict" where
  "evaluate_loop normalized_text index [] group_fail_reasons =
     negative_verdict
       (if group_fail_reasons \<noteq> [] then join reason_sep (take 3 group_fail_reasons)
        else msg_no_hit)"
| "evaluate_loop normalized_text index (raw # rest) group_fail_reasons =
     (case evaluate_group normalized_text index raw of
        Inl fail_reason \<Rightarrow>
          evaluate_loop normalized_text (index + 1) rest (group_fail_reasons @ [fail_reason])
      | Inr v \<Rightarrow> v)"

definition evaluate_keyword_rules :: "raw_group list \<Rightarrow> pystr option \<Rightarrow> verdict" where
  "evaluate_keyword_rules groups search_text =
     (let normalized_text = normalize_text search_text
      in if normalized_text = [] then negative_verdict msg_empty_text
         else if groups = [] then negative_verdict msg_no_groups
         else evaluate_loop normalized_text 1 groups [])"

text \<open>
  Two abbreviations used in the statements below. A group is hit by a normalised text when
  it has include keywords, all of them occur in the text and none of its exclude keywords
  does (the keyword lists do not depend on the fallback name). The failure reason of a
  group is what the loop body appends for it.
\<close>

definition group_hit :: "pystr \<Rightarrow> raw_group \<Rightarrow> bool" where
  "group_hit t g \<longleftrightarrow>
     (let f = extract_group_fields g [] in
      include_keywords f \<noteq> [] \<and> (\<forall>kw \<in> set (include_keywords f). sublist kw t) \<and>
      (\<forall>kw \<in> set (exclude_keywords f). \<not> sublist kw t))"

definition group_fail_reason :: "pystr \<Rightarrow> nat \<Rightarrow> raw_group \<Rightarrow> pystr" where
  "group_fail_reason t i g = (case evaluate_group t i g of Inl r \<Rightarrow> r | Inr v \<Rightarrow> [])"

subsection \<open>Listing records\<close>

text \<open>
  The values a scraped record holds. A float is identified by its \<open>repr\<close>, the text
  \<open>str\<close> returns for it; \<open>POther\<close> stands for a value of any other type (a tuple
  or a set), which \<open>_collect_text_fragments\<close> passes over and which has no
  \<open>get\<close>. A dictionary is the list of its items in insertion order.
\<close>

datatype pyval =
    PNone
  | PStr pystr
  | PInt int
  | PFloat pystr
  | PBool bool
  | PDict "(pystr \<times> pyval) list"
  | PList "pyval list"
  | POther

definition str_bool :: "bool \<Rightarrow> pystr" where
  "str_bool b = (if b then ascii ''True'' else ascii ''False'')"

text \<open>
  \<open>_collect_text_fragments\<close> appends to \<open>bucket\<close> in place; the model returns the
  new bucket, or the exception the call raises. \<open>bool\<close> is a subclass of \<open>int\<close>,
  so a boolean contributes \<open>"True"\<close> or \<open>"False"\<close>.

  The interpreter (CPython 3.11) bounds the depth of nested calls, and the function calls
  itself once for each level of nesting of the value. \<open>depth\<close> is the number of
  further levels the interpreter admits when the function is called, and
  \<open>RecursionError\<close> is raised where a level is needed and none is left. The call
  takes one level. While they run, \<open>isinstance\<close> with a tuple of classes,
  \<open>str(value)\<close> and \<open>value.values()\<close> take one more, so that every value
  that is neither \<open>None\<close> nor a string needs a second level; \<open>value.strip()\<close>,
  \<open>bucket.append\<close> and \<open>isinstance\<close> with one class take none.
\<close>

fun collect_text_fragments :: "nat \<Rightarrow> pyval \<Rightarrow> pystr list \<Rightarrow> error + pystr list" where
  "collect_text_fragments 0 v bucket = Inl RecursionError"
| "collect_text_fragments (Suc depth) PNone bucket = Inr bucket"
| "collect_text_fragments (Suc depth) (PStr s) bucket =
     (let text = strip s in if text \<noteq> [] then Inr (bucket @ [text]) else Inr bucket)"
| "collect_text_fragments (Suc depth) (PInt i) bucket =
     (if depth = 0 then Inl RecursionError
      else case str_of_int i of Inl e \<Rightarrow> Inl e | Inr text \<Rightarrow> Inr (bucket @ [text]))"
| "collect_text_fragments (Suc depth) (PFloat r) bucket =
     (if depth = 0 then Inl RecursionError else Inr (bucket @ [r]))"
| "collect_text_fragments (Suc depth) (PBool b) bucket =
     (if depth = 0 then Inl RecursionError else Inr (bucket @ [str_bool b]))"
| "collect_text_fragments (Suc depth) (PDict kvs) bucket =
     (if depth = 0 then Inl RecursionError
      else fold (\<lambda>item r. case r of Inl e \<Rightarrow> Inl e
                           | Inr b \<Rightarrow> collect_text_fragments depth item b)
             (map snd kvs) (Inr bucket))"
| "collect_text_fragments (Suc depth) (PList xs) bucket =
     (if depth = 0 then Inl RecursionError
      else fold (\<lambda>item r. case r of Inl e \<Rightarrow> Inl e
                           | Inr b \<Rightarrow> collect_text_fragments depth item b)
             xs (Inr bucket))"
| "collect_text_fragments (Suc depth) POther bucket =
     (if depth = 0 then Inl RecursionError else Inr bucket)"

text \<open>\<open>d.get(k, default)\<close> on a dictionary.\<close>

definition dict_get :: "(pystr \<times> pyval) list \<Rightarrow> pystr \<Rightarrow> pyval \<Rightarrow> pyval" where
  "dict_get d k dflt = (case map_of d k of None \<Rightarrow> dflt | Some v \<Rightarrow> v)"

definition key_product_info :: pystr where
  \<comment> \<open>the key "product information"\<close>
  "key_product_info = [21830, 21697, 20449, 24687]"

definition key_seller_info :: pystr where
  \<comment> \<open>the key "seller information"\<close>
  "key_seller_info = [21334, 23478, 20449, 24687]"

definition key_product_title :: pystr where
  \<comment> \<open>the key "product title"\<close>
  "key_product_title = [21830, 21697, 26631, 39064]"

text \<open>
  \<open>build_search_text\<close>. \<open>product_info.get\<close> is an attribute access: it raises
  \<open>AttributeError\<close> unless \<open>product_info\<close> is a dictionary. \<open>seller_info\<close>
  is only handed to \<open>_collect_text_fragments\<close>. An exception of one of the three
  calls ends the function. \<open>depth\<close> is the number of levels the interpreter admits
  for the calls the function makes; the two \<open>get\<close> take none, and the joining and
  \<open>normalize_text\<close> take two at most, which the call on \<open>product_info\<close>, a
  dictionary, has needed already.
\<close>

definition build_search_text :: "nat \<Rightarrow> (pystr \<times> pyval) list \<Rightarrow> error + pystr" where
  "build_search_text depth record =
     (let product_info = dict_get record key_product_info (PDict []);
          seller_info = dict_get record key_seller_info (PDict [])
      in case product_info of
           PDict kvs \<Rightarrow>
             (case collect_text_fragments depth (dict_get kvs key_product_title PNone) [] of
                Inl e \<Rightarrow> Inl e
              | Inr fragments \<Rightarrow>
                  (case collect_text_fragments depth product_info fragments of
                     Inl e \<Rightarrow> Inl e
                   | Inr fragments \<Rightarrow>
                       (case collect_text_fragments depth seller_info fragments of
                          Inl e \<Rightarrow> Inl e
                        | Inr fragments \<Rightarrow> Inr (normalize_text (Some (join [32] fragments))))))
         | _ \<Rightarrow> Inl AttributeError)"

text \<open>
  What a value asks of the interpreter. \<open>levels_needed v\<close> is the number of levels
  the call on \<open>v\<close> takes: one for \<open>None\<close> and for a string, two for any other
  value without items, and for a dictionary or a list one more than its deepest item takes,
  and two at least.
  \<open>ints_convertible v\<close>: every integer in \<open>v\<close> has
  \<open>int_max_str_digits\<close> decimal digits at most.
\<close>

fun levels_needed :: "pyval \<Rightarrow> nat" where
  "levels_needed PNone = 1"
| "levels_needed (PStr s) = 1"
| "levels_needed (PDict kvs) =
     Suc (fold (\<lambda>item m. max (levels_needed item) m) (map snd kvs) 1)"
| "levels_needed (PList xs) = Suc (fold (\<lambda>item m. max (levels_needed item) m) xs 1)"
| "levels_needed v = 2"

fun ints_convertible :: "pyval \<Rightarrow> bool" where
  "ints_convertible (PInt i) \<longleftrightarrow> \<bar>i\<bar> < 10 ^ int_max_str_digits"
| "ints_convertible (PDict kvs) \<longleftrightarrow> list_all ints_convertible (map snd kvs)"
| "ints_convertible (PList xs) \<longleftrightarrow> list_all ints_convertible xs"
| "ints_convertible v \<longleftrightarrow> True"

text \<open>
  The shape of a normalised text. A word is a non-empty string without white space; a
  string has no white-space run when no two neighbouring characters are both white space.
\<close>

fun no_whitespace_run :: "pystr \<Rightarrow> bool" where
  "no_whitespace_run (a # b # cs) \<longleftrightarrow> \<not> (isspace a \<and> isspace b) \<and> no_whitespace_run (b # cs)"
| "no_whitespace_run cs \<longleftrightarrow> True"

definition is_word :: "pystr \<Rightarrow> bool" where
  "is_word w \<longleftrightarrow> w \<noteq> [] \<and> (\<forall>c \<in> set w. \<not> isspace c)"

section \<open>The AI runtime configuration (config.py)\<close>

text \<open>
  An environment is a mapping from names to strings, held as the list of its items. The
  process environment \<open>os.environ\<close> is read by the function and is a parameter of
  the model. \<open>api_key\<close> is \<open>None\<close> when neither key is set.
\<close>

type_synonym environ = "(pystr \<times> pystr) list"

record ai_runtime_config =
  api_key :: "pystr option"
  base_url :: pystr
  model_name :: pystr
  is_gemini_openai_compat :: bool

definition GEMINI_OPENAI_COMPAT_BASE_URL :: pystr where
  "GEMINI_OPENAI_COMPAT_BASE_URL =
     ascii ''https://generativelanguage.googleapis.com/v1beta/openai/''"

definition GEMINI_DEFAULT_MODEL_NAME :: pystr where
  "GEMINI_DEFAULT_MODEL_NAME = ascii ''gemini-2.0-flash''"

text \<open>Truth value of an optional string: \<open>None\<close> and \<open>""\<close> are false.\<close>

definition truthy :: "pystr option \<Rightarrow> bool" where
  "truthy v \<longleftrightarrow> v \<noteq> None \<and> v \<noteq> Some []"

text \<open>\<open>source = env or os.environ\<close>: an absent and an empty mapping are both false.\<close>

definition env_source :: "environ option \<Rightarrow> environ \<Rightarrow> environ" where
  "env_source env os_environ =

       (case env of None \<Rightarrow> os_environ | Some e \<Rightarrow> if e = [] then os_environ else e)"

definition resolve_ai_runtime_config :: "environ option \<Rightarrow> environ \<Rightarrow> ai_runtime_config" where
  "resolve_ai_runtime_config env os_environ =
     (let source = env_source env os_environ;
          openai_api_key = map_of source (ascii ''OPENAI_API_KEY'');
          gemini_api_key = map_of source (ascii ''GEMINI_API_KEY'');
          base =
            (case map_of source (ascii ''OPENAI_BASE_URL'') of None \<Rightarrow> [] | Some s \<Rightarrow> s);
          model =
            (case map_of source (ascii ''OPENAI_MODEL_NAME'') of None \<Rightarrow> [] | Some s \<Rightarrow> s);
          use_gemini_defaults = (truthy gemini_api_key \<and> \<not> truthy openai_api_key);
          resolved_base_url =
            (if base \<noteq> [] then base
             else if use_gemini_defaults then GEMINI_OPENAI_COMPAT_BASE_URL else []);
          resolved_model_name =
            (if model \<noteq> [] then model
             else if use_gemini_defaults then GEMINI_DEFAULT_MODEL_NAME else [])
      in \<lparr> api_key = (if truthy openai_api_key then openai_api_key else gemini_api_key),
           base_url = resolved_base_url,
           model_name = resolved_model_name,
           is_gemini_openai_compat = use_gemini_defaults \<rparr>)"

section \<open>The task models (domain/models/task.py)\<close>

text \<open>
  The validator \<open>convert_price_to_str\<close>, declared with \<open>pre=True\<close> and so applied
  to the raw input value. \<open>TaskCreate\<close>, \<open>TaskUpdate\<close> and
  \<open>TaskGenerateRequest\<close> carry the same function body.
\<close>

definition convert_price_to_str :: "pyval \<Rightarrow> pyval" where
  "convert_price_to_str v =
     (if v = PStr [] \<or> v = PStr (ascii ''null'') \<or> v = PStr (ascii ''undefined'') \<or> v = PNone
      then PNone
      else case v of
             PInt i \<Rightarrow> PStr (str_int i)
           | PFloat r \<Rightarrow> PStr r
           | PBool b \<Rightarrow> PStr (str_bool b)
           | _ \<Rightarrow> v)"


text \<open>
  A \<open>KeywordRuleGroup\<close>: its three validated fields and the set of the fields that
  were given when it was built (\<open>__fields_set__\<close>).
\<close>

datatype group_field = F_name | F_include_keywords | F_exclude_keywords

record keyword_rule_group =
  krg_name :: "pystr option"
  krg_include_keywords :: "pystr list"
  krg_exclude_keywords :: "pystr list"
  krg_fields_set :: "group_field set"

text \<open>
  The dictionary \<open>dict()\<close> makes of a group: an entry is \<open>None\<close> when the key is
  missing. \<open>group.dict()\<close> has all three keys; \<open>group.dict(exclude_unset=True)\<close>
  has the keys of the fields that were set.
\<close>

record group_dict =
  gd_name :: "pystr option option"
  gd_include_keywords :: "pystr list option"
  gd_exclude_keywords :: "pystr list option"

definition group_dict_all :: "keyword_rule_group \<Rightarrow> group_dict" where
  "group_dict_all g =
     \<lparr> gd_name = Some (krg_name g),
       gd_include_keywords = Some (krg_include_keywords g),
       gd_exclude_keywords = Some (krg_exclude_keywords g) \<rparr>"

definition group_dict_exclude_unset :: "keyword_rule_group \<Rightarrow> group_dict" where
  "group_dict_exclude_unset g =
     \<lparr> gd_name = (if F_name \<in> krg_fields_set g then Some (krg_name g) else None),
       gd_include_keywords =
         (if F_include_keywords \<in> krg_fields_set g then Some (krg_include_keywords g) else None),
       gd_exclude_keywords =
         (if F_exclude_keywords \<in> krg_fields_set g then Some (krg_exclude_keywords g) else None) \<rparr>"

text \<open>
  What the field \<open>keyword_rule_groups\<close> of a \<open>Task\<close> holds for one group: the
  model the constructor built, or the dictionary \<open>copy(update=...)\<close> stored.
\<close>

datatype group_value = GroupModel keyword_rule_group | GroupDict group_dict

datatype decision_mode = Ai | Keyword

text \<open>The string a \<open>Literal["ai", "keyword"]\<close> value is.\<close>

fun mode_text :: "decision_mode \<Rightarrow> pystr" where
  "mode_text Ai = ascii ''ai''"
| "mode_text Keyword = ascii ''keyword''"

text \<open>
  \<open>_has_valid_keyword_groups\<close>: false on no groups, true at the first group with
  include keywords, false when the loop ends.
\<close>

fun has_valid_keyword_groups :: "keyword_rule_group list \<Rightarrow> bool" where
  "has_valid_keyword_groups [] = False"
| "has_valid_keyword_groups (g # groups) =
     (if krg_include_keywords g \<noteq> [] then True else has_valid_keyword_groups groups)"

definition msg_ai_description :: pystr where
  \<comment> \<open>"in AI decision mode, the detailed requirement (description) must not be empty."\<close>
  "msg_ai_description = [65, 73, 32, 21028, 26029, 27169, 24335, 19979, 65292, 35814, 32454,
     38656, 27714, 40, 100, 101, 115, 99, 114, 105, 112, 116, 105, 111, 110, 41, 19981, 33021,
     20026, 31354, 12290]"

definition msg_keyword_groups :: pystr where
  \<comment> \<open>"in keyword decision mode, at least one include keyword is needed."\<close>
  "msg_keyword_groups = [20851, 38190, 35789, 21028, 26029, 27169, 24335, 19979, 65292, 33267,
     23569, 38656, 35201, 19968, 20010, 21253, 21547, 20851, 38190, 35789, 12290]"

definition msg_str_type :: pystr where
  "msg_str_type = ascii ''str type expected''"

text \<open>
  A price field: the pre-validator, then the field's own check that the value is a string
  or \<open>None\<close>. \<open>Inl\<close> is the field's error message.
\<close>

definition validate_price :: "pyval \<Rightarrow> pystr + pystr option" where
  "validate_price v =
     (case convert_price_to_str v of
        PNone \<Rightarrow> Inr None
      | PStr s \<Rightarrow> Inr (Some s)
      | _ \<Rightarrow> Inl msg_str_type)"

subsection \<open>Task\<close>

text \<open>
  The fields of a \<open>Task\<close>. \<open>copy(update=...)\<close> stores values without validating
  them, so every field can hold \<open>None\<close> after \<open>apply_update\<close>, also one annotated
  \<open>str\<close>, \<open>bool\<close> or \<open>int\<close>, and a rule group can be a dictionary.
\<close>

record task =
  t_id :: "int option"
  t_task_name :: "pystr option"
  t_enabled :: "bool option"
  t_keyword :: "pystr option"
  t_description :: "pystr option"
  t_max_pages :: "int option"
  t_personal_only :: "bool option"
  t_min_price :: "pystr option"
  t_max_price :: "pystr option"
  t_cron :: "pystr option"
  t_ai_prompt_base_file :: "pystr option"
  t_ai_prompt_criteria_file :: "pystr option"
  t_account_state_file :: "pystr option"
  t_free_shipping :: "bool option"
  t_new_publish_option :: "pystr option"
  t_region :: "pystr option"
  t_decision_mode :: "decision_mode option"
  t_keyword_rule_groups :: "group_value list option"
  t_is_running :: "bool option"

record task_kwargs =
  tk_id :: "int option"
  tk_task_name :: pystr
  tk_enabled :: bool
  tk_keyword :: pystr
  tk_description :: "pystr option option"
  tk_max_pages :: int
  tk_personal_only :: bool
  tk_min_price :: "pystr option"
  tk_max_price :: "pystr option"
  tk_cron :: "pystr option"
  tk_ai_prompt_base_file :: pystr
  tk_ai_prompt_criteria_file :: pystr
  tk_account_state_file :: "pystr option"
  tk_free_shipping :: "bool option"
  tk_new_publish_option :: "pystr option"
  tk_region :: "pystr option"
  tk_decision_mode :: "decision_mode option"
  tk_keyword_rule_groups :: "keyword_rule_group list option"
  tk_is_running :: "bool option"

text \<open>
  \<open>Task(**kw)\<close> on well-typed arguments: an argument with a default may be left out
  (\<open>None\<close>; for \<open>description\<close>, whose default is \<open>""\<close>, \<open>Some None\<close> is an
  explicit \<open>None\<close>). The class declares no validator, so nothing is checked.
\<close>

definition Task :: "task_kwargs \<Rightarrow> error + task" where
  "Task kw = Inr
     \<lparr> t_id = tk_id kw,
       t_task_name = Some (tk_task_name kw),
       t_enabled = Some (tk_enabled kw),
       t_keyword = Some (tk_keyword kw),
       t_description =
         (case tk_description kw of None \<Rightarrow> Some [] | Some d \<Rightarrow> d),
       t_max_pages = Some (tk_max_pages kw),
       t_personal_only = Some (tk_personal_only kw),
       t_min_price = tk_min_price kw,
       t_max_price = tk_max_price kw,
       t_cron = tk_cron kw,
       t_ai_prompt_base_file = Some (tk_ai_prompt_base_file kw),
       t_ai_prompt_criteria_file = Some (tk_ai_prompt_criteria_file kw),
       t_account_state_file = tk_account_state_file kw,
       t_free_shipping = Some
         (case tk_free_shipping kw of None \<Rightarrow> True | Some v \<Rightarrow> v),
       t_new_publish_option = tk_new_publish_option kw,
       t_region = tk_region kw,
       t_decision_mode = Some
         (case tk_decision_mode kw of None \<Rightarrow> Ai | Some v \<Rightarrow> v),
       t_keyword_rule_groups = Some
         (map GroupModel (case tk_keyword_rule_groups kw of None \<Rightarrow> [] | Some v \<Rightarrow> v)),
       t_is_running = Some
         (case tk_is_running kw of None \<Rightarrow> False | Some v \<Rightarrow> v) \<rparr>"

subsection \<open>TaskCreate\<close>

record task_create =
  c_task_name :: pystr
  c_enabled :: bool
  c_keyword :: pystr
  c_description :: "pystr option"
  c_max_pages :: int
  c_personal_only :: bool
  c_min_price :: "pystr option"
  c_max_price :: "pystr option"
  c_cron :: "pystr option"
  c_ai_prompt_base_file :: pystr
  c_ai_prompt_criteria_file :: pystr
  c_account_state_file :: "pystr option"
  c_free_shipping :: bool
  c_new_publish_option :: "pystr option"
  c_region :: "pystr option"
  c_decision_mode :: decision_mode
  c_keyword_rule_groups :: "keyword_rule_group list"

record task_create_kwargs =
  ck_task_name :: pystr
  ck_enabled :: "bool option"
  ck_keyword :: pystr
  ck_description :: "pystr option option"
  ck_max_pages :: "int option"
  ck_personal_only :: "bool option"
  ck_min_price :: "pyval option"
  ck_max_price :: "pyval option"
  ck_cron :: "pystr option"
  ck_ai_prompt_base_file :: "pystr option"
  ck_ai_prompt_criteria_file :: pystr
  ck_account_state_file :: "pystr option"
  ck_free_shipping :: "bool option"
  ck_new_publish_option :: "pystr option"
  ck_region :: "pystr option"
  ck_decision_mode :: "decision_mode option"
  ck_keyword_rule_groups :: "keyword_rule_group list option"

text \<open>
  The root validator of \<open>TaskCreate\<close>, on the validated field values.
\<close>

definition validate_decision_mode_payload :: "task_create \<Rightarrow> error + task_create" where
  "validate_decision_mode_payload vals =
     (let mode = lower (mode_text (c_decision_mode vals));
          description = strip
            (case c_description vals of None \<Rightarrow> [] | Some s \<Rightarrow> s);
          keyword_groups = c_keyword_rule_groups vals
      in if mode = ascii ''ai'' \<and> description = [] then
           Inl (ValidationError [msg_ai_description])
         else if mode = ascii ''keyword'' \<and> \<not> has_valid_keyword_groups keyword_groups then
           Inl (ValidationError [msg_keyword_groups])
         else Inr vals)"

definition price_field :: "pyval option \<Rightarrow> pystr + pystr option" where
  "price_field v =
    (case v of None \<Rightarrow> Inr None | Some x \<Rightarrow> validate_price x)"

text \<open>
  \<open>TaskCreate(**kw)\<close> on arguments that are well-typed but for the two prices, which
  arrive raw: defaults, the price fields, and the root validator, which is skipped when a
  field has failed (\<open>skip_on_failure=True\<close>).
\<close>

definition TaskCreate :: "task_create_kwargs \<Rightarrow> error + task_create" where
  "TaskCreate kw =
     (case (price_field (ck_min_price kw), price_field (ck_max_price kw)) of
        (Inr lo, Inr hi) \<Rightarrow>
          validate_decision_mode_payload
            \<lparr> c_task_name = ck_task_name kw,
              c_enabled =
                (case ck_enabled kw of None \<Rightarrow> True | Some v \<Rightarrow> v),
              c_keyword = ck_keyword kw,
              c_description =
                (case ck_description kw of None \<Rightarrow> Some [] | Some d \<Rightarrow> d),
              c_max_pages =
                (case ck_max_pages kw of None \<Rightarrow> 3 | Some v \<Rightarrow> v),
              c_personal_only =
                (case ck_personal_only kw of None \<Rightarrow> True | Some v \<Rightarrow> v),
              c_min_price = lo,
              c_max_price = hi,
              c_cron = ck_cron kw,
              c_ai_prompt_base_file =
                (case ck_ai_prompt_base_file kw of None \<Rightarrow> ascii ''prompts/base_prompt.txt'' | Some v \<Rightarrow> v),
              c_ai_prompt_criteria_file = ck_ai_prompt_criteria_file kw,
              c_account_state_file = ck_account_state_file kw,
              c_free_shipping =
                (case ck_free_shipping kw of None \<Rightarrow> True | Some v \<Rightarrow> v),
              c_new_publish_option = ck_new_publish_option kw,
              c_region = ck_region kw,
              c_decision_mode =
                (case ck_decision_mode kw of None \<Rightarrow> Ai | Some v \<Rightarrow> v),
              c_keyword_rule_groups =
                (case ck_keyword_rule_groups kw of None \<Rightarrow> [] | Some v \<Rightarrow> v) \<rparr>
      | (Inl e, Inr hi) \<Rightarrow> Inl (ValidationError [e])
      | (Inr lo, Inl e) \<Rightarrow> Inl (ValidationError [e])
      | (Inl e, Inl e') \<Rightarrow> Inl (ValidationError [e, e']))"
subsection \<open>TaskUpdate\<close>

text \<open>
  Every field of a \<open>TaskUpdate\<close> is optional. A field is \<open>None\<close> when the update
  does not set it and \<open>Some v\<close> when it sets it to \<open>v\<close>, which may itself be
  \<open>None\<close>; \<open>update.dict(exclude_unset=True)\<close> holds the fields that are set. The
  two prices have type \<open>'price\<close>: a raw value in the arguments, an optional string in
  the validated update.
\<close>

record 'price task_update =
  u_task_name :: "pystr option option"
  u_enabled :: "bool option option"
  u_keyword :: "pystr option option"
  u_description :: "pystr option option"
  u_max_pages :: "int option option"
  u_personal_only :: "bool option option"
  u_min_price :: "'price option"
  u_max_price :: "'price option"
  u_cron :: "pystr option option"
  u_ai_prompt_base_file :: "pystr option option"
  u_ai_prompt_criteria_file :: "pystr option option"
  u_account_state_file :: "pystr option option"
  u_free_shipping :: "bool option option"
  u_new_publish_option :: "pystr option option"
  u_region :: "pystr option option"
  u_decision_mode :: "decision_mode option option"
  u_keyword_rule_groups :: "keyword_rule_group list option option"
  u_is_running :: "bool option option"

text \<open>\<open>values.get(name)\<close> in the root validator: an unset field holds its default \<open>None\<close>.\<close>

definition field_value :: "'a option option \<Rightarrow> 'a option" where
  "field_value f = (case f of None \<Rightarrow> None | Some v \<Rightarrow> v)"

definition validate_partial_keyword_payload ::
  "(pystr option) task_update \<Rightarrow> error + (pystr option) task_update" where
  "validate_partial_keyword_payload vals =
     (let mode = field_value (u_decision_mode vals);
          groups = field_value (u_keyword_rule_groups vals);
          description = field_value (u_description vals)
      in if mode = Some Keyword \<and> groups \<noteq> None \<and> \<not> has_valid_keyword_groups (the groups) then
           Inl (ValidationError [msg_keyword_groups])
         else if mode = Some Ai \<and> description \<noteq> None \<and> strip (the description) = [] then
           Inl (ValidationError [msg_ai_description])
         else Inr vals)"

definition price_supplied :: "pyval option \<Rightarrow> pystr + pystr option option" where
  "price_supplied v =
     (case v of
        None \<Rightarrow> Inr None
      | Some x \<Rightarrow>
        (case validate_price x of Inl e \<Rightarrow> Inl e | Inr p \<Rightarrow> Inr (Some p)))"

definition TaskUpdate :: "pyval task_update \<Rightarrow> error + (pystr option) task_update" where
  "TaskUpdate kw =
     (case (price_supplied (u_min_price kw), price_supplied (u_max_price kw)) of
        (Inr lo, Inr hi) \<Rightarrow>
          validate_partial_keyword_payload
            \<lparr> u_task_name = u_task_name kw,
              u_enabled = u_enabled kw,
              u_keyword = u_keyword kw,
              u_description = u_description kw,
              u_max_pages = u_max_pages kw,
              u_personal_only = u_personal_only kw,
              u_min_price = lo,
              u_max_price = hi,
              u_cron = u_cron kw,
              u_ai_prompt_base_file = u_ai_prompt_base_file kw,
              u_ai_prompt_criteria_file = u_ai_prompt_criteria_file kw,
              u_account_state_file = u_account_state_file kw,
              u_free_shipping = u_free_shipping kw,
              u_new_publish_option = u_new_publish_option kw,
              u_region = u_region kw,
              u_decision_mode = u_decision_mode kw,
              u_keyword_rule_groups = u_keyword_rule_groups kw,
              u_is_running = u_is_running kw \<rparr>
      | (Inl e, Inr hi) \<Rightarrow> Inl (ValidationError [e])
      | (Inr lo, Inl e) \<Rightarrow> Inl (ValidationError [e])
      | (Inl e, Inl e') \<Rightarrow> Inl (ValidationError [e, e']))"

text \<open>
  The value \<open>update.dict(exclude_unset=True)\<close> holds for \<open>keyword_rule_groups\<close>:
  \<open>dict\<close> turns every group of the list into its dictionary, with
  \<open>exclude_unset\<close> passed on.
\<close>

definition dict_groups :: "keyword_rule_group list option \<Rightarrow> group_value list option" where
  "dict_groups v = map_option (map (\<lambda>g. GroupDict (group_dict_exclude_unset g))) v"

text \<open>
  \<open>apply_update\<close>: the fields \<open>update.dict(exclude_unset=True)\<close> holds replace
  those of \<open>self\<close> in the copy, unvalidated.
\<close>

definition apply_update :: "task \<Rightarrow> (pystr option) task_update \<Rightarrow> task" where
  "apply_update self update =
     \<lparr> t_id = t_id self,
       t_task_name =
         (case u_task_name update of None \<Rightarrow> t_task_name self | Some v \<Rightarrow> v),
       t_enabled =
         (case u_enabled update of None \<Rightarrow> t_enabled self | Some v \<Rightarrow> v),
       t_keyword =
         (case u_keyword update of None \<Rightarrow> t_keyword self | Some v \<Rightarrow> v),
       t_description =
         (case u_description update of None \<Rightarrow> t_description self | Some v \<Rightarrow> v),
       t_max_pages =
         (case u_max_pages update of None \<Rightarrow> t_max_pages self | Some v \<Rightarrow> v),
       t_personal_only =
         (case u_personal_only update of None \<Rightarrow> t_personal_only self | Some v \<Rightarrow> v),
       t_min_price =
         (case u_min_price update of None \<Rightarrow> t_min_price self | Some v \<Rightarrow> v),
       t_max_price =
         (case u_max_price update of None \<Rightarrow> t_max_price self | Some v \<Rightarrow> v),
       t_cron = (case u_cron update of None \<Rightarrow> t_cron self | Some v \<Rightarrow> v),
       t_ai_prompt_base_file =
         (case u_ai_prompt_base_file update of None \<Rightarrow> t_ai_prompt_base_file self | Some v \<Rightarrow> v),
       t_ai_prompt_criteria_file =
         (case u_ai_prompt_criteria_file update of None \<Rightarrow> t_ai_prompt_criteria_file self | Some v \<Rightarrow> v),
       t_account_state_file =
         (case u_account_state_file update of None \<Rightarrow> t_account_state_file self | Some v \<Rightarrow> v),
       t_free_shipping =
         (case u_free_shipping update of None \<Rightarrow> t_free_shipping self | Some v \<Rightarrow> v),
       t_new_publish_option =
         (case u_new_publish_option update of None \<Rightarrow> t_new_publish_option self | Some v \<Rightarrow> v),
       t_region =
         (case u_region update of None \<Rightarrow> t_region self | Some v \<Rightarrow> v),
       t_decision_mode =
         (case u_decision_mode update of None \<Rightarrow> t_decision_mode self | Some v \<Rightarrow> v),
       t_keyword_rule_groups =
         (case u_keyword_rule_groups update of None \<Rightarrow> t_keyword_rule_groups self
          | Some v \<Rightarrow> dict_groups v),
       t_is_running =
         (case u_is_running update of None \<Rightarrow> t_is_running self | Some v \<Rightarrow> v) \<rparr>"

text \<open>
  \<open>self.dict()\<close> as far as the rule groups go: a group model becomes the dictionary
  of all its fields, a dictionary stays as it is. Comparing two tasks with \<open>==\<close>
  compares either the values they hold or their \<open>dict()\<close>, depending on the
  library's version; the statements below cover both.
\<close>

definition group_value_dict :: "group_value \<Rightarrow> group_dict" where
  "group_value_dict v = (case v of GroupModel g \<Rightarrow> group_dict_all g | GroupDict d \<Rightarrow> d)"

definition task_dict :: "task \<Rightarrow> task" where
  "task_dict t =
     t \<lparr> t_keyword_rule_groups :=
           map_option (map (\<lambda>v. GroupDict (group_value_dict v))) (t_keyword_rule_groups t) \<rparr>"

section \<open>Sample inputs\<close>

definition g_canon :: raw_group where
  "g_canon = \<lparr> raw_name = None, raw_include_keywords = Some [ascii ''A7M4'', ascii ''Canon''],
               raw_exclude_keywords = None \<rparr>"
definition g_sony :: raw_group where
  "g_sony = \<lparr> raw_name = None, raw_include_keywords = Some [ascii ''a7m4'', ascii '' SONY ''],
               raw_exclude_keywords = Some [ascii ''broken''] \<rparr>"

definition sample_text :: "pystr option" where
  "sample_text = Some (ascii ''Sony  A7M4'')"

definition g_empty :: raw_group where
  "g_empty = \<lparr> raw_name = Some (ascii '' g0 ''), raw_include_keywords = Some [ascii ''  ''],
               raw_exclude_keywords = None \<rparr>"

definition sample_record :: "(pystr \<times> pyval) list" where
  "sample_record =
     [(key_product_info,
       PDict [(key_product_title, PStr (ascii '' Sony  A7M4 '')),
              (ascii ''price'', PInt 100),
              (ascii ''tags'', PList [PStr (ascii ''Mint''), PNone, PBool True])]),
      (key_seller_info, PDict [(ascii ''name'', PStr (ascii ''Shop''))])]"


definition gemini_only_env :: environ where
  "gemini_only_env =
     [(ascii ''GEMINI_API_KEY'', ascii ''gemini-key''),
      (ascii ''OPENAI_BASE_URL'', []),
      (ascii ''OPENAI_MODEL_NAME'', [])]"

definition both_keys_env :: environ where
  "both_keys_env =
     [(ascii ''OPENAI_API_KEY'', ascii ''openai-key''),
      (ascii ''GEMINI_API_KEY'', ascii ''gemini-key''),
      (ascii ''OPENAI_BASE_URL'', GEMINI_OPENAI_COMPAT_BASE_URL),
      (ascii ''OPENAI_MODEL_NAME'', ascii ''gemini-2.5-flash'')]"

text \<open>Two rule groups: one built from exclude keywords only, one from include keywords only.\<close>

definition group_without_include :: keyword_rule_group where
  "group_without_include =
     \<lparr> krg_name = None, krg_include_keywords = [], krg_exclude_keywords = [ascii ''broken''],
       krg_fields_set = {F_exclude_keywords} \<rparr>"

definition group_a7m4 :: keyword_rule_group where
  "group_a7m4 =
     \<lparr> krg_name = None, krg_include_keywords = [ascii ''a7m4''], krg_exclude_keywords = [],
       krg_fields_set = {F_include_keywords} \<rparr>"

text \<open>A payload in AI mode (the default) that leaves the description out.\<close>

definition blank_task_kwargs :: task_kwargs where
  "blank_task_kwargs =
     \<lparr> tk_id = None,
       tk_task_name = ascii ''camera'',
       tk_enabled = True,
       tk_keyword = ascii ''a7m4'',
       tk_description = None,
       tk_max_pages = 3,
       tk_personal_only = True,
       tk_min_price = None,
       tk_max_price = None,
       tk_cron = None,
       tk_ai_prompt_base_file = ascii ''base.txt'',
       tk_ai_prompt_criteria_file = ascii ''criteria.txt'',
       tk_account_state_file = None,
       tk_free_shipping = None,
       tk_new_publish_option = None,
       tk_region = None,
       tk_decision_mode = None,
       tk_keyword_rule_groups = None,
       tk_is_running = None \<rparr>"

definition blank_create_kwargs :: task_create_kwargs where
  "blank_create_kwargs =
     \<lparr> ck_task_name = ascii ''camera'',
       ck_enabled = None,
       ck_keyword = ascii ''a7m4'',
       ck_description = None,
       ck_max_pages = None,
       ck_personal_only = None,
       ck_min_price = None,
       ck_max_price = None,
       ck_cron = None,
       ck_ai_prompt_base_file = None,
       ck_ai_prompt_criteria_file = ascii ''criteria.txt'',
       ck_account_state_file = None,
       ck_free_shipping = None,
       ck_new_publish_option = None,
       ck_region = None,
       ck_decision_mode = None,
       ck_keyword_rule_groups = None \<rparr>"

definition sample_create_kwargs :: task_create_kwargs where
  "sample_create_kwargs =
     \<lparr> ck_task_name = ascii ''camera'',
       ck_enabled = None,
       ck_keyword = ascii ''a7m4'',
       ck_description = Some (Some (ascii ''mint body'')),
       ck_max_pages = None,
       ck_personal_only = None,
       ck_min_price = Some (PInt 100),
       ck_max_price = None,
       ck_cron = None,
       ck_ai_prompt_base_file = None,
       ck_ai_prompt_criteria_file = ascii ''criteria.txt'',
       ck_account_state_file = None,
       ck_free_shipping = None,
       ck_new_publish_option = None,
       ck_region = None,
       ck_decision_mode = None,
       ck_keyword_rule_groups = None \<rparr>"

definition keyword_create_kwargs :: task_create_kwargs where
  "keyword_create_kwargs =
     \<lparr> ck_task_name = ascii ''camera'',
       ck_enabled = None,
       ck_keyword = ascii ''a7m4'',
       ck_description = None,
       ck_max_pages = None,
       ck_personal_only = None,
       ck_min_price = None,
       ck_max_price = None,
       ck_cron = None,
       ck_ai_prompt_base_file = None,
       ck_ai_prompt_criteria_file = ascii ''criteria.txt'',
       ck_account_state_file = None,
       ck_free_shipping = None,
       ck_new_publish_option = None,
       ck_region = None,
       ck_decision_mode = Some Keyword,
       ck_keyword_rule_groups = Some [group_without_include] \<rparr>"

text \<open>A task in AI mode with a description, and three partial updates.\<close>

definition sample_task :: task where
  "sample_task =
     \<lparr> t_id = Some 7,
       t_task_name = Some (ascii ''camera''),
       t_enabled = Some True,
       t_keyword = Some (ascii ''a7m4''),
       t_description = Some (ascii ''mint body''),
       t_max_pages = Some 3,
       t_personal_only = Some True,
       t_min_price = None,
       t_max_price = None,
       t_cron = None,
       t_ai_prompt_base_file = Some (ascii ''base.txt''),
       t_ai_prompt_criteria_file = Some (ascii ''criteria.txt''),
       t_account_state_file = None,
       t_free_shipping = Some True,
       t_new_publish_option = None,
       t_region = None,
       t_decision_mode = Some Ai,
       t_keyword_rule_groups = Some [],
       t_is_running = Some False \<rparr>"

definition empty_update :: "'p task_update" where
  "empty_update =
     \<lparr> u_task_name = None,
       u_enabled = None,
       u_keyword = None,
       u_description = None,
       u_max_pages = None,
       u_personal_only = None,
       u_min_price = None,
       u_max_price = None,
       u_cron = None,
       u_ai_prompt_base_file = None,
       u_ai_prompt_criteria_file = None,
       u_account_state_file = None,
       u_free_shipping = None,
       u_new_publish_option = None,
       u_region = None,
       u_decision_mode = None,
       u_keyword_rule_groups = None,
       u_is_running = None \<rparr>"

definition update_only_groups :: "(pystr option) task_update" where
  "update_only_groups = empty_update \<lparr> u_keyword_rule_groups := Some (Some []) \<rparr>"

definition update_only_mode :: "(pystr option) task_update" where
  "update_only_mode = empty_update \<lparr> u_decision_mode := Some (Some Keyword) \<rparr>"

definition update_same_description :: "(pystr option) task_update" where
  "update_same_description =
     empty_update \<lparr> u_description := Some (Some (ascii ''mint body'')) \<rparr>"

text \<open>A task that holds one rule group, and the update that sets the same group again.\<close>

definition task_with_group :: task where
  "task_with_group = sample_task \<lparr> t_keyword_rule_groups := Some [GroupModel group_a7m4] \<rparr>"

definition update_same_groups :: "(pystr option) task_update" where
  "update_same_groups = empty_update \<lparr> u_keyword_rule_groups := Some (Some [group_a7m4]) \<rparr>"

definition update_keyword_no_include :: "(pystr option) task_update" where
  "update_keyword_no_include =
     empty_update \<lparr> u_decision_mode := Some (Some Keyword),
       u_keyword_rule_groups := Some (Some [group_without_include]) \<rparr>"

definition update_ai_blank :: "(pystr option) task_update" where
  "update_ai_blank =
     empty_update \<lparr> u_decision_mode := Some (Some Ai), u_description := Some (Some [32, 32]) \<rparr>"

section \<open>Properties of Python strings\<close>

lemma ws_freeD:
  assumes "ws_free a b" and "a \<le> c" and "c \<le> b"
  shows "\<not> isspace c"
proof
  assume "isspace c"
  then consider "9 \<le> c \<and> c \<le> 13" | "28 \<le> c \<and> c \<le> 32" | "c = 133" | "c = 160" | "c = 5760" | "8192 \<le> c \<and> c \<le> 8202" | "c = 8232 \<or> c = 8233" | "c = 8239" | "c = 8287" | "c = 12288"
    unfolding isspace_def by blast
  then show False
  proof cases
    case 1
    moreover from assms(1) have "b < 9 \<or> 13 < a" unfolding ws_free_def by blast
    ultimately show False using assms(2,3) by linarith
  next
    case 2
    moreover from assms(1) have "b < 28 \<or> 32 < a" unfolding ws_free_def by blast
    ultimately show False using assms(2,3) by linarith
  next
    case 3
    moreover from assms(1) have "b < 133 \<or> 133 < a" unfolding ws_free_def by blast
    ultimately show False using assms(2,3) by linarith
  next
    case 4
    moreover from assms(1) have "b < 160 \<or> 160 < a" unfolding ws_free_def by blast
    ultimately show False using assms(2,3) by linarith
  next
    case 5
    moreover from assms(1) have "b < 5760 \<or> 5760 < a" unfolding ws_free_def by blast
    ultimately show False using assms(2,3) by linarith
  next
    case 6
    moreover from assms(1) have "b < 8192 \<or> 8202 < a" unfolding ws_free_def by blast
    ultimately show False using assms(2,3) by linarith
  next
    case 7
    moreover from assms(1) have "b < 8232 \<or> 8233 < a" unfolding ws_free_def by blast
    ultimately show False using assms(2,3) by linarith
  next
    case 8
    moreover from assms(1) have "b < 8239 \<or> 8239 < a" unfolding ws_free_def by blast
    ultimately show False using assms(2,3) by linarith
  next
    case 9
    moreover from assms(1) have "b < 8287 \<or> 8287 < a" unfolding ws_free_def by blast
    ultimately show False using assms(2,3) by linarith
  next
    case 10
    moreover from assms(1) have "b < 12288 \<or> 12288 < a" unfolding ws_free_def by blast
    ultimately show False using assms(2,3) by linarith
  qed
qed

lemma lower_table_ok: "list_all entry_ok lower_table"
  by (simp add: lower_table_def entry_ok_def ws_free_def)

lemma cased_table_ok: "list_all range_ws_free cased_table"
  by (simp add: cased_table_def range_ws_free_def ws_free_def)

lemma case_ignorable_table_ok: "list_all range_ws_free case_ignorable_table"
  by (simp add: case_ignorable_table_def range_ws_free_def ws_free_def)

lemma lower_table_fixed: "list_all targets_fixed lower_table"
proof -
  have inner: "targets_fixed ((lo, hi, st), t) =
      list_all (target_fixed t (t + (hi - lo)) (st = 2 \<or> lo = hi)) lower_table" for lo hi st t
    by (simp add: targets_fixed_def)
  show ?thesis
    apply (subst lower_table_def)
    apply (simp only: list.pred_inject inner)
    apply (simp add: lower_table_def target_fixed_def)
    done
qed

lemma same_parity: "(lo'::nat) \<le> d \<Longrightarrow> (d - lo') mod 2 = 0 \<Longrightarrow> d mod 2 = lo' mod 2"
  by presburger

lemma add_even_parity: "(k::nat) mod 2 = 0 \<Longrightarrow> (t + k) mod 2 = t mod 2"
  by presburger

lemma target_fixedD:
  assumes "target_fixed t (t + (hi - lo)) (st = 2 \<or> lo = hi) ((lo', hi', st'), t')"
    and "in_range c (lo, hi, st)"
  shows "\<not> in_range (t + (c - lo)) (lo', hi', st')"
proof
  assume d: "in_range (t + (c - lo)) (lo', hi', st')"
  from assms(2) have c: "lo \<le> c" "c \<le> hi" and cm: "(c - lo) mod st = 0"
    unfolding in_range_def by simp_all
  from d have r: "lo' \<le> t + (c - lo)" "t + (c - lo) \<le> hi'"
    and rm: "(t + (c - lo) - lo') mod st' = 0"
    unfolding in_range_def by simp_all
  from c r have n: "\<not> t + (hi - lo) < lo'" "\<not> hi' < t" by linarith+
  from assms(1) n have p: "st' = 2" "st = 2 \<or> lo = hi" "t mod 2 \<noteq> lo' mod 2"
    unfolding target_fixed_def by simp_all
  from p(2) c cm have "(c - lo) mod 2 = 0" by auto
  then have "(t + (c - lo)) mod 2 = t mod 2" by (rule add_even_parity)
  moreover from r(1) rm p(1) have "(t + (c - lo)) mod 2 = lo' mod 2"
    by (simp add: same_parity)
  ultimately show False using p(3) by simp
qed

lemma find_range_None:
  "find (\<lambda>(r, t). in_range c r) T = None \<longleftrightarrow> (\<forall>e \<in> set T. \<not> in_range c (fst e))"
  by (induction T) (simp_all add: case_prod_beta)

lemma lower_char_cases:
  obtains (dot) "c = 304" "lower_char c = [105, 775]"
  | (self) "c \<noteq> 304" "\<forall>e \<in> set lower_table. \<not> in_range c (fst e)" "lower_char c = [c]"
  | (entry) lo hi st t where "c \<noteq> 304" "((lo, hi, st), t) \<in> set lower_table"
      "in_range c (lo, hi, st)" "lower_char c = [t + (c - lo)]"
proof (cases "c = 304")
  case True
  then show ?thesis using dot by (simp add: lower_char_def)
next
  case False
  show ?thesis
  proof (cases "find (\<lambda>(r, t). in_range c r) lower_table")
    case None
    then have "\<forall>e \<in> set lower_table. \<not> in_range c (fst e)"
      by (simp add: find_range_None)
    with False None show ?thesis using self by (simp add: lower_char_def)
  next
    case (Some e)
    obtain lo hi st t where e: "e = ((lo, hi, st), t)" by (metis prod_cases3 surj_pair)
    from Some e have "((lo, hi, st), t) \<in> set lower_table" "in_range c (lo, hi, st)"
      by (auto simp add: find_Some_iff in_set_conv_nth)
    with False Some e show ?thesis using entry by (simp add: lower_char_def)
  qed
qed

lemma lower_entry_ok: "e \<in> set lower_table \<Longrightarrow> entry_ok e"
  using lower_table_ok by (simp add: list_all_iff)

lemma lower_entry_fixed: "e \<in> set lower_table \<Longrightarrow> targets_fixed e"
  using lower_table_fixed by (simp add: list_all_iff)

lemma isspace_304: "\<not> isspace 304" by (simp add: isspace_def)
lemma isspace_931: "\<not> isspace 931" by (simp add: isspace_def)

lemma lower_char_space: "isspace c \<Longrightarrow> lower_char c = [c]"
proof (cases c rule: lower_char_cases)
  case dot
  assume "isspace c"
  with dot isspace_304 show ?thesis by simp
next
  case self
  then show ?thesis by simp
next
  case (entry lo hi st t)
  assume sp: "isspace c"
  from entry(2) have "ws_free lo hi" using lower_entry_ok by (fastforce simp add: entry_ok_def)
  moreover from entry(3) have "lo \<le> c" "c \<le> hi" by (simp_all add: in_range_def)
  ultimately have "\<not> isspace c" by (rule ws_freeD)
  with sp show ?thesis by simp
qed

lemma in_ranges_space:
  assumes "list_all range_ws_free rs" and "isspace c"
  shows "\<not> in_ranges c rs"
proof
  assume "in_ranges c rs"
  then obtain lo hi st where r: "(lo, hi, st) \<in> set rs" "in_range c (lo, hi, st)"
    by (auto simp add: in_ranges_def list_ex_iff)
  from r(1) assms(1) have "ws_free lo hi" by (auto simp add: list_all_iff range_ws_free_def)
  moreover from r(2) have "lo \<le> c" "c \<le> hi" by (simp_all add: in_range_def)
  ultimately have "\<not> isspace c" by (rule ws_freeD)
  with assms(2) show False by simp
qed

lemma cased_space: "isspace c \<Longrightarrow> \<not> cased c"
  unfolding cased_def by (rule in_ranges_space [OF cased_table_ok])

lemma case_ignorable_space: "isspace c \<Longrightarrow> \<not> case_ignorable c"
  unfolding case_ignorable_def by (rule in_ranges_space [OF case_ignorable_table_ok])

lemma lower_char_105: "lower_char 105 = [105]"
  by (simp add: lower_char_def lower_table_def in_range_def)
lemma lower_char_775: "lower_char 775 = [775]"
  by (simp add: lower_char_def lower_table_def in_range_def)
lemma lower_char_962: "lower_char 962 = [962]"
  by (simp add: lower_char_def lower_table_def in_range_def)
lemma lower_char_963: "lower_char 963 = [963]"
  by (simp add: lower_char_def lower_table_def in_range_def)
lemma lower_char_931: "lower_char 931 = [963]"
  by (simp add: lower_char_def lower_table_def in_range_def)

lemma lower_char_nonempty: "lower_char c \<noteq> []"
  by (cases c rule: lower_char_cases) simp_all

lemma lower_char_nonspace:
  assumes "\<not> isspace c" and "d \<in> set (lower_char c)"
  shows "\<not> isspace d"
proof (cases c rule: lower_char_cases)
  case dot
  with assms(2) show ?thesis by (auto simp add: isspace_def)
next
  case self
  with assms show ?thesis by simp
next
  case (entry lo hi st t)
  from entry(2) have "ws_free t (t + (hi - lo))"
    using lower_entry_ok by (fastforce simp add: entry_ok_def)
  moreover from entry(3) have "lo \<le> c \<and> c \<le> hi" by (simp add: in_range_def)
  then have "t \<le> t + (c - lo)" "t + (c - lo) \<le> t + (hi - lo)" by linarith+
  ultimately have "\<not> isspace (t + (c - lo))" by (rule ws_freeD)
  with entry(4) assms(2) show ?thesis by simp
qed

lemma lower_char_fixed:
  assumes "d \<in> set (lower_char c)"
  shows "lower_char d = [d] \<and> d \<noteq> 931"
proof (cases c rule: lower_char_cases)
  case dot
  with assms show ?thesis by (auto simp add: lower_char_105 lower_char_775)
next
  case self
  with assms have "d = c" by simp
  moreover from self(3) lower_char_931 have "c \<noteq> 931" by auto
  ultimately show ?thesis using self(3) by simp
next
  case (entry lo hi st t)
  with assms have d: "d = t + (c - lo)" by simp
  from entry(2) have ok: "entry_ok ((lo, hi, st), t)" by (rule lower_entry_ok)
  from entry(3) have "lo \<le> c \<and> c \<le> hi" by (simp add: in_range_def)
  then have le: "t \<le> d" "d \<le> t + (hi - lo)" unfolding d by linarith+
  from ok have "t + (hi - lo) < 304 \<or> 304 < t" "t + (hi - lo) < 931 \<or> 931 < t"
    by (simp_all add: entry_ok_def)
  with le have ne: "d \<noteq> 304" "d \<noteq> 931" by linarith+
  from entry(2) have "targets_fixed ((lo, hi, st), t)" by (rule lower_entry_fixed)
  then have all: "\<forall>e \<in> set lower_table. target_fixed t (t + (hi - lo)) (st = 2 \<or> lo = hi) e"
    by (simp add: targets_fixed_def list_all_iff)
  have "\<not> in_range d (fst e)" if "e \<in> set lower_table" for e
  proof -
    obtain lo' hi' st' t' where e: "e = ((lo', hi', st'), t')" by (metis prod_cases3 surj_pair)
    from all that e have "target_fixed t (t + (hi - lo)) (st = 2 \<or> lo = hi) ((lo', hi', st'), t')"
      by blast
    from target_fixedD [OF this entry(3)] show ?thesis by (simp add: e d)
  qed
  then have "find (\<lambda>(r, t). in_range d r) lower_table = None"
    by (simp add: find_range_None)
  with ne show ?thesis by (simp add: lower_char_def)
qed

lemma followed_by_cased_space:
  "isspace w \<Longrightarrow> followed_by_cased (a @ w # b) = followed_by_cased a"
  by (induction a) (simp_all add: cased_space case_ignorable_space)

lemma lower_from_space:
  "isspace w \<Longrightarrow> lower_from p (a @ w # b) = lower_from p a @ w # lower_from False b"
proof (induction a arbitrary: p)
  case Nil
  then have "w \<noteq> 931" using isspace_931 by auto
  with Nil show ?case by (simp add: lower_char_space cased_space case_ignorable_space)
next
  case (Cons c a)
  then show ?case by (simp add: followed_by_cased_space)
qed

lemma lower_space: "isspace w \<Longrightarrow> lower (a @ w # b) = lower a @ w # lower b"
  by (simp add: lower_def lower_from_space)

lemma lower_from_Nil_iff: "lower_from p s = [] \<longleftrightarrow> s = []"
  by (cases s) (simp_all add: lower_char_nonempty)

lemma lower_from_nonspace:
  "\<forall>c \<in> set s. \<not> isspace c \<Longrightarrow> d \<in> set (lower_from p s) \<Longrightarrow> \<not> isspace d"
proof (induction s arbitrary: p)
  case Nil
  then show ?case by simp
next
  case (Cons c s)
  from Cons.prems(2) consider "c = 931" "d = 962 \<or> d = 963" | "d \<in> set (lower_char c)"
    | "d \<in> set (lower_from (if case_ignorable c then p else cased c) s)"
    by (auto split: if_splits)
  then show ?case
  proof cases
    case 1
    then show ?thesis by (auto simp add: isspace_def)
  next
    case 2
    with Cons.prems(1) show ?thesis using lower_char_nonspace [of c d] by simp
  next
    case 3
    with Cons.prems(1) show ?thesis using Cons.IH by simp
  qed
qed

lemma lower_from_chars:
  "d \<in> set (lower_from p s) \<Longrightarrow> lower_char d = [d] \<and> d \<noteq> 931"
proof (induction s arbitrary: p)
  case Nil
  then show ?case by simp
next
  case (Cons c s)
  from Cons.prems consider "d = 962 \<or> d = 963" | "d \<in> set (lower_char c)"
    | "d \<in> set (lower_from (if case_ignorable c then p else cased c) s)"
    by (auto split: if_splits)
  then show ?case
  proof cases
    case 1
    then show ?thesis by (auto simp add: lower_char_962 lower_char_963)
  next
    case 2
    then show ?thesis by (rule lower_char_fixed)
  next
    case 3
    then show ?thesis by (rule Cons.IH)
  qed
qed

lemma lower_from_fixed:
  "\<forall>d \<in> set t. lower_char d = [d] \<and> d \<noteq> 931 \<Longrightarrow> lower_from p t = t"
  by (induction t arbitrary: p) simp_all

lemma lower_idem: "lower (lower s) = lower s"
  unfolding lower_def by (rule lower_from_fixed) (simp add: lower_from_chars)

lemma lower_from_plain: "931 \<notin> set s \<Longrightarrow> lower_from p s = concat (map lower_char s)"
  by (induction s arbitrary: p) simp_all

lemma lower_table_head: "lower_table = ((65, 90, 1), 97) # tl lower_table"
  by (simp add: lower_table_def)

lemma lower_table_tail: "list_all (\<lambda>e. 128 \<le> fst (fst e)) (tl lower_table)"
  by (simp add: lower_table_def)

lemma lower_char_ascii:
  assumes "c < 128"
  shows "lower_char c = [if 65 \<le> c \<and> c \<le> 90 then c + 32 else c]"
proof -
  have "\<not> in_range c (fst e)" if "e \<in> set (tl lower_table)" for e
  proof -
    from that lower_table_tail have "128 \<le> fst (fst e)" by (simp add: list_all_iff)
    with assms show ?thesis by (cases e) (auto simp add: in_range_def)
  qed
  then have "find (\<lambda>(r, t). in_range c r) (tl lower_table) = None"
    by (simp add: find_range_None)
  then have "find (\<lambda>(r, t). in_range c r) lower_table =
      (if 65 \<le> c \<and> c \<le> 90 then Some ((65, 90, 1), 97) else None)"
    by (subst lower_table_head) (simp add: in_range_def)
  with assms show ?thesis by (simp add: lower_char_def)
qed

lemma lower_ascii:
  assumes "\<forall>c \<in> set s. c < 128"
  shows "lower s = map (\<lambda>c. if 65 \<le> c \<and> c \<le> 90 then c + 32 else c) s"
proof -
  from assms have "931 \<notin> set s" by auto
  then have "lower s = concat (map lower_char s)" by (simp add: lower_def lower_from_plain)
  also have "\<dots> = map (\<lambda>c. if 65 \<le> c \<and> c \<le> 90 then c + 32 else c) s"
    using assms by (induction s) (simp_all add: lower_char_ascii)
  finally show ?thesis .
qed

lemma split_from_word:
  "\<forall>c \<in> set (cur @ s). \<not> isspace c \<Longrightarrow>
     split_from cur s = (if cur @ s = [] then [] else [cur @ s])"
  by (induction s arbitrary: cur) simp_all

lemma split_from_separator:
  "isspace c \<Longrightarrow> split_from cur (a @ c # b) = split_from cur a @ split_from [] b"
  by (induction a arbitrary: cur) simp_all

lemma split_lower_word:
  assumes "\<forall>c \<in> set a. \<not> isspace c"
  shows "split (lower a) = map lower (split a)"
proof -
  from assms have "\<forall>d \<in> set (lower a). \<not> isspace d"
    using lower_from_nonspace [of a _ False] by (auto simp add: lower_def)
  then have "split (lower a) = (if lower a = [] then [] else [lower a])"
    using split_from_word [of "[]" "lower a"] by (simp add: split_def)
  moreover from assms have "split a = (if a = [] then [] else [a])"
    using split_from_word [of "[]" a] by (simp add: split_def)
  ultimately show ?thesis by (simp add: lower_def lower_from_Nil_iff)
qed

lemma split_lower: "split (lower s) = map lower (split s)"
proof (induction s rule: length_induct)
  case (1 s)
  show ?case
  proof (cases "\<exists>c \<in> set s. isspace c")
    case False
    then show ?thesis by (simp add: split_lower_word)
  next
    case True
    then obtain a w b where s: "s = a @ w # b" and w: "isspace w"
      and a: "\<forall>c \<in> set a. \<not> isspace c"
      using split_list_first_prop [of s isspace] by blast
    from s have "length b < length s" by simp
    with 1 have b: "split (lower b) = map lower (split b)" by blast
    from w have "split (lower s) = split (lower a) @ split (lower b)"
      unfolding s by (simp add: lower_space split_def split_from_separator)
    also have "\<dots> = map lower (split a) @ map lower (split b)"
      using a b by (simp add: split_lower_word)
    also have "\<dots> = map lower (split s)"
      using w unfolding s by (simp add: split_def split_from_separator)
    finally show ?thesis .
  qed
qed

section \<open>Properties of the keyword rule engine\<close>

lemmas string_eval = ascii_def lower_ascii isspace_def split_def strip_def normalize_text_def
lemmas engine_eval = normalize_keywords_def extract_group_fields_def evaluate_group_def
  evaluate_keyword_rules_def negative_verdict_def Let_def sublist_code

lemma str_nat_digit: "n < 10 \<Longrightarrow> str_nat n = [48 + n]"
  by (simp add: str_nat.simps)

lemma extract_keywords_any_fallback:
  "include_keywords (extract_group_fields g fb) = include_keywords (extract_group_fields g fb')"
  "exclude_keywords (extract_group_fields g fb) = exclude_keywords (extract_group_fields g fb')"
  by (simp_all add: extract_group_fields_def)

lemma evaluate_group_hit:
  assumes "group_hit t g"
  shows "evaluate_group t i g =
     Inr \<lparr> analysis_source = ascii ''keyword'', is_recommended = True,
           reason = msg_hit_prefix @ group_name (extract_group_fields g (fallback_prefix @ str_nat i)) @ msg_hit_suffix,
           matched_groups = [group_name (extract_group_fields g (fallback_prefix @ str_nat i))],
           matched_keywords = include_keywords (extract_group_fields g (fallback_prefix @ str_nat i)),
           blocked_keywords = [] \<rparr>"
  using assms extract_keywords_any_fallback[of g "[]" "fallback_prefix @ str_nat i"]
  by (simp add: group_hit_def evaluate_group_def Let_def filter_empty_conv)

lemma evaluate_group_miss:
  assumes "\<not> group_hit t g"
  shows "evaluate_group t i g = Inl (group_fail_reason t i g)"
  using assms extract_keywords_any_fallback[of g "[]" "fallback_prefix @ str_nat i"]
  by (auto simp add: group_fail_reason_def group_hit_def evaluate_group_def Let_def filter_empty_conv)

lemma evaluate_loop_recommended:
  "is_recommended (evaluate_loop t i gs fr) \<longleftrightarrow> (\<exists>g \<in> set gs. group_hit t g)"
proof (induction gs arbitrary: i fr)
  case Nil
  show ?case by (simp add: negative_verdict_def)
next
  case (Cons g gs)
  show ?case
  proof (cases "group_hit t g")
    case True
    then show ?thesis by (simp add: evaluate_group_hit)
  next
    case False
    then show ?thesis using Cons.IH by (simp add: evaluate_group_miss)
  qed
qed


lemma evaluate_loop_skip:
  assumes "\<forall>h \<in> set pre. \<not> group_hit t h"
  shows "evaluate_loop t i (pre @ rest) fr =
         evaluate_loop t (i + length pre) rest
           (fr @ map (\<lambda>(j, h). group_fail_reason t j h) (enumerate i pre))"
  using assms
proof (induction pre arbitrary: i fr)
  case Nil
  show ?case by simp
next
  case (Cons h pre)
  then show ?case by (simp add: evaluate_group_miss)
qed


lemma evaluate_not_recommended_iff:
  "\<not> is_recommended (evaluate_keyword_rules gs T) \<longleftrightarrow>
     normalize_text T = [] \<or> (\<forall>g \<in> set gs. \<not> group_hit (normalize_text T) g)"
  by (auto simp add: evaluate_keyword_rules_def Let_def negative_verdict_def
        evaluate_loop_recommended)

lemma sample_text_normalized: "normalize_text sample_text = ascii ''sony a7m4''"
  by (simp add: sample_text_def string_eval)

lemma normalize_a7m4: "normalize_text (Some (strip (ascii ''A7M4''))) = ascii ''a7m4''"
  by (simp add: string_eval)
lemma normalize_a7m4': "normalize_text (Some (strip (ascii ''a7m4''))) = ascii ''a7m4''"
  by (simp add: string_eval)
lemma normalize_canon: "normalize_text (Some (strip (ascii ''Canon''))) = ascii ''canon''"
  by (simp add: string_eval)
lemma normalize_sony: "normalize_text (Some (strip (ascii '' SONY ''))) = ascii ''sony''"
  by (simp add: string_eval)
lemma normalize_broken: "normalize_text (Some (strip (ascii ''broken''))) = ascii ''broken''"
  by (simp add: string_eval)

lemma extract_g_canon:
  "extract_group_fields g_canon fb =
     \<lparr> group_name = fb, include_keywords = [ascii ''a7m4'', ascii ''canon''],
       exclude_keywords = [] \<rparr>"
  by (simp add: g_canon_def extract_group_fields_def normalize_keywords_def
      normalize_a7m4 normalize_canon Let_def) (simp add: ascii_def)

lemma extract_g_sony:
  "extract_group_fields g_sony fb =
     \<lparr> group_name = fb, include_keywords = [ascii ''a7m4'', ascii ''sony''],
       exclude_keywords = [ascii ''broken''] \<rparr>"
  by (simp add: g_sony_def extract_group_fields_def normalize_keywords_def
      normalize_a7m4' normalize_sony normalize_broken Let_def) (simp add: ascii_def)

lemma evaluate_g_canon: "\<not> is_recommended (evaluate_keyword_rules [g_canon] sample_text)"
  by (simp add: evaluate_keyword_rules_def evaluate_group_def extract_g_canon
      sample_text_normalized negative_verdict_def Let_def) (simp add: ascii_def sublist_code)

lemma evaluate_g_sony: "is_recommended (evaluate_keyword_rules [g_sony] sample_text)"
  by (simp add: evaluate_keyword_rules_def evaluate_group_def extract_g_sony
      sample_text_normalized negative_verdict_def Let_def) (simp add: ascii_def sublist_code)

text \<open>
  Claim C1. For a group with a non-empty normalised include list and a text that is not
  empty after normalisation, the group, once the loop reaches it (no earlier group was a
  match), is declared a match exactly when every include keyword is a contiguous
  substring of the normalised text and no exclude keyword is.
\<close>

theorem group_match_iff:
  assumes "normalize_text T \<noteq> []"
    and "include_keywords (extract_group_fields g fb) \<noteq> []"
    and "\<not> is_recommended (evaluate_keyword_rules pre T)"
  shows "is_recommended (evaluate_keyword_rules (pre @ [g]) T) \<longleftrightarrow>
         (\<forall>kw \<in> set (include_keywords (extract_group_fields g fb)). sublist kw (normalize_text T)) \<and>
         (\<forall>kw \<in> set (exclude_keywords (extract_group_fields g fb)). \<not> sublist kw (normalize_text T))"
proof -
  have pre: "\<forall>h \<in> set pre. \<not> group_hit (normalize_text T) h"
    using assms(1,3) by (simp add: evaluate_not_recommended_iff)
  have "is_recommended (evaluate_keyword_rules (pre @ [g]) T) \<longleftrightarrow> group_hit (normalize_text T) g"
    using assms(1) pre evaluate_not_recommended_iff [of "pre @ [g]" T] by auto
  also have "\<dots> \<longleftrightarrow>
         (\<forall>kw \<in> set (include_keywords (extract_group_fields g fb)). sublist kw (normalize_text T)) \<and>
         (\<forall>kw \<in> set (exclude_keywords (extract_group_fields g fb)). \<not> sublist kw (normalize_text T))"
    using assms(2) extract_keywords_any_fallback [of g "[]" fb]
    by (simp add: group_hit_def Let_def)
  finally show ?thesis .
qed

theorem group_match_iff_witness:
  "normalize_text sample_text \<noteq> [] \<and>
   include_keywords (extract_group_fields g_sony []) = [ascii ''a7m4'', ascii ''sony''] \<and>
   exclude_keywords (extract_group_fields g_sony []) = [ascii ''broken''] \<and>
   \<not> is_recommended (evaluate_keyword_rules [g_canon] sample_text) \<and>
   sublist (ascii ''a7m4'') (normalize_text sample_text) \<and>
   sublist (ascii ''sony'') (normalize_text sample_text) \<and>
   \<not> sublist (ascii ''broken'') (normalize_text sample_text) \<and>
   is_recommended (evaluate_keyword_rules ([g_canon] @ [g_sony]) sample_text)"
proof -
  have h1: "normalize_text sample_text \<noteq> []"
    by (simp add: sample_text_normalized ascii_def)
  have h2: "include_keywords (extract_group_fields g_sony []) \<noteq> []"
    by (simp add: extract_g_sony)
  have h4: "sublist (ascii ''a7m4'') (normalize_text sample_text) \<and>
      sublist (ascii ''sony'') (normalize_text sample_text) \<and>
      \<not> sublist (ascii ''broken'') (normalize_text sample_text)"
    by (simp add: sample_text_normalized) (simp add: ascii_def sublist_code)
  from group_match_iff [OF h1 h2 evaluate_g_canon] h1 evaluate_g_canon h4 show ?thesis
    by (simp add: extract_g_sony)
qed

text \<open>
  Claim C2. The first group that matches on its own decides the verdict: whatever groups
  follow it, the verdict is positive, names only that group, lists its normalised include
  keywords and has no blocked keywords.
\<close>

theorem first_match_wins:
  assumes "\<forall>h \<in> set pre. \<not> is_recommended (evaluate_keyword_rules [h] T)"
    and "is_recommended (evaluate_keyword_rules [g] T)"
  shows "evaluate_keyword_rules (pre @ g # post) T =
     \<lparr> analysis_source = ascii ''keyword'', is_recommended = True,
       reason = msg_hit_prefix @
         group_name (extract_group_fields g (fallback_prefix @ str_nat (length pre + 1))) @
         msg_hit_suffix,
       matched_groups =
         [group_name (extract_group_fields g (fallback_prefix @ str_nat (length pre + 1)))],
       matched_keywords =
         include_keywords (extract_group_fields g (fallback_prefix @ str_nat (length pre + 1))),
       blocked_keywords = [] \<rparr>"
proof -
  from assms(2) have nonempty: "normalize_text T \<noteq> []" and hit: "group_hit (normalize_text T) g"
    using evaluate_not_recommended_iff [of "[g]" T] by auto
  from assms(1) nonempty have pre: "\<forall>h \<in> set pre. \<not> group_hit (normalize_text T) h"
    using evaluate_not_recommended_iff [of "[h]" T for h] by auto
  have "evaluate_keyword_rules (pre @ g # post) T =
        evaluate_loop (normalize_text T) 1 (pre @ g # post) []"
    using nonempty by (simp add: evaluate_keyword_rules_def)
  also have "\<dots> = evaluate_loop (normalize_text T) (1 + length pre) (g # post)
       ([] @ map (\<lambda>(j, h). group_fail_reason (normalize_text T) j h) (enumerate 1 pre))"
    using pre by (rule evaluate_loop_skip)
  finally show ?thesis using hit by (simp add: evaluate_group_hit)
qed

theorem first_match_wins_witness:
  "\<not> is_recommended (evaluate_keyword_rules [g_canon] sample_text) \<and>
   is_recommended (evaluate_keyword_rules [g_sony] sample_text) \<and>
   evaluate_keyword_rules ([g_canon] @ g_sony # [g_sony]) sample_text =
     \<lparr> analysis_source = ascii ''keyword'', is_recommended = True,
       reason = msg_hit_prefix @ (fallback_prefix @ ascii ''2'') @ msg_hit_suffix,
       matched_groups = [fallback_prefix @ ascii ''2''],
       matched_keywords = [ascii ''a7m4'', ascii ''sony''],
       blocked_keywords = [] \<rparr>"
proof -
  have h1: "\<forall>h \<in> set [g_canon]. \<not> is_recommended (evaluate_keyword_rules [h] sample_text)"
    by (simp add: evaluate_g_canon)
  have n: "str_nat (length [g_canon] + 1) = ascii ''2''"
    by (simp add: str_nat_digit ascii_def)
  from first_match_wins [OF h1 evaluate_g_sony, of "[g_sony]"] h1 evaluate_g_sony show ?thesis
    by (simp only: n extract_g_sony) simp
qed

text \<open>
  Claim C5. The evaluator is a total function into verdicts. A text that is empty after
  normalisation gives the fixed "empty text" verdict; an empty group list gives the fixed
  "no groups" verdict; a group without include keywords only adds its failure reason, the
  group's name followed by the "include keywords are missing" message, and the loop goes
  on; and when no group matches the verdict is negative, its reason joining the first three
  failure reasons at most. Each of these verdicts has the source \<open>"keyword"\<close> and no
  matched groups, matched keywords or blocked keywords.
\<close>

theorem evaluate_keyword_rules_degenerate:
  "(normalize_text T0 = [] \<longrightarrow>
      evaluate_keyword_rules gs0 T0 =
      \<lparr> analysis_source = ascii ''keyword'', is_recommended = False, reason = msg_empty_text,
        matched_groups = [], matched_keywords = [], blocked_keywords = [] \<rparr>) \<and>
   (normalize_text T \<noteq> [] \<longrightarrow>
      evaluate_keyword_rules [] T =
      \<lparr> analysis_source = ascii ''keyword'', is_recommended = False, reason = msg_no_groups,
        matched_groups = [], matched_keywords = [], blocked_keywords = [] \<rparr>) \<and>
   (include_keywords (extract_group_fields g (fallback_prefix @ str_nat i)) = [] \<longrightarrow>
      group_fail_reason t i g =
        group_name (extract_group_fields g (fallback_prefix @ str_nat i)) @ msg_missing_include \<and>
      evaluate_loop t i (g # rest) fr =
      evaluate_loop t (i + 1) rest
        (fr @ [group_name (extract_group_fields g (fallback_prefix @ str_nat i)) @ msg_missing_include])) \<and>
   (normalize_text T \<noteq> [] \<longrightarrow> gs \<noteq> [] \<longrightarrow> \<not> is_recommended (evaluate_keyword_rules gs T) \<longrightarrow>
      evaluate_keyword_rules gs T =
      \<lparr> analysis_source = ascii ''keyword'', is_recommended = False,
        reason = join reason_sep (take 3
          (map (\<lambda>(j, h). group_fail_reason (normalize_text T) j h) (enumerate 1 gs))),
        matched_groups = [], matched_keywords = [], blocked_keywords = [] \<rparr>)"
proof (intro conjI impI)
  assume "normalize_text T0 = []"
  then show "evaluate_keyword_rules gs0 T0 =
      \<lparr> analysis_source = ascii ''keyword'', is_recommended = False, reason = msg_empty_text,
        matched_groups = [], matched_keywords = [], blocked_keywords = [] \<rparr>"
    by (simp add: evaluate_keyword_rules_def negative_verdict_def)
next
  assume "normalize_text T \<noteq> []"
  then show "evaluate_keyword_rules [] T =
      \<lparr> analysis_source = ascii ''keyword'', is_recommended = False, reason = msg_no_groups,
        matched_groups = [], matched_keywords = [], blocked_keywords = [] \<rparr>"
    by (simp add: evaluate_keyword_rules_def negative_verdict_def)
next
  assume "include_keywords (extract_group_fields g (fallback_prefix @ str_nat i)) = []"
  then have e: "evaluate_group t i g =
      Inl (group_name (extract_group_fields g (fallback_prefix @ str_nat i)) @ msg_missing_include)"
    by (simp add: evaluate_group_def Let_def)
  then show "group_fail_reason t i g =
      group_name (extract_group_fields g (fallback_prefix @ str_nat i)) @ msg_missing_include"
    by (simp add: group_fail_reason_def)
  from e show "evaluate_loop t i (g # rest) fr =
      evaluate_loop t (i + 1) rest
        (fr @ [group_name (extract_group_fields g (fallback_prefix @ str_nat i)) @ msg_missing_include])"
    by simp
next
  assume ne: "normalize_text T \<noteq> []" and gs: "gs \<noteq> []"
    and no: "\<not> is_recommended (evaluate_keyword_rules gs T)"
  from ne no have miss: "\<forall>h \<in> set gs. \<not> group_hit (normalize_text T) h"
    by (simp add: evaluate_not_recommended_iff)
  have "evaluate_keyword_rules gs T = evaluate_loop (normalize_text T) 1 (gs @ []) []"
    using ne gs by (simp add: evaluate_keyword_rules_def)
  also have "\<dots> = evaluate_loop (normalize_text T) (1 + length gs) []
       ([] @ map (\<lambda>(j, h). group_fail_reason (normalize_text T) j h) (enumerate 1 gs))"
    using miss by (rule evaluate_loop_skip)
  finally show "evaluate_keyword_rules gs T =
      \<lparr> analysis_source = ascii ''keyword'', is_recommended = False,
        reason = join reason_sep (take 3
          (map (\<lambda>(j, h). group_fail_reason (normalize_text T) j h) (enumerate 1 gs))),
        matched_groups = [], matched_keywords = [], blocked_keywords = [] \<rparr>"
    using gs by (cases gs) (simp_all add: negative_verdict_def)
qed

lemma normalize_blank: "normalize_text (Some (ascii ''  '')) = []"
  by (simp add: string_eval)

lemma extract_g_empty:
  "extract_group_fields g_empty fb =
     \<lparr> group_name = ascii ''g0'', include_keywords = [], exclude_keywords = [] \<rparr>"
  by (simp add: g_empty_def extract_group_fields_def normalize_keywords_def Let_def
      normalize_blank[simplified strip_def[symmetric]] ) (simp add: string_eval)

lemma group_hit_g_canon: "\<not> group_hit (normalize_text sample_text) g_canon"
  by (simp add: group_hit_def extract_g_canon sample_text_normalized)
     (simp add: ascii_def sublist_code)

lemma fail_reason_g_empty:
  "group_fail_reason t i g_empty = ascii ''g0'' @ msg_missing_include"
  by (simp add: group_fail_reason_def evaluate_group_def extract_g_empty)

lemma fail_reason_g_canon:
  "group_fail_reason (normalize_text sample_text) (Suc (Suc 0)) g_canon =
     fallback_prefix @ ascii ''2: '' @ missing_prefix @ ascii ''canon''"
  by (simp add: group_fail_reason_def evaluate_group_def extract_g_canon sample_text_normalized
      str_nat_digit Let_def)
     (simp add: ascii_def sublist_code)

theorem evaluate_keyword_rules_degenerate_witness:
  "normalize_text (Some (ascii ''  '')) = [] \<and>
   evaluate_keyword_rules [g_sony] (Some (ascii ''  '')) =
     \<lparr> analysis_source = [107, 101, 121, 119, 111, 114, 100], is_recommended = False,
       reason = [21487, 21305, 37197, 25991, 26412, 20026, 31354, 65292, 20851, 38190,
                 35789, 35268, 21017, 26080, 27861, 25191, 34892, 12290],
       matched_groups = [], matched_keywords = [], blocked_keywords = [] \<rparr> \<and>
   normalize_text sample_text \<noteq> [] \<and>
   evaluate_keyword_rules [] sample_text =
     \<lparr> analysis_source = [107, 101, 121, 119, 111, 114, 100], is_recommended = False,
       reason = [26410, 37197, 32622, 20851, 38190, 35789, 35268, 21017, 20998, 32452, 12290],
       matched_groups = [], matched_keywords = [], blocked_keywords = [] \<rparr> \<and>
   include_keywords (extract_group_fields g_empty (fallback_prefix @ str_nat 1)) = [] \<and>
   group_fail_reason (normalize_text sample_text) 1 g_empty =
     [103, 48, 58, 32, 32570, 23569, 21253, 21547, 20851, 38190, 35789] \<and>
   evaluate_loop (normalize_text sample_text) 1 [g_empty] [] =
     \<lparr> analysis_source = [107, 101, 121, 119, 111, 114, 100], is_recommended = False,
       reason = [103, 48, 58, 32, 32570, 23569, 21253, 21547, 20851, 38190, 35789],
       matched_groups = [], matched_keywords = [], blocked_keywords = [] \<rparr> \<and>
   \<not> is_recommended (evaluate_keyword_rules [g_empty, g_canon] sample_text) \<and>
   evaluate_keyword_rules [g_empty, g_canon] sample_text =
     \<lparr> analysis_source = [107, 101, 121, 119, 111, 114, 100], is_recommended = False,
       reason = [103, 48, 58, 32, 32570, 23569, 21253, 21547, 20851, 38190, 35789, 65307,
                 35268, 21017, 32452, 50, 58, 32, 32570, 23569, 32, 99, 97, 110, 111, 110],
       matched_groups = [], matched_keywords = [], blocked_keywords = [] \<rparr>"
proof -
  note d = evaluate_keyword_rules_degenerate [of "Some (ascii ''  '')" "[g_sony]" sample_text
      g_empty 1 "normalize_text sample_text" "[]" "[]" "[g_empty, g_canon]"]
  have h1: "normalize_text (Some (ascii ''  '')) = []" by (rule normalize_blank)
  have h2: "normalize_text sample_text \<noteq> []"
    by (simp add: sample_text_normalized ascii_def)
  have h3: "include_keywords (extract_group_fields g_empty (fallback_prefix @ str_nat 1)) = []"
    by (simp add: extract_g_empty)
  have h4: "\<not> is_recommended (evaluate_keyword_rules [g_empty, g_canon] sample_text)"
    using h2 group_hit_g_canon
    by (simp add: evaluate_not_recommended_iff group_hit_def extract_g_empty)
  have e: "enumerate 1 [g_empty, g_canon] = [(1, g_empty), (2, g_canon)]"
    by (simp add: enumerate_eq_zip upt_rec)
  have g: "evaluate_group (normalize_text sample_text) (Suc 0) g_empty =
      Inl (ascii ''g0'' @ msg_missing_include)"
    by (simp add: evaluate_group_def extract_g_empty)
  from d h1 h2 h3 h4 show ?thesis
    by (simp add: e g fail_reason_g_empty fail_reason_g_canon extract_g_empty
        negative_verdict_def)
       (simp add: ascii_def msg_empty_text_def msg_no_groups_def msg_missing_include_def
        fallback_prefix_def missing_prefix_def reason_sep_def)
qed

section \<open>Properties of the search text\<close>

lemma split_from_words:
  "(\<forall>c \<in> set cur. \<not> isspace c) \<Longrightarrow> \<forall>w \<in> set (split_from cur s). is_word w"
proof (induction s arbitrary: cur)
  case Nil
  then show ?case by (simp add: is_word_def)
next
  case (Cons c s)
  have a: "\<forall>w \<in> set (split_from [] s). is_word w"
    using Cons.IH [of "[]"] by simp
  have b: "\<not> isspace c \<Longrightarrow> \<forall>w \<in> set (split_from (cur @ [c]) s). is_word w"
    using Cons.IH [of "cur @ [c]"] Cons.prems by simp
  show ?case using Cons.prems a b by (simp add: is_word_def)
qed

lemma split_words: "\<forall>w \<in> set (split s). is_word w"
  unfolding split_def by (rule split_from_words) simp

lemma split_from_chars: "set (concat (split_from cur s)) \<subseteq> set cur \<union> set s"
proof (induction s arbitrary: cur)
  case Nil
  show ?case by simp
next
  case (Cons c s)
  show ?case using Cons.IH [of "[]"] Cons.IH [of "cur @ [c]"] by auto
qed

lemma join_chars: "set (join sep ws) \<subseteq> set sep \<union> set (concat ws)"
  by (induction sep ws rule: join.induct) auto

lemma join_Cons: "join sep (w # ws) = w @ (if ws = [] then [] else sep @ join sep ws)"
  by (cases ws) simp_all

lemma join_nonempty: "ws \<noteq> [] \<Longrightarrow> \<forall>w \<in> set ws. is_word w \<Longrightarrow> join sep ws \<noteq> []"
  by (cases ws) (simp_all add: join_Cons is_word_def)

lemma join_hd: "ws \<noteq> [] \<Longrightarrow> \<forall>w \<in> set ws. is_word w \<Longrightarrow> hd (join sep ws) = hd (hd ws)"
  by (cases ws) (simp_all add: join_Cons is_word_def)

lemma join_last:
  "ws \<noteq> [] \<Longrightarrow> \<forall>w \<in> set ws. is_word w \<Longrightarrow> last (join sep ws) = last (last ws)"
proof (induction sep ws rule: join.induct)
  case (3 sep x y ys)
  then have "join sep (y # ys) \<noteq> []" by (simp add: join_nonempty)
  with 3 show ?case by simp
qed simp_all

lemma no_whitespace_run_word:
  "\<forall>c \<in> set w. \<not> isspace c \<Longrightarrow> no_whitespace_run (w @ cs) = no_whitespace_run cs"
proof (induction w)
  case Nil
  show ?case by simp
next
  case (Cons a w)
  then show ?case by (cases "w @ cs") auto
qed

lemma join_no_whitespace_run:
  "\<forall>w \<in> set ws. is_word w \<Longrightarrow> no_whitespace_run (join [32] ws)"
proof (induction "[32::nat]" ws rule: join.induct)
  case 1
  show ?case by simp
next
  case (2 x)
  then show ?case using no_whitespace_run_word [of x "[]"] by (simp add: is_word_def)
next
  case (3 x y ys)
  then have y: "is_word y" and x: "\<forall>c \<in> set x. \<not> isspace c" by (simp_all add: is_word_def)
  from y obtain c cs where "join [32] (y # ys) = c # cs" "\<not> isspace c"
    by (cases y) (auto simp add: join_Cons is_word_def)
  with 3 x show ?case by (simp add: no_whitespace_run_word)
qed

lemma normalize_text_chars:
  "set (normalize_text v) \<subseteq> insert 32 (set (lower (case v of None \<Rightarrow> [] | Some s \<Rightarrow> s)))"
proof -
  let ?s = "lower (case v of None \<Rightarrow> [] | Some s \<Rightarrow> s)"
  have "set (normalize_text v) \<subseteq> set [32] \<union> set (concat (split ?s))"
    unfolding normalize_text_def by (rule join_chars)
  also have "set (concat (split ?s)) \<subseteq> set ?s"
    using split_from_chars [of "[]" ?s] by (simp add: split_def)
  finally show ?thesis by auto
qed

lemma normalize_text_char_fixed:
  assumes "d \<in> set (normalize_text v)"
  shows "lower_char d = [d] \<and> d \<noteq> 931"
proof (cases "d = 32")
  case True
  then show ?thesis by (simp add: lower_char_space isspace_def)
next
  case False
  with assms normalize_text_chars [of v]
  have "d \<in> set (lower_from False (case v of None \<Rightarrow> [] | Some s \<Rightarrow> s))"
    by (auto simp add: lower_def)
  then show ?thesis by (rule lower_from_chars)
qed

lemma normalize_text_fixed: "lower (normalize_text v) = normalize_text v"
  unfolding lower_def by (rule lower_from_fixed) (simp add: normalize_text_char_fixed)

lemma normalize_text_char_lower: "c \<in> set (normalize_text v) \<Longrightarrow> lower [c] = [c]"
  using normalize_text_char_fixed [of c v] by (simp add: lower_def)

lemma normalize_text_no_capital: "c \<in> set (normalize_text v) \<Longrightarrow> \<not> (65 \<le> c \<and> c \<le> 90)"
proof
  assume c: "c \<in> set (normalize_text v)" and "65 \<le> c \<and> c \<le> 90"
  then have "lower_char c = [c + 32]" by (simp add: lower_char_ascii)
  with c show False using normalize_text_char_fixed [of c v] by simp
qed

lemma normalize_text_trimmed:
  "normalize_text v \<noteq> [] \<Longrightarrow>
     \<not> isspace (hd (normalize_text v)) \<and> \<not> isspace (last (normalize_text v))"
proof -
  let ?ws = "split (lower (case v of None \<Rightarrow> [] | Some s \<Rightarrow> s))"
  assume "normalize_text v \<noteq> []"
  then have ne: "?ws \<noteq> []" by (auto simp add: normalize_text_def)
  have words: "\<forall>w \<in> set ?ws. is_word w" by (rule split_words)
  from ne words have "is_word (hd ?ws)" "is_word (last ?ws)" by simp_all
  then have "\<not> isspace (hd (hd ?ws))" "\<not> isspace (last (last ?ws))"
    by (simp_all add: is_word_def)
  then show ?thesis
    using join_hd [OF ne words, of "[32]"] join_last [OF ne words, of "[32]"]
    by (simp add: normalize_text_def)
qed

lemma normalize_text_collapsed: "no_whitespace_run (normalize_text v)"
  unfolding normalize_text_def by (rule join_no_whitespace_run) (rule split_words)

lemma split_from_spaces: "\<forall>c \<in> set w. isspace c \<Longrightarrow> split_from [] w = []"
  by (induction w) simp_all

lemma split_from_trailing:
  "\<forall>c \<in> set w. isspace c \<Longrightarrow> split_from cur (s @ w) = split_from cur s"
proof (induction s arbitrary: cur)
  case Nil
  then show ?case by (cases w) (simp_all add: split_from_spaces)
next
  case (Cons c s)
  then show ?case by simp
qed

lemma split_from_leading: "split_from [] (dropWhile isspace s) = split_from [] s"
  by (induction s) simp_all

lemma split_strip: "split (strip s) = split s"
proof -
  let ?d = "dropWhile isspace s"
  have "?d = strip s @ rev (takeWhile isspace (rev ?d))"
    unfolding strip_def by (metis rev_append rev_rev_ident takeWhile_dropWhile_id)
  moreover have "\<forall>c \<in> set (rev (takeWhile isspace (rev ?d))). isspace c"
    by (auto dest: set_takeWhileD)
  ultimately have "split_from [] ?d = split_from [] (strip s)"
    using split_from_trailing [of "rev (takeWhile isspace (rev ?d))" "[]" "strip s"] by simp
  then show ?thesis by (simp add: split_def split_from_leading)
qed

lemma normalize_text_strip: "normalize_text (Some (strip s)) = normalize_text (Some s)"
  by (simp add: normalize_text_def split_lower split_strip)

lemma join_prefix: "prefix (join sep A) (join sep (A @ W))"
proof (induction sep A rule: join.induct)
  case (1 sep)
  show ?case by simp
next
  case (2 sep x)
  show ?case by (simp add: join_Cons)
next
  case (3 sep x y ys)
  then show ?case by simp
qed

lemma split_join_Cons:
  "\<exists>W. split (lower (join [32] (x # F))) = split (lower x) @ W"
proof (cases F)
  case Nil
  then show ?thesis by simp
next
  case (Cons y ys)
  have sp: "isspace 32" by (simp add: isspace_def)
  have "split (lower (x @ 32 # join [32] F)) = split (lower x) @ split (lower (join [32] F))"
    by (simp add: lower_space [OF sp] split_def split_from_separator [OF sp])
  with Cons show ?thesis by simp
qed

lemma normalize_text_first_fragment:
  "sublist (normalize_text (Some s))
     (normalize_text (Some (join [32] ((if strip s = [] then [] else [strip s]) @ F))))"
proof (cases "strip s = []")
  case True
  then have "split s = []" using split_strip [of s] by (simp add: split_def)
  then show ?thesis by (simp add: normalize_text_def split_lower)
next
  case False
  obtain W where "split (lower (join [32] (strip s # F))) = split (lower (strip s)) @ W"
    using split_join_Cons by blast
  then have "prefix (normalize_text (Some (strip s)))
      (normalize_text (Some (join [32] (strip s # F))))"
    by (simp add: normalize_text_def join_prefix)
  with False show ?thesis by (simp add: normalize_text_strip)
qed

lemma fold_collect_Inl:
  "fold (\<lambda>item r. case r of Inl e \<Rightarrow> Inl e | Inr b \<Rightarrow> f item b) xs (Inl e) = Inl e"
  by (induction xs) simp_all

lemma fold_collect_prefix:
  assumes "\<And>x b r. x \<in> set xs \<Longrightarrow> f x b = Inr r \<Longrightarrow> prefix b r"
    and "fold (\<lambda>item r. case r of Inl e \<Rightarrow> Inl e | Inr b \<Rightarrow> f item b) xs (Inr b) = Inr r"
  shows "prefix b r"
  using assms
proof (induction xs arbitrary: b)
  case Nil
  then show ?case by simp
next
  case (Cons x xs)
  show ?case
  proof (cases "f x b")
    case (Inl e)
    with Cons.prems(2) show ?thesis by (simp add: fold_collect_Inl)
  next
    case (Inr b')
    have "prefix b b'" by (rule Cons.prems(1) [OF _ Inr]) simp
    moreover have "prefix b' r"
    proof (rule Cons.IH)
      show "prefix c r" if "y \<in> set xs" "f y c = Inr r" for y c r
        using that Cons.prems(1) [of y c r] by simp
      show "fold (\<lambda>item r. case r of Inl e \<Rightarrow> Inl e | Inr b \<Rightarrow> f item b) xs (Inr b') = Inr r"
        using Cons.prems(2) Inr by simp
    qed
    ultimately show ?thesis by (rule prefix_order.trans)
  qed
qed

lemma collect_prefix:
  "collect_text_fragments depth v bucket = Inr r \<Longrightarrow> prefix bucket r"
proof (induction depth arbitrary: v bucket r)
  case 0
  then show ?case by simp
next
  case (Suc depth)
  note IH = Suc.IH
  show ?case
  proof (cases v)
    case (PDict kvs)
    with Suc.prems have
      "fold (\<lambda>item r. case r of Inl e \<Rightarrow> Inl e | Inr b \<Rightarrow> collect_text_fragments depth item b)
         (map snd kvs) (Inr bucket) = Inr r"
      by (simp split: if_splits)
    with IH show ?thesis by (rule fold_collect_prefix)
  next
    case (PList xs)
    with Suc.prems have
      "fold (\<lambda>item r. case r of Inl e \<Rightarrow> Inl e | Inr b \<Rightarrow> collect_text_fragments depth item b)
         xs (Inr bucket) = Inr r"
      by (simp split: if_splits)
    with IH show ?thesis by (rule fold_collect_prefix)
  qed (use Suc.prems in \<open>auto simp add: Let_def split: if_splits sum.splits\<close>)
qed



lemma fold_collect_returns:
  assumes "\<And>x b. x \<in> set xs \<Longrightarrow> \<exists>r. f x b = Inr r"
  shows "\<exists>r. fold (\<lambda>item r. case r of Inl e \<Rightarrow> Inl e | Inr b \<Rightarrow> f item b) xs (Inr b) = Inr r"
  using assms
proof (induction xs arbitrary: b)
  case Nil
  show ?case by simp
next
  case (Cons x xs)
  obtain b' where "f x b = Inr b'" using Cons.prems [of x b] by auto
  moreover have
    "\<exists>r. fold (\<lambda>item r. case r of Inl e \<Rightarrow> Inl e | Inr b \<Rightarrow> f item b) xs (Inr b') = Inr r"
    by (rule Cons.IH) (use Cons.prems in simp)
  ultimately show ?case by simp
qed

lemma fold_max_lower: "m \<le> fold (\<lambda>item m. max (f item) m) xs (m::nat)"
proof (induction xs arbitrary: m)
  case Nil
  show ?case by simp
next
  case (Cons x xs)
  have "m \<le> max (f x) m" by simp
  also have "\<dots> \<le> fold (\<lambda>item m. max (f item) m) xs (max (f x) m)" by (rule Cons.IH)
  finally show ?case by simp
qed

lemma fold_max_item: "x \<in> set xs \<Longrightarrow> f x \<le> fold (\<lambda>item m. max (f item) m) xs (m::nat)"
proof (induction xs arbitrary: m)
  case Nil
  then show ?case by simp
next
  case (Cons y ys)
  show ?case
  proof (cases "x = y")
    case True
    have "f y \<le> max (f y) m" by simp
    also have "\<dots> \<le> fold (\<lambda>item m. max (f item) m) ys (max (f y) m)" by (rule fold_max_lower)
    finally show ?thesis using True by simp
  next
    case False
    with Cons.prems have "x \<in> set ys" by simp
    then show ?thesis using Cons.IH by simp
  qed
qed

lemma levels_needed_item:
  assumes "x \<in> set xs"
    and "Suc (fold (\<lambda>item m. max (levels_needed item) m) xs 1) \<le> Suc depth"
  shows "levels_needed x \<le> depth \<and> depth \<noteq> 0"
proof -
  have "levels_needed x \<le> fold (\<lambda>item m. max (levels_needed item) m) xs 1"
    using assms(1) by (rule fold_max_item)
  moreover have "1 \<le> fold (\<lambda>item m. max (levels_needed item) m) xs 1" by (rule fold_max_lower)
  ultimately show ?thesis using assms(2) by simp
qed

lemma levels_needed_container:
  "Suc (fold (\<lambda>item m. max (levels_needed item) m) xs 1) \<le> Suc depth \<Longrightarrow> depth \<noteq> 0"
  using fold_max_lower [of 1 levels_needed xs] by simp

lemma collect_returns:
  "levels_needed v \<le> depth \<Longrightarrow> ints_convertible v \<Longrightarrow>
     \<exists>r. collect_text_fragments depth v bucket = Inr r"
proof (induction depth arbitrary: v bucket)
  case 0
  then show ?case by (cases v) simp_all
next
  case (Suc depth)
  note IH = Suc.IH
  show ?case
  proof (cases v)
    case (PDict kvs)
    with Suc.prems have lv: "Suc (fold (\<lambda>item m. max (levels_needed item) m) (map snd kvs) 1) \<le> Suc depth"
      and ic: "list_all ints_convertible (map snd kvs)" by simp_all
    from lv have d: "depth \<noteq> 0" by (rule levels_needed_container)
    have "\<exists>r. fold (\<lambda>item r. case r of Inl e \<Rightarrow> Inl e | Inr b \<Rightarrow> collect_text_fragments depth item b)
         (map snd kvs) (Inr bucket) = Inr r"
    proof (rule fold_collect_returns)
      fix x b
      assume x: "x \<in> set (map snd kvs)"
      from levels_needed_item [OF x lv] have "levels_needed x \<le> depth" by simp
      moreover from x ic have "ints_convertible x" by (auto simp add: list_all_iff)
      ultimately show "\<exists>r. collect_text_fragments depth x b = Inr r" by (rule IH)
    qed
    with PDict d show ?thesis by simp
  next
    case (PList xs)
    with Suc.prems have lv: "Suc (fold (\<lambda>item m. max (levels_needed item) m) xs 1) \<le> Suc depth"
      and ic: "list_all ints_convertible xs" by simp_all
    from lv have d: "depth \<noteq> 0" by (rule levels_needed_container)
    have "\<exists>r. fold (\<lambda>item r. case r of Inl e \<Rightarrow> Inl e | Inr b \<Rightarrow> collect_text_fragments depth item b)
         xs (Inr bucket) = Inr r"
    proof (rule fold_collect_returns)
      fix x b
      assume x: "x \<in> set xs"
      from levels_needed_item [OF x lv] have "levels_needed x \<le> depth" by simp
      moreover from x ic have "ints_convertible x" by (auto simp add: list_all_iff)
      ultimately show "\<exists>r. collect_text_fragments depth x b = Inr r" by (rule IH)
    qed
    with PList d show ?thesis by simp
  next
    case (PInt i)
    with Suc.prems show ?thesis by (simp add: str_of_int_def)
  qed (use Suc.prems in \<open>simp_all add: Let_def\<close>)
qed

lemma title_within_limits:
  assumes "levels_needed (PDict kvs) \<le> depth" and "ints_convertible (PDict kvs)"
  shows "levels_needed (dict_get kvs k PNone) \<le> depth \<and> ints_convertible (dict_get kvs k PNone)"
proof (cases "map_of kvs k")
  case None
  have "1 \<le> fold (\<lambda>item m. max (levels_needed item) m) (map snd kvs) 1" by (rule fold_max_lower)
  with assms(1) None show ?thesis by (simp add: dict_get_def)
next
  case (Some v)
  then have v: "v \<in> set (map snd kvs)" by (force dest: map_of_SomeD)
  have "levels_needed v \<le> fold (\<lambda>item m. max (levels_needed item) m) (map snd kvs) 1"
    using v by (rule fold_max_item)
  moreover from v assms(2) have "ints_convertible v" by (auto simp add: list_all_iff)
  ultimately show ?thesis using assms(1) Some by (simp add: dict_get_def)
qed

lemma build_search_text_returns:
  assumes "map_of R key_product_info = None \<or> (\<exists>kvs. map_of R key_product_info = Some (PDict kvs))"
    and "levels_needed (dict_get R key_product_info (PDict [])) \<le> depth"
    and "ints_convertible (dict_get R key_product_info (PDict []))"
    and "levels_needed (dict_get R key_seller_info (PDict [])) \<le> depth"
    and "ints_convertible (dict_get R key_seller_info (PDict []))"
  shows "\<exists>t. build_search_text depth R = Inr t"
proof -
  obtain kvs where pi: "dict_get R key_product_info (PDict []) = PDict kvs"
    using assms(1) by (auto simp add: dict_get_def)
  from assms(2,3) have "levels_needed (dict_get kvs key_product_title PNone) \<le> depth \<and>
      ints_convertible (dict_get kvs key_product_title PNone)"
    unfolding pi by (rule title_within_limits)
  then obtain f1 where f1: "collect_text_fragments depth (dict_get kvs key_product_title PNone) [] = Inr f1"
    using collect_returns by blast
  obtain f2 where f2: "collect_text_fragments depth (PDict kvs) f1 = Inr f2"
    using assms(2,3) collect_returns unfolding pi by blast
  obtain f3 where f3: "collect_text_fragments depth (dict_get R key_seller_info (PDict [])) f2 = Inr f3"
    using assms(4,5) collect_returns by blast
  from pi f1 f2 f3 show ?thesis by (simp add: build_search_text_def)
qed

lemma build_search_text_Inr:
  assumes "build_search_text depth R = Inr t"
  obtains kvs f1 F where "dict_get R key_product_info (PDict []) = PDict kvs"
    and "collect_text_fragments depth (dict_get kvs key_product_title PNone) [] = Inr f1"
    and "t = normalize_text (Some (join [32] (f1 @ F)))"
proof -
  from assms obtain kvs where pi: "dict_get R key_product_info (PDict []) = PDict kvs"
    by (cases "dict_get R key_product_info (PDict [])") (simp_all add: build_search_text_def)
  from assms pi obtain f1 where
    f1: "collect_text_fragments depth (dict_get kvs key_product_title PNone) [] = Inr f1"
    by (cases "collect_text_fragments depth (dict_get kvs key_product_title PNone) []")
       (simp_all add: build_search_text_def)
  from assms pi f1 obtain f2 where f2: "collect_text_fragments depth (PDict kvs) f1 = Inr f2"
    by (cases "collect_text_fragments depth (PDict kvs) f1") (simp_all add: build_search_text_def)
  from assms pi f1 f2 obtain f3 where
    f3: "collect_text_fragments depth (dict_get R key_seller_info (PDict [])) f2 = Inr f3"
    by (cases "collect_text_fragments depth (dict_get R key_seller_info (PDict [])) f2")
       (simp_all add: build_search_text_def)
  from assms pi f1 f2 f3 have t: "t = normalize_text (Some (join [32] f3))"
    by (simp add: build_search_text_def)
  from f2 have "prefix f1 f2" by (rule collect_prefix)
  moreover from f3 have "prefix f2 f3" by (rule collect_prefix)
  ultimately have "prefix f1 f3" by (rule prefix_order.trans)
  then obtain F where "f3 = f1 @ F" by (auto simp add: prefix_def)
  with pi f1 t show ?thesis using that by simp
qed


lemma collect_title:
  assumes "collect_text_fragments depth (PStr s) [] = Inr f"
  shows "f = (if strip s = [] then [] else [strip s])"
  using assms by (cases depth) (auto simp add: Let_def split: if_splits)

lemma collect_unfold:
  assumes "2 \<le> depth"
  shows "collect_text_fragments depth PNone bucket = Inr bucket"
    and "collect_text_fragments depth (PStr s) bucket =
           (if strip s \<noteq> [] then Inr (bucket @ [strip s]) else Inr bucket)"
    and "collect_text_fragments depth (PInt i) bucket =
           (case str_of_int i of Inl e \<Rightarrow> Inl e | Inr text \<Rightarrow> Inr (bucket @ [text]))"
    and "collect_text_fragments depth (PFloat r) bucket = Inr (bucket @ [r])"
    and "collect_text_fragments depth (PBool b) bucket = Inr (bucket @ [str_bool b])"
    and "collect_text_fragments depth (PDict kvs) bucket =
           fold (\<lambda>item r. case r of Inl e \<Rightarrow> Inl e
                              | Inr b \<Rightarrow> collect_text_fragments (depth - 1) item b)
             (map snd kvs) (Inr bucket)"
    and "collect_text_fragments depth (PList xs) bucket =
           fold (\<lambda>item r. case r of Inl e \<Rightarrow> Inl e
                              | Inr b \<Rightarrow> collect_text_fragments (depth - 1) item b)
             xs (Inr bucket)"
    and "collect_text_fragments depth POther bucket = Inr bucket"
proof -
  from assms obtain d where d: "depth = Suc (Suc d)"
    by (metis Suc_le_D numeral_2_eq_2 Suc_le_mono)
  show "collect_text_fragments depth PNone bucket = Inr bucket"
    and "collect_text_fragments depth (PStr s) bucket =
           (if strip s \<noteq> [] then Inr (bucket @ [strip s]) else Inr bucket)"
    and "collect_text_fragments depth (PInt i) bucket =
           (case str_of_int i of Inl e \<Rightarrow> Inl e | Inr text \<Rightarrow> Inr (bucket @ [text]))"
    and "collect_text_fragments depth (PFloat r) bucket = Inr (bucket @ [r])"
    and "collect_text_fragments depth (PBool b) bucket = Inr (bucket @ [str_bool b])"
    and "collect_text_fragments depth (PDict kvs) bucket =
           fold (\<lambda>item r. case r of Inl e \<Rightarrow> Inl e
                              | Inr b \<Rightarrow> collect_text_fragments (depth - 1) item b)
             (map snd kvs) (Inr bucket)"
    and "collect_text_fragments depth (PList xs) bucket =
           fold (\<lambda>item r. case r of Inl e \<Rightarrow> Inl e
                              | Inr b \<Rightarrow> collect_text_fragments (depth - 1) item b)
             xs (Inr bucket)"
    and "collect_text_fragments depth POther bucket = Inr bucket"
    unfolding d diff_Suc_1 by (simp_all add: Let_def)
qed

lemma str_int_100: "str_int 100 = ascii ''100''"
  by (simp add: str_int_def str_nat.simps [of 100] str_nat.simps [of 10] str_nat_digit
      ascii_def)

lemma small_int_convertible: "\<bar>i::int\<bar> < 1000 \<Longrightarrow> \<bar>i\<bar> < 10 ^ int_max_str_digits"
proof -
  assume "\<bar>i\<bar> < 1000"
  also have "(1000::int) = 10 ^ 3" by simp
  also have "\<dots> \<le> 10 ^ int_max_str_digits"
    by (rule power_increasing) (simp_all add: int_max_str_digits_def)
  finally show ?thesis .
qed

lemma str_of_int_100: "str_of_int 100 = Inr (ascii ''100'')"
  using small_int_convertible [of 100] by (simp add: str_of_int_def str_int_100)

lemma sample_record_text:
  "build_search_text 1000 sample_record =
     Inr (ascii ''sony a7m4 sony a7m4 100 mint true shop'')"
  by (simp add: build_search_text_def sample_record_def dict_get_def key_product_info_def
      key_seller_info_def key_product_title_def collect_unfold str_of_int_100 str_bool_def
      Let_def)
     (simp add: string_eval)

lemma sample_record_limits:
  "levels_needed (dict_get sample_record key_product_info (PDict [])) \<le> 1000 \<and>
   ints_convertible (dict_get sample_record key_product_info (PDict [])) \<and>
   levels_needed (dict_get sample_record key_seller_info (PDict [])) \<le> 1000 \<and>
   ints_convertible (dict_get sample_record key_seller_info (PDict []))"
  using small_int_convertible [of 100]
  by (simp add: sample_record_def dict_get_def key_product_info_def key_seller_info_def)

lemma lower_char_bold_A: "lower_char 119808 = [119808]"
  by (simp add: lower_char_def lower_table_def in_range_def)

lemma lower_bold_A: "lower [119808, 32, 119808] = [119808, 32, 119808]"
  by (simp add: lower_def lower_from_plain lower_char_bold_A lower_char_space isspace_def)

lemma isupper_bold_A: "isupper 119808"
  by (simp add: isupper_def in_ranges_def upper_table_def in_range_def)

text \<open>
  Claim C7, as the claim states it, fails. The character U+1D400 (mathematical bold capital
  A) is upper-case for \<open>str.isupper\<close> and has no lower-case form, so \<open>str.lower\<close>
  leaves it in place: the record whose product entry has this one character as its title
  meets the claim's precondition, and its search text holds an upper-case character.
\<close>

theorem build_search_text_upper_counterexample:
  "map_of [(key_product_info, PDict [(key_product_title, PStr [119808])])] key_product_info =
     Some (PDict [(key_product_title, PStr [119808])]) \<and>
   map_of [(key_product_info, PDict [(key_product_title, PStr [119808])])] key_seller_info = None \<and>
   build_search_text 1000 [(key_product_info, PDict [(key_product_title, PStr [119808])])] =
     Inr [119808, 32, 119808] \<and>
   isupper 119808"
proof -
  have "build_search_text 1000 [(key_product_info, PDict [(key_product_title, PStr [119808])])] =
     Inr [119808, 32, 119808]"
    by (simp add: build_search_text_def dict_get_def key_product_info_def key_seller_info_def
        key_product_title_def collect_unfold strip_def isspace_def Let_def normalize_text_def
        lower_bold_A split_def)
  then show ?thesis
    by (simp add: isupper_bold_A key_product_info_def key_seller_info_def)
qed

text \<open>
  Claim C7, amended. Take a record whose product and seller entries, when present, are
  dictionaries, nested no deeper than the interpreter admits and holding no integer beyond
  the conversion limit: \<open>build_search_text\<close> returns a text. Whenever it returns a
  text, the text is a fixed point of \<open>str.lower\<close>, and so is each of its
  characters, among them no capital letter of the Latin alphabet; it has no white space at
  either end and no two neighbouring white-space characters; and when the product entry carries a non-empty string as its title, the
  normalised title is a contiguous substring of the text, whatever else the record holds.
\<close>

theorem build_search_text_shape:
  "((map_of R key_product_info = None \<or> (\<exists>kvs. map_of R key_product_info = Some (PDict kvs))) \<and>
    (map_of R key_seller_info = None \<or> (\<exists>kvs. map_of R key_seller_info = Some (PDict kvs))) \<and>
    levels_needed (dict_get R key_product_info (PDict [])) \<le> depth \<and>
    ints_convertible (dict_get R key_product_info (PDict [])) \<and>
    levels_needed (dict_get R key_seller_info (PDict [])) \<le> depth \<and>
    ints_convertible (dict_get R key_seller_info (PDict []))
      \<longrightarrow> (\<exists>t. build_search_text depth R = Inr t)) \<and>
   (\<forall>t. build_search_text depth R = Inr t \<longrightarrow>
      lower t = t \<and>
      (\<forall>c \<in> set t. lower [c] = [c]) \<and>
      (\<forall>c \<in> set t. \<not> (65 \<le> c \<and> c \<le> 90)) \<and>
      (t \<noteq> [] \<longrightarrow> \<not> isspace (hd t) \<and> \<not> isspace (last t)) \<and>
      no_whitespace_run t \<and>
      (\<forall>kvs s. map_of R key_product_info = Some (PDict kvs) \<longrightarrow>
               map_of kvs key_product_title = Some (PStr s) \<longrightarrow> s \<noteq> [] \<longrightarrow>
               sublist (normalize_text (Some s)) t))"
proof (intro conjI impI allI)
  assume "(map_of R key_product_info = None \<or> (\<exists>kvs. map_of R key_product_info = Some (PDict kvs))) \<and>
    (map_of R key_seller_info = None \<or> (\<exists>kvs. map_of R key_seller_info = Some (PDict kvs))) \<and>
    levels_needed (dict_get R key_product_info (PDict [])) \<le> depth \<and>
    ints_convertible (dict_get R key_product_info (PDict [])) \<and>
    levels_needed (dict_get R key_seller_info (PDict [])) \<le> depth \<and>
    ints_convertible (dict_get R key_seller_info (PDict []))"
  then show "\<exists>t. build_search_text depth R = Inr t"
    using build_search_text_returns [of R depth] by blast
next
  fix t
  assume t: "build_search_text depth R = Inr t"
  then obtain kvs f1 F where pi: "dict_get R key_product_info (PDict []) = PDict kvs"
    and f1: "collect_text_fragments depth (dict_get kvs key_product_title PNone) [] = Inr f1"
    and tn: "t = normalize_text (Some (join [32] (f1 @ F)))"
    by (rule build_search_text_Inr)
  show "lower t = t" unfolding tn by (rule normalize_text_fixed)
  show "\<forall>c \<in> set t. lower [c] = [c]"
    unfolding tn using normalize_text_char_lower by blast
  show "\<forall>c \<in> set t. \<not> (65 \<le> c \<and> c \<le> 90)"
    unfolding tn using normalize_text_no_capital by blast
  show "no_whitespace_run t" unfolding tn by (rule normalize_text_collapsed)
  {
    assume "t \<noteq> []"
    then show "\<not> isspace (hd t)" "\<not> isspace (last t)"
      unfolding tn using normalize_text_trimmed by blast+
  }
  {
    fix k s
    assume k: "map_of R key_product_info = Some (PDict k)"
      and s: "map_of k key_product_title = Some (PStr s)"
    from k pi have "k = kvs" by (simp add: dict_get_def)
    with s f1 have "collect_text_fragments depth (PStr s) [] = Inr f1" by (simp add: dict_get_def)
    then have "f1 = (if strip s = [] then [] else [strip s])" by (rule collect_title)
    then show "sublist (normalize_text (Some s)) t"
      unfolding tn using normalize_text_first_fragment [of s F] by simp
  }
qed

theorem build_search_text_shape_witness:
  "map_of sample_record key_product_info =
     Some (PDict [(key_product_title, PStr (ascii '' Sony  A7M4 '')),
              (ascii ''price'', PInt 100),
              (ascii ''tags'', PList [PStr (ascii ''Mint''), PNone, PBool True])]) \<and>
   map_of sample_record key_seller_info = Some (PDict [(ascii ''name'', PStr (ascii ''Shop''))]) \<and>
   levels_needed (dict_get sample_record key_product_info (PDict [])) \<le> 1000 \<and>
   ints_convertible (dict_get sample_record key_product_info (PDict [])) \<and>
   levels_needed (dict_get sample_record key_seller_info (PDict [])) \<le> 1000 \<and>
   ints_convertible (dict_get sample_record key_seller_info (PDict [])) \<and>
   build_search_text 1000 sample_record = Inr (ascii ''sony a7m4 sony a7m4 100 mint true shop'') \<and>
   lower (ascii ''sony a7m4 sony a7m4 100 mint true shop'') =
     ascii ''sony a7m4 sony a7m4 100 mint true shop'' \<and>
   no_whitespace_run (ascii ''sony a7m4 sony a7m4 100 mint true shop'') \<and>
   sublist (normalize_text (Some (ascii '' Sony  A7M4 '')))
     (ascii ''sony a7m4 sony a7m4 100 mint true shop'')"
proof -
  have p: "map_of sample_record key_product_info =
     Some (PDict [(key_product_title, PStr (ascii '' Sony  A7M4 '')),
              (ascii ''price'', PInt 100),
              (ascii ''tags'', PList [PStr (ascii ''Mint''), PNone, PBool True])])"
    by (simp add: sample_record_def)
  have s: "map_of sample_record key_seller_info =
     Some (PDict [(ascii ''name'', PStr (ascii ''Shop''))])"
    by (simp add: sample_record_def key_product_info_def key_seller_info_def)
  have k: "map_of [(key_product_title, PStr (ascii '' Sony  A7M4 '')),
              (ascii ''price'', PInt 100),
              (ascii ''tags'', PList [PStr (ascii ''Mint''), PNone, PBool True])]
            key_product_title = Some (PStr (ascii '' Sony  A7M4 ''))"
    by simp
  have n: "ascii '' Sony  A7M4 '' \<noteq> []" by (simp add: ascii_def)
  note l = sample_record_limits
  from build_search_text_shape [of sample_record 1000] p s l
  have ex: "\<exists>t. build_search_text 1000 sample_record = Inr t" by blast
  from build_search_text_shape [of sample_record 1000] sample_record_text
  have shape: "lower (ascii ''sony a7m4 sony a7m4 100 mint true shop'') =
       ascii ''sony a7m4 sony a7m4 100 mint true shop''"
    "no_whitespace_run (ascii ''sony a7m4 sony a7m4 100 mint true shop'')"
    and title: "\<forall>kvs s. map_of sample_record key_product_info = Some (PDict kvs) \<longrightarrow>
                    map_of kvs key_product_title = Some (PStr s) \<longrightarrow> s \<noteq> [] \<longrightarrow>
                    sublist (normalize_text (Some s)) (ascii ''sony a7m4 sony a7m4 100 mint true shop'')"
    by blast+
  from title p k n have "sublist (normalize_text (Some (ascii '' Sony  A7M4 '')))
      (ascii ''sony a7m4 sony a7m4 100 mint true shop'')" by blast
  with p s l ex shape show ?thesis by (simp add: sample_record_text)
qed








section \<open>Properties of the AI runtime configuration\<close>

lemma truthy_iff: "truthy v \<longleftrightarrow> (\<exists>k. v = Some k \<and> k \<noteq> [])"
  by (cases v) (simp_all add: truthy_def)

lemma resolve_api_key:
  "api_key (resolve_ai_runtime_config env os_environ) =
     (if truthy (map_of (env_source env os_environ) (ascii ''OPENAI_API_KEY''))
      then map_of (env_source env os_environ) (ascii ''OPENAI_API_KEY'')
      else map_of (env_source env os_environ) (ascii ''GEMINI_API_KEY''))"
  by (simp add: resolve_ai_runtime_config_def Let_def)

lemma resolve_compat:
  "is_gemini_openai_compat (resolve_ai_runtime_config env os_environ) \<longleftrightarrow>
     truthy (map_of (env_source env os_environ) (ascii ''GEMINI_API_KEY'')) \<and>
     \<not> truthy (map_of (env_source env os_environ) (ascii ''OPENAI_API_KEY''))"
  by (simp add: resolve_ai_runtime_config_def Let_def)

lemma resolve_base_url:
  "base_url (resolve_ai_runtime_config env os_environ) =
     (case map_of (env_source env os_environ) (ascii ''OPENAI_BASE_URL'') of
        None \<Rightarrow> (if is_gemini_openai_compat (resolve_ai_runtime_config env os_environ)
                  then GEMINI_OPENAI_COMPAT_BASE_URL else [])
      | Some b \<Rightarrow> (if b \<noteq> [] then b
                  else if is_gemini_openai_compat (resolve_ai_runtime_config env os_environ)
                  then GEMINI_OPENAI_COMPAT_BASE_URL else []))"
  by (auto simp add: resolve_ai_runtime_config_def Let_def split: option.split)

lemma resolve_model_name:
  "model_name (resolve_ai_runtime_config env os_environ) =
     (case map_of (env_source env os_environ) (ascii ''OPENAI_MODEL_NAME'') of
        None \<Rightarrow> (if is_gemini_openai_compat (resolve_ai_runtime_config env os_environ)
                  then GEMINI_DEFAULT_MODEL_NAME else [])
      | Some m \<Rightarrow> (if m \<noteq> [] then m
                  else if is_gemini_openai_compat (resolve_ai_runtime_config env os_environ)
                  then GEMINI_DEFAULT_MODEL_NAME else []))"
  by (auto simp add: resolve_ai_runtime_config_def Let_def split: option.split)

lemma key_names_distinct:
  "ascii ''OPENAI_API_KEY'' \<noteq> ascii ''GEMINI_API_KEY''"
  "ascii ''OPENAI_API_KEY'' \<noteq> ascii ''OPENAI_BASE_URL''"
  "ascii ''OPENAI_API_KEY'' \<noteq> ascii ''OPENAI_MODEL_NAME''"
  "ascii ''GEMINI_API_KEY'' \<noteq> ascii ''OPENAI_BASE_URL''"
  "ascii ''GEMINI_API_KEY'' \<noteq> ascii ''OPENAI_MODEL_NAME''"
  "ascii ''OPENAI_BASE_URL'' \<noteq> ascii ''OPENAI_MODEL_NAME''"
  by (simp_all add: ascii_def)

lemma gemini_only_lookups:
  "map_of gemini_only_env (ascii ''OPENAI_API_KEY'') = None"
  "map_of gemini_only_env (ascii ''GEMINI_API_KEY'') = Some (ascii ''gemini-key'')"
  "map_of gemini_only_env (ascii ''OPENAI_BASE_URL'') = Some []"
  "map_of gemini_only_env (ascii ''OPENAI_MODEL_NAME'') = Some []"
  using key_names_distinct by (simp_all add: gemini_only_env_def)

lemma both_keys_lookups:
  "map_of both_keys_env (ascii ''OPENAI_API_KEY'') = Some (ascii ''openai-key'')"
  "map_of both_keys_env (ascii ''GEMINI_API_KEY'') = Some (ascii ''gemini-key'')"
  using key_names_distinct by (simp_all add: both_keys_env_def)

text \<open>
  The resolver on the environment of the test
  \<open>test_resolve_ai_runtime_prefers_gemini_key_for_gemini_endpoint\<close>: with both keys
  set the OpenAI key is returned and the Gemini defaults are off, where that test expects
  the Gemini key and the flag set.
\<close>

lemma resolve_both_keys_env:
  "api_key (resolve_ai_runtime_config (Some both_keys_env) os_environ) = Some (ascii ''openai-key'') \<and>
   \<not> is_gemini_openai_compat (resolve_ai_runtime_config (Some both_keys_env) os_environ)"
proof -
  have src: "env_source (Some both_keys_env) os_environ = both_keys_env"
    by (simp add: env_source_def both_keys_env_def)
  have t: "truthy (Some (ascii ''openai-key''))" by (simp add: truthy_def ascii_def)
  show ?thesis by (simp add: resolve_api_key resolve_compat src both_keys_lookups t)
qed

text \<open>
  Claim C4, as stated, fails in two places. With none of the four variables set the key
  is \<open>None\<close>, not the empty string; and an empty mapping passed as \<open>env\<close>
  is false, so the process environment is read in its place.
\<close>

theorem resolve_unset_counterexample:
  "api_key (resolve_ai_runtime_config (Some [(ascii ''PROXY_URL'', ascii ''p'')]) []) = None \<and>
   api_key (resolve_ai_runtime_config (Some []) [(ascii ''OPENAI_API_KEY'', ascii ''k'')]) =
     Some (ascii ''k'')"
proof -
  have other: "ascii ''PROXY_URL'' \<noteq> ascii ''OPENAI_API_KEY''"
    "ascii ''PROXY_URL'' \<noteq> ascii ''GEMINI_API_KEY''"
    by (simp_all add: ascii_def)
  have k: "ascii ''k'' \<noteq> []" by (simp add: ascii_def)
  show ?thesis
    using other k by (simp add: resolve_api_key env_source_def truthy_def)
qed

text \<open>
  Claim C4, amended. The variables are read from \<open>env\<close> when it is a non-empty
  mapping and from the process environment otherwise. On that source: the key is
  \<open>OPENAI_API_KEY\<close> when set and non-empty, else \<open>GEMINI_API_KEY\<close> as it is
  found; the Gemini flag holds exactly when a non-empty Gemini key and no non-empty OpenAI
  key is set; base URL and model name are the explicit values when non-empty, else the
  Gemini constants under the flag, else empty; and when none of the four is set the key is
  \<open>None\<close>, base URL and model name are empty and the flag is off. The function is
  total.
\<close>

theorem resolve_ai_runtime_config_rules:
  assumes "env_source env os_environ = source"
    and "resolve_ai_runtime_config env os_environ = r"
  shows "(source = (if env = None \<or> env = Some [] then os_environ else the env)) \<and>
     ((\<exists>k. map_of source (ascii ''OPENAI_API_KEY'') = Some k \<and> k \<noteq> []) \<longrightarrow>
        api_key r = map_of source (ascii ''OPENAI_API_KEY'')) \<and>
     (\<not> (\<exists>k. map_of source (ascii ''OPENAI_API_KEY'') = Some k \<and> k \<noteq> []) \<longrightarrow>
        api_key r = map_of source (ascii ''GEMINI_API_KEY'')) \<and>
     (is_gemini_openai_compat r \<longleftrightarrow>
        (\<exists>g. map_of source (ascii ''GEMINI_API_KEY'') = Some g \<and> g \<noteq> []) \<and>
        \<not> (\<exists>k. map_of source (ascii ''OPENAI_API_KEY'') = Some k \<and> k \<noteq> [])) \<and>
     ((\<exists>b. map_of source (ascii ''OPENAI_BASE_URL'') = Some b \<and> b \<noteq> []) \<longrightarrow>
        Some (base_url r) = map_of source (ascii ''OPENAI_BASE_URL'')) \<and>
     (\<not> (\<exists>b. map_of source (ascii ''OPENAI_BASE_URL'') = Some b \<and> b \<noteq> []) \<longrightarrow>
        base_url r = (if is_gemini_openai_compat r then GEMINI_OPENAI_COMPAT_BASE_URL else [])) \<and>
     ((\<exists>m. map_of source (ascii ''OPENAI_MODEL_NAME'') = Some m \<and> m \<noteq> []) \<longrightarrow>
        Some (model_name r) = map_of source (ascii ''OPENAI_MODEL_NAME'')) \<and>
     (\<not> (\<exists>m. map_of source (ascii ''OPENAI_MODEL_NAME'') = Some m \<and> m \<noteq> []) \<longrightarrow>
        model_name r = (if is_gemini_openai_compat r then GEMINI_DEFAULT_MODEL_NAME else [])) \<and>
     (map_of source (ascii ''OPENAI_API_KEY'') = None \<and>
      map_of source (ascii ''GEMINI_API_KEY'') = None \<and>
      map_of source (ascii ''OPENAI_BASE_URL'') = None \<and>
      map_of source (ascii ''OPENAI_MODEL_NAME'') = None \<longrightarrow>
        r = \<lparr> api_key = None, base_url = [], model_name = [],
              is_gemini_openai_compat = False \<rparr>)"
proof -
  note key = resolve_api_key [of env os_environ, unfolded assms]
  note compat = resolve_compat [of env os_environ, unfolded assms]
  note base = resolve_base_url [of env os_environ, unfolded assms]
  note model = resolve_model_name [of env os_environ, unfolded assms]
  have c1: "source = (if env = None \<or> env = Some [] then os_environ else the env)"
    using assms(1) by (cases env) (auto simp add: env_source_def)
  have c2: "(\<exists>k. map_of source (ascii ''OPENAI_API_KEY'') = Some k \<and> k \<noteq> []) \<longrightarrow>
        api_key r = map_of source (ascii ''OPENAI_API_KEY'')"
    using key by (auto simp add: truthy_iff)
  have c3: "\<not> (\<exists>k. map_of source (ascii ''OPENAI_API_KEY'') = Some k \<and> k \<noteq> []) \<longrightarrow>
        api_key r = map_of source (ascii ''GEMINI_API_KEY'')"
    using key by (auto simp add: truthy_iff)
  have c4: "is_gemini_openai_compat r \<longleftrightarrow>
        (\<exists>g. map_of source (ascii ''GEMINI_API_KEY'') = Some g \<and> g \<noteq> []) \<and>
        \<not> (\<exists>k. map_of source (ascii ''OPENAI_API_KEY'') = Some k \<and> k \<noteq> [])"
    using compat by (auto simp add: truthy_iff)
  have c5: "(\<exists>b. map_of source (ascii ''OPENAI_BASE_URL'') = Some b \<and> b \<noteq> []) \<longrightarrow>
        Some (base_url r) = map_of source (ascii ''OPENAI_BASE_URL'')"
    using base by auto
  have c6: "\<not> (\<exists>b. map_of source (ascii ''OPENAI_BASE_URL'') = Some b \<and> b \<noteq> []) \<longrightarrow>
        base_url r = (if is_gemini_openai_compat r then GEMINI_OPENAI_COMPAT_BASE_URL else [])"
    using base by (cases "map_of source (ascii ''OPENAI_BASE_URL'')") simp_all
  have c7: "(\<exists>m. map_of source (ascii ''OPENAI_MODEL_NAME'') = Some m \<and> m \<noteq> []) \<longrightarrow>
        Some (model_name r) = map_of source (ascii ''OPENAI_MODEL_NAME'')"
    using model by auto
  have c8: "\<not> (\<exists>m. map_of source (ascii ''OPENAI_MODEL_NAME'') = Some m \<and> m \<noteq> []) \<longrightarrow>
        model_name r = (if is_gemini_openai_compat r then GEMINI_DEFAULT_MODEL_NAME else [])"
    using model by (cases "map_of source (ascii ''OPENAI_MODEL_NAME'')") simp_all
  have c9: "map_of source (ascii ''OPENAI_API_KEY'') = None \<and>
      map_of source (ascii ''GEMINI_API_KEY'') = None \<and>
      map_of source (ascii ''OPENAI_BASE_URL'') = None \<and>
      map_of source (ascii ''OPENAI_MODEL_NAME'') = None \<longrightarrow>
        r = \<lparr> api_key = None, base_url = [], model_name = [],
              is_gemini_openai_compat = False \<rparr>"
  proof (intro impI, elim conjE)
    assume unset: "map_of source (ascii ''OPENAI_API_KEY'') = None"
      "map_of source (ascii ''GEMINI_API_KEY'') = None"
      "map_of source (ascii ''OPENAI_BASE_URL'') = None"
      "map_of source (ascii ''OPENAI_MODEL_NAME'') = None"
    have k: "api_key r = None" using key unset by (simp add: truthy_def)
    have g: "\<not> is_gemini_openai_compat r" using compat unset by (simp add: truthy_def)
    have b: "base_url r = []" using base unset g by simp
    have m: "model_name r = []" using model unset g by simp
    from k g b m show "r = \<lparr> api_key = None, base_url = [], model_name = [],
              is_gemini_openai_compat = False \<rparr>"
      by (cases r) simp
  qed
  from c1 c2 c3 c4 c5 c6 c7 c8 c9 show ?thesis by (intro conjI)
qed

theorem resolve_ai_runtime_config_rules_witness:
  "env_source (Some gemini_only_env) [(ascii ''OPENAI_API_KEY'', ascii ''unused'')] =
     gemini_only_env \<and>
   resolve_ai_runtime_config (Some gemini_only_env) [(ascii ''OPENAI_API_KEY'', ascii ''unused'')] =
     \<lparr> api_key = Some (ascii ''gemini-key''),
       base_url = GEMINI_OPENAI_COMPAT_BASE_URL,
       model_name = GEMINI_DEFAULT_MODEL_NAME,
       is_gemini_openai_compat = True \<rparr>"
proof -
  let ?os = "[(ascii ''OPENAI_API_KEY'', ascii ''unused'')]"
  let ?r = "resolve_ai_runtime_config (Some gemini_only_env) ?os"
  have src: "env_source (Some gemini_only_env) ?os = gemini_only_env"
    by (simp add: env_source_def gemini_only_env_def)
  have ne: "ascii ''gemini-key'' \<noteq> []" by (simp add: ascii_def)
  note rules = resolve_ai_runtime_config_rules [OF src refl]
  from rules have k: "api_key ?r = Some (ascii ''gemini-key'')"
    by (simp add: gemini_only_lookups)
  from rules ne have g: "is_gemini_openai_compat ?r"
    by (simp add: gemini_only_lookups)
  from rules g have b: "base_url ?r = GEMINI_OPENAI_COMPAT_BASE_URL"
    by (simp add: gemini_only_lookups)
  from rules g have m: "model_name ?r = GEMINI_DEFAULT_MODEL_NAME"
    by (simp add: gemini_only_lookups)
  from k g b m have "?r = \<lparr> api_key = Some (ascii ''gemini-key''),
       base_url = GEMINI_OPENAI_COMPAT_BASE_URL,
       model_name = GEMINI_DEFAULT_MODEL_NAME,
       is_gemini_openai_compat = True \<rparr>"
    by (cases ?r) simp
  with src show ?thesis by simp
qed

section \<open>Properties of the task models\<close>










lemma group_without_include_fields: "krg_include_keywords group_without_include = []"
  by (simp add: group_without_include_def)

lemma has_valid_keyword_groups_iff:
  "has_valid_keyword_groups gs \<longleftrightarrow> (\<exists>g \<in> set gs. krg_include_keywords g \<noteq> [])"
  by (induction gs) simp_all

lemma lower_mode_text:
  "lower (ascii ''ai'') = ascii ''ai''"
  "lower (ascii ''keyword'') = ascii ''keyword''"
  "ascii ''ai'' \<noteq> ascii ''keyword''"
  "ascii ''keyword'' \<noteq> ascii ''ai''"
  by (simp_all add: ascii_def lower_ascii)

lemma validate_decision_mode_payload_cases:
  "validate_decision_mode_payload vals =
     (if c_decision_mode vals = Ai \<and>
         strip (case c_description vals of None \<Rightarrow> [] | Some s \<Rightarrow> s) = []
      then Inl (ValidationError [msg_ai_description])
      else if c_decision_mode vals = Keyword \<and>
              \<not> has_valid_keyword_groups (c_keyword_rule_groups vals)
      then Inl (ValidationError [msg_keyword_groups])
      else Inr vals)"
  by (cases "c_decision_mode vals")
     (simp_all add: validate_decision_mode_payload_def Let_def lower_mode_text)

lemma TaskCreate_field_error:
  assumes "price_field (ck_min_price kw) = Inl e \<or> price_field (ck_max_price kw) = Inl e"
  shows "\<exists>es. TaskCreate kw = Inl (ValidationError es)"
  using assms
  by (cases "price_field (ck_min_price kw)"; cases "price_field (ck_max_price kw)")
     (auto simp add: TaskCreate_def)

lemma TaskCreate_root:
  assumes "price_field (ck_min_price kw) = Inr lo" "price_field (ck_max_price kw) = Inr hi"
    and "mode = (case ck_decision_mode kw of None \<Rightarrow> Ai | Some m \<Rightarrow> m)"
    and "description =
           (case ck_description kw of None \<Rightarrow> [] | Some None \<Rightarrow> [] | Some (Some s) \<Rightarrow> s)"
    and "groups = (case ck_keyword_rule_groups kw of None \<Rightarrow> [] | Some gs \<Rightarrow> gs)"
  shows "(mode = Ai \<and> strip description = [] \<longrightarrow>
            TaskCreate kw = Inl (ValidationError [msg_ai_description])) \<and>
         (mode = Keyword \<and> \<not> has_valid_keyword_groups groups \<longrightarrow>
            TaskCreate kw = Inl (ValidationError [msg_keyword_groups])) \<and>
         (\<not> (mode = Ai \<and> strip description = []) \<and>
          \<not> (mode = Keyword \<and> \<not> has_valid_keyword_groups groups) \<longrightarrow>
            (\<exists>c. TaskCreate kw = Inr c))"
proof -
  have d: "(case (case ck_description kw of None \<Rightarrow> Some [] | Some d \<Rightarrow> d) of
             None \<Rightarrow> [] | Some s \<Rightarrow> s) = description"
    using assms(4) by (simp split: option.splits)
  show ?thesis
    using assms(1,2) d
    by (simp add: TaskCreate_def validate_decision_mode_payload_cases
        assms(3) [symmetric] assms(5) [symmetric])
qed

text \<open>
  Claim C3, as stated, fails for the \<open>Task\<close> itself: the class declares no validator,
  and a \<open>Task\<close> in AI mode with an empty description is constructed.
\<close>

theorem task_unvalidated_counterexample:
  "Task blank_task_kwargs =
     Inr \<lparr> t_id = None,
           t_task_name = Some (ascii ''camera''),
           t_enabled = Some True,
           t_keyword = Some (ascii ''a7m4''),
           t_description = Some [],
           t_max_pages = Some 3,
           t_personal_only = Some True,
           t_min_price = None,
           t_max_price = None,
           t_cron = None,
           t_ai_prompt_base_file = Some (ascii ''base.txt''),
           t_ai_prompt_criteria_file = Some (ascii ''criteria.txt''),
           t_account_state_file = None,
           t_free_shipping = Some True,
           t_new_publish_option = None,
           t_region = None,
           t_decision_mode = Some Ai,
           t_keyword_rule_groups = Some [],
           t_is_running = Some False \<rparr>"
  by (simp add: Task_def blank_task_kwargs_def)

text \<open>
  Claim C3, amended. Constructing a \<open>TaskCreate\<close> fails with a validation error when
  the mode is \<open>ai\<close> (given or by default) and the description is blank or absent,
  and when the mode is \<open>keyword\<close> and no rule group has include keywords; when both
  price fields are valid the error is the root validator's message, and with a satisfied
  mode the request is constructed. Constructing a \<open>Task\<close> checks none of this: it
  always returns the task with the mode, description and groups it was given.
\<close>

theorem task_create_validation:
  assumes "mode = (case ck_decision_mode kw of None \<Rightarrow> Ai | Some m \<Rightarrow> m)"
    and "description =
           (case ck_description kw of None \<Rightarrow> [] | Some None \<Rightarrow> [] | Some (Some s) \<Rightarrow> s)"
    and "groups = (case ck_keyword_rule_groups kw of None \<Rightarrow> [] | Some gs \<Rightarrow> gs)"
  shows "(mode = Ai \<and> strip description = [] \<longrightarrow>
            (\<exists>es. TaskCreate kw = Inl (ValidationError es))) \<and>
         (mode = Keyword \<and> (\<forall>g \<in> set groups. krg_include_keywords g = []) \<longrightarrow>
            (\<exists>es. TaskCreate kw = Inl (ValidationError es))) \<and>
         (price_field (ck_min_price kw) = Inr lo \<and> price_field (ck_max_price kw) = Inr hi \<longrightarrow>
            (mode = Ai \<and> strip description = [] \<longrightarrow>
               TaskCreate kw = Inl (ValidationError [msg_ai_description])) \<and>
            (mode = Keyword \<and> (\<forall>g \<in> set groups. krg_include_keywords g = []) \<longrightarrow>
               TaskCreate kw = Inl (ValidationError [msg_keyword_groups])) \<and>
            (\<not> (mode = Ai \<and> strip description = []) \<and>
             \<not> (mode = Keyword \<and> (\<forall>g \<in> set groups. krg_include_keywords g = [])) \<longrightarrow>
               (\<exists>c. TaskCreate kw = Inr c))) \<and>
         (\<exists>t. Task tkw = Inr t \<and>
              t_decision_mode t = Some (case tk_decision_mode tkw of None \<Rightarrow> Ai | Some m \<Rightarrow> m) \<and>
              t_description t = (case tk_description tkw of None \<Rightarrow> Some [] | Some d \<Rightarrow> d) \<and>
              t_keyword_rule_groups t =
                Some (map GroupModel
                  (case tk_keyword_rule_groups tkw of None \<Rightarrow> [] | Some gs \<Rightarrow> gs)))"
proof -
  have valid: "\<not> has_valid_keyword_groups groups \<longleftrightarrow>
      (\<forall>g \<in> set groups. krg_include_keywords g = [])"
    by (simp add: has_valid_keyword_groups_iff)
  have root: "price_field (ck_min_price kw) = Inr lo' \<Longrightarrow>
      price_field (ck_max_price kw) = Inr hi' \<Longrightarrow>
      (mode = Ai \<and> strip description = [] \<longrightarrow>
         TaskCreate kw = Inl (ValidationError [msg_ai_description])) \<and>
      (mode = Keyword \<and> (\<forall>g \<in> set groups. krg_include_keywords g = []) \<longrightarrow>
         TaskCreate kw = Inl (ValidationError [msg_keyword_groups])) \<and>
      (\<not> (mode = Ai \<and> strip description = []) \<and>
       \<not> (mode = Keyword \<and> (\<forall>g \<in> set groups. krg_include_keywords g = [])) \<longrightarrow>
         (\<exists>c. TaskCreate kw = Inr c))" for lo' hi'
    using TaskCreate_root [OF _ _ assms, of lo' hi'] unfolding valid by blast
  have fails: "\<exists>es. TaskCreate kw = Inl (ValidationError es)"
    if "(mode = Ai \<and> strip description = []) \<or>
        (mode = Keyword \<and> (\<forall>g \<in> set groups. krg_include_keywords g = []))"
  proof (cases "price_field (ck_min_price kw)")
    case (Inl e)
    then show ?thesis using TaskCreate_field_error [of kw e] by simp
  next
    case lo: (Inr lo')
    show ?thesis
    proof (cases "price_field (ck_max_price kw)")
      case (Inl e)
      then show ?thesis using TaskCreate_field_error [of kw e] by simp
    next
      case (Inr hi')
      with lo root that show ?thesis by blast
    qed
  qed
  have task: "\<exists>t. Task tkw = Inr t \<and>
              t_decision_mode t = Some (case tk_decision_mode tkw of None \<Rightarrow> Ai | Some m \<Rightarrow> m) \<and>
              t_description t = (case tk_description tkw of None \<Rightarrow> Some [] | Some d \<Rightarrow> d) \<and>
              t_keyword_rule_groups t =
                Some (map GroupModel
                  (case tk_keyword_rule_groups tkw of None \<Rightarrow> [] | Some gs \<Rightarrow> gs))"
    by (simp add: Task_def)
  from fails root [of lo hi] task show ?thesis by blast
qed

lemma strip_mint_body: "strip (ascii ''mint body'') \<noteq> []"
  by (simp add: ascii_def strip_def isspace_def)

lemma blank_create_fields:
  "ck_decision_mode blank_create_kwargs = None"
  "ck_description blank_create_kwargs = None"
  "ck_min_price blank_create_kwargs = None"
  "ck_max_price blank_create_kwargs = None"
  by (simp_all add: blank_create_kwargs_def)

lemma keyword_create_fields:
  "ck_decision_mode keyword_create_kwargs = Some Keyword"
  "ck_keyword_rule_groups keyword_create_kwargs =
     Some [group_without_include]"
  "ck_min_price keyword_create_kwargs = None"
  "ck_max_price keyword_create_kwargs = None"
  by (simp_all add: keyword_create_kwargs_def)

lemma sample_create_fields:
  "ck_decision_mode sample_create_kwargs = None"
  "ck_description sample_create_kwargs = Some (Some (ascii ''mint body''))"
  "ck_min_price sample_create_kwargs = Some (PInt 100)"
  "ck_max_price sample_create_kwargs = None"
  by (simp_all add: sample_create_kwargs_def)

lemma blank_task_fields:
  "tk_decision_mode blank_task_kwargs = None"
  "tk_description blank_task_kwargs = None"
  by (simp_all add: blank_task_kwargs_def)

theorem task_create_validation_witness:
  "TaskCreate blank_create_kwargs = Inl (ValidationError [msg_ai_description]) \<and>
   TaskCreate keyword_create_kwargs = Inl (ValidationError [msg_keyword_groups]) \<and>
   (\<exists>c. TaskCreate sample_create_kwargs = Inr c) \<and>
   (\<exists>t. Task blank_task_kwargs = Inr t \<and> t_decision_mode t = Some Ai \<and>
        t_description t = Some [])"
proof -
  have none: "price_field None = Inr None" by (simp add: price_field_def)
  have hundred: "price_field (Some (PInt 100)) = Inr (Some (str_int 100))"
    by (simp add: price_field_def validate_price_def convert_price_to_str_def)
  have e: "strip [] = []" by (simp add: strip_def)
  have a: "TaskCreate blank_create_kwargs = Inl (ValidationError [msg_ai_description])"
    using task_create_validation [OF refl refl refl, of blank_create_kwargs None None] none e
    by (simp add: blank_create_fields)
  have b: "TaskCreate keyword_create_kwargs = Inl (ValidationError [msg_keyword_groups])"
    using task_create_validation [OF refl refl refl, of keyword_create_kwargs None None] none
    by (simp add: keyword_create_fields group_without_include_fields)
  have c: "\<exists>c. TaskCreate sample_create_kwargs = Inr c"
    using task_create_validation [OF refl refl refl, of sample_create_kwargs
        "Some (str_int 100)" None] none hundred strip_mint_body
    by (simp add: sample_create_fields)
  have d: "\<exists>t. Task blank_task_kwargs = Inr t \<and> t_decision_mode t = Some Ai \<and>
        t_description t = Some []"
    using task_create_validation [OF refl refl refl, of blank_create_kwargs None None
        blank_task_kwargs, THEN conjunct2, THEN conjunct2, THEN conjunct2]
    by (auto simp add: blank_task_fields)
  from a b c d show ?thesis by blast
qed

lemma validate_partial_cases:
  "validate_partial_keyword_payload u =
     (if u_decision_mode u = Some (Some Keyword) \<and>
         (\<exists>gs. u_keyword_rule_groups u = Some (Some gs) \<and> \<not> has_valid_keyword_groups gs)
      then Inl (ValidationError [msg_keyword_groups])
      else if u_decision_mode u = Some (Some Ai) \<and>
              (\<exists>d. u_description u = Some (Some d) \<and> strip d = [])
      then Inl (ValidationError [msg_ai_description])
      else Inr u)"
proof -
  have m: "field_value (u_decision_mode u) = Some x \<longleftrightarrow> u_decision_mode u = Some (Some x)" for x
    by (simp add: field_value_def split: option.splits)
  have g: "field_value (u_keyword_rule_groups u) \<noteq> None \<and>
        \<not> has_valid_keyword_groups (the (field_value (u_keyword_rule_groups u))) \<longleftrightarrow>
      (\<exists>gs. u_keyword_rule_groups u = Some (Some gs) \<and> \<not> has_valid_keyword_groups gs)"
    by (auto simp add: field_value_def split: option.splits)
  have d: "field_value (u_description u) \<noteq> None \<and>
        strip (the (field_value (u_description u))) = [] \<longleftrightarrow>
      (\<exists>d. u_description u = Some (Some d) \<and> strip d = [])"
    by (auto simp add: field_value_def split: option.splits)
  show ?thesis
    unfolding validate_partial_keyword_payload_def Let_def m
    using g d by simp
qed

lemma empty_update_fields:
  "u_decision_mode empty_update = None"
  "u_keyword_rule_groups empty_update = None"
  "u_description empty_update = None"
  "u_min_price empty_update = None"
  "u_max_price empty_update = None"
  by (simp_all add: empty_update_def)

lemma validate_update_only_groups:
  "validate_partial_keyword_payload update_only_groups = Inr update_only_groups"
  by (simp add: validate_partial_cases update_only_groups_def empty_update_fields)

lemma validate_update_only_mode:
  "validate_partial_keyword_payload update_only_mode = Inr update_only_mode"
  by (simp add: validate_partial_cases update_only_mode_def empty_update_fields)

lemma TaskUpdate_only_groups:
  "TaskUpdate (empty_update \<lparr> u_keyword_rule_groups := Some (Some []) \<rparr>) = Inr update_only_groups"
proof -
  have "TaskUpdate (empty_update \<lparr> u_keyword_rule_groups := Some (Some []) \<rparr>) =
      validate_partial_keyword_payload update_only_groups"
    by (simp add: TaskUpdate_def price_supplied_def update_only_groups_def empty_update_def)
  then show ?thesis by (simp add: validate_update_only_groups)
qed

lemma TaskUpdate_only_mode:
  "TaskUpdate (empty_update \<lparr> u_decision_mode := Some (Some Keyword) \<rparr>) = Inr update_only_mode"
proof -
  have "TaskUpdate (empty_update \<lparr> u_decision_mode := Some (Some Keyword) \<rparr>) =
      validate_partial_keyword_payload update_only_mode"
    by (simp add: TaskUpdate_def price_supplied_def update_only_mode_def empty_update_def)
  then show ?thesis by (simp add: validate_update_only_mode)
qed

lemma merged_task_mode:
  "t_decision_mode (apply_update (apply_update sample_task update_only_groups) update_only_mode)
     = Some Keyword"
  by (simp add: apply_update_def update_only_mode_def empty_update_def)

lemma merged_task_groups:
  "t_keyword_rule_groups
     (apply_update (apply_update sample_task update_only_groups) update_only_mode) = Some []"
  by (simp add: apply_update_def update_only_mode_def update_only_groups_def empty_update_def
      dict_groups_def)

text \<open>
  Claim C6. The root validator of \<open>TaskUpdate\<close> raises exactly when the update sets
  the mode to \<open>keyword\<close> together with a list of groups none of which has include
  keywords, or sets the mode to \<open>ai\<close> together with a blank description. An update
  that sets the mode alone, or sets no mode, passes. So the update that sets only an empty
  group list and then the update that sets only the mode \<open>keyword\<close> both pass, and
  the task they leave is in keyword mode without any group that has include keywords.
\<close>

theorem task_update_partial_validation:
  "(u_decision_mode u = Some (Some Keyword) \<and>
      (\<exists>gs. u_keyword_rule_groups u = Some (Some gs) \<and>
            (\<forall>g \<in> set gs. krg_include_keywords g = [])) \<longrightarrow>
      validate_partial_keyword_payload u = Inl (ValidationError [msg_keyword_groups])) \<and>
   (u_decision_mode u = Some (Some Ai) \<and>
      (\<exists>d. u_description u = Some (Some d) \<and> strip d = []) \<longrightarrow>
      validate_partial_keyword_payload u = Inl (ValidationError [msg_ai_description])) \<and>
   (\<not> (u_decision_mode u = Some (Some Keyword) \<and>
        (\<exists>gs. u_keyword_rule_groups u = Some (Some gs) \<and>
              (\<forall>g \<in> set gs. krg_include_keywords g = []))) \<and>
    \<not> (u_decision_mode u = Some (Some Ai) \<and>
        (\<exists>d. u_description u = Some (Some d) \<and> strip d = [])) \<longrightarrow>
      validate_partial_keyword_payload u = Inr u) \<and>
   (u_keyword_rule_groups u = None \<and> u_description u = None \<longrightarrow>
      validate_partial_keyword_payload u = Inr u) \<and>
   (u_decision_mode u = None \<longrightarrow> validate_partial_keyword_payload u = Inr u) \<and>
   TaskUpdate (empty_update \<lparr> u_keyword_rule_groups := Some (Some []) \<rparr>) =
     Inr update_only_groups \<and>
   TaskUpdate (empty_update \<lparr> u_decision_mode := Some (Some Keyword) \<rparr>) =
     Inr update_only_mode \<and>
   t_decision_mode (apply_update (apply_update sample_task update_only_groups) update_only_mode)
     = Some Keyword \<and>
   t_keyword_rule_groups
     (apply_update (apply_update sample_task update_only_groups) update_only_mode) = Some [] \<and>
   \<not> has_valid_keyword_groups []"
proof -
  have c1: "u_decision_mode u = Some (Some Keyword) \<and>
      (\<exists>gs. u_keyword_rule_groups u = Some (Some gs) \<and>
            (\<forall>g \<in> set gs. krg_include_keywords g = [])) \<longrightarrow>
      validate_partial_keyword_payload u = Inl (ValidationError [msg_keyword_groups])"
    by (auto simp add: validate_partial_cases has_valid_keyword_groups_iff)
  have c2: "u_decision_mode u = Some (Some Ai) \<and>
      (\<exists>d. u_description u = Some (Some d) \<and> strip d = []) \<longrightarrow>
      validate_partial_keyword_payload u = Inl (ValidationError [msg_ai_description])"
    by (auto simp add: validate_partial_cases)
  have c3: "\<not> (u_decision_mode u = Some (Some Keyword) \<and>
        (\<exists>gs. u_keyword_rule_groups u = Some (Some gs) \<and>
              (\<forall>g \<in> set gs. krg_include_keywords g = []))) \<and>
    \<not> (u_decision_mode u = Some (Some Ai) \<and>
        (\<exists>d. u_description u = Some (Some d) \<and> strip d = [])) \<longrightarrow>
      validate_partial_keyword_payload u = Inr u"
    by (auto simp add: validate_partial_cases has_valid_keyword_groups_iff)
  have c4: "u_keyword_rule_groups u = None \<and> u_description u = None \<longrightarrow>
      validate_partial_keyword_payload u = Inr u"
    by (simp add: validate_partial_cases)
  have c5: "u_decision_mode u = None \<longrightarrow> validate_partial_keyword_payload u = Inr u"
    by (simp add: validate_partial_cases)
  have c6: "\<not> has_valid_keyword_groups []" by simp
  from c1 c2 c3 c4 c5 c6 TaskUpdate_only_groups TaskUpdate_only_mode merged_task_mode
    merged_task_groups
  show ?thesis by (intro conjI)
qed

lemma update_keyword_no_include_fields:
  "u_decision_mode update_keyword_no_include = Some (Some Keyword)"
  "u_keyword_rule_groups update_keyword_no_include =
     Some (Some [group_without_include])"
  by (simp_all add: update_keyword_no_include_def)

lemma update_ai_blank_fields:
  "u_decision_mode update_ai_blank = Some (Some Ai)"
  "u_description update_ai_blank = Some (Some [32, 32])"
  by (simp_all add: update_ai_blank_def)

lemma update_only_mode_fields:
  "u_decision_mode update_only_mode = Some (Some Keyword)"
  "u_keyword_rule_groups update_only_mode = None"
  "u_description update_only_mode = None"
  by (simp_all add: update_only_mode_def empty_update_def)

theorem task_update_partial_validation_witness:
  "validate_partial_keyword_payload update_keyword_no_include =
     Inl (ValidationError [msg_keyword_groups]) \<and>
   validate_partial_keyword_payload update_ai_blank =
     Inl (ValidationError [msg_ai_description]) \<and>
   validate_partial_keyword_payload update_only_mode = Inr update_only_mode \<and>
   validate_partial_keyword_payload empty_update = Inr empty_update"
proof -
  have b: "strip [32, 32] = []" by (simp add: strip_def isspace_def)
  have c1: "validate_partial_keyword_payload update_keyword_no_include =
     Inl (ValidationError [msg_keyword_groups])"
    using task_update_partial_validation [of update_keyword_no_include]
    by (simp add: update_keyword_no_include_fields group_without_include_fields)
  have c2: "validate_partial_keyword_payload update_ai_blank =
     Inl (ValidationError [msg_ai_description])"
    using task_update_partial_validation [of update_ai_blank] b
    by (simp add: update_ai_blank_fields)
  have c3: "validate_partial_keyword_payload update_only_mode = Inr update_only_mode"
    using task_update_partial_validation [of update_only_mode]
    by (simp add: update_only_mode_fields)
  have c4: "validate_partial_keyword_payload empty_update = Inr empty_update"
    using task_update_partial_validation [of empty_update]
    by (simp add: empty_update_fields)
  from c1 c2 c3 c4 show ?thesis by (intro conjI)
qed

lemma apply_update_frame:
  "t_id (apply_update t u) = t_id t"
  "(u_task_name u = None \<longrightarrow> t_task_name (apply_update t u) = t_task_name t)"
  "(\<forall>v. u_task_name u = Some v \<longrightarrow> t_task_name (apply_update t u) = v)"
  "(u_enabled u = None \<longrightarrow> t_enabled (apply_update t u) = t_enabled t)"
  "(\<forall>v. u_enabled u = Some v \<longrightarrow> t_enabled (apply_update t u) = v)"
  "(u_keyword u = None \<longrightarrow> t_keyword (apply_update t u) = t_keyword t)"
  "(\<forall>v. u_keyword u = Some v \<longrightarrow> t_keyword (apply_update t u) = v)"
  "(u_description u = None \<longrightarrow> t_description (apply_update t u) = t_description t)"
  "(\<forall>v. u_description u = Some v \<longrightarrow> t_description (apply_update t u) = v)"
  "(u_max_pages u = None \<longrightarrow> t_max_pages (apply_update t u) = t_max_pages t)"
  "(\<forall>v. u_max_pages u = Some v \<longrightarrow> t_max_pages (apply_update t u) = v)"
  "(u_personal_only u = None \<longrightarrow> t_personal_only (apply_update t u) = t_personal_only t)"
  "(\<forall>v. u_personal_only u = Some v \<longrightarrow> t_personal_only (apply_update t u) = v)"
  "(u_min_price u = None \<longrightarrow> t_min_price (apply_update t u) = t_min_price t)"
  "(\<forall>v. u_min_price u = Some v \<longrightarrow> t_min_price (apply_update t u) = v)"
  "(u_max_price u = None \<longrightarrow> t_max_price (apply_update t u) = t_max_price t)"
  "(\<forall>v. u_max_price u = Some v \<longrightarrow> t_max_price (apply_update t u) = v)"
  "(u_cron u = None \<longrightarrow> t_cron (apply_update t u) = t_cron t)"
  "(\<forall>v. u_cron u = Some v \<longrightarrow> t_cron (apply_update t u) = v)"
  "(u_ai_prompt_base_file u = None \<longrightarrow> t_ai_prompt_base_file (apply_update t u) = t_ai_prompt_base_file t)"
  "(\<forall>v. u_ai_prompt_base_file u = Some v \<longrightarrow> t_ai_prompt_base_file (apply_update t u) = v)"
  "(u_ai_prompt_criteria_file u = None \<longrightarrow> t_ai_prompt_criteria_file (apply_update t u) = t_ai_prompt_criteria_file t)"
  "(\<forall>v. u_ai_prompt_criteria_file u = Some v \<longrightarrow> t_ai_prompt_criteria_file (apply_update t u) = v)"
  "(u_account_state_file u = None \<longrightarrow> t_account_state_file (apply_update t u) = t_account_state_file t)"
  "(\<forall>v. u_account_state_file u = Some v \<longrightarrow> t_account_state_file (apply_update t u) = v)"
  "(u_free_shipping u = None \<longrightarrow> t_free_shipping (apply_update t u) = t_free_shipping t)"
  "(\<forall>v. u_free_shipping u = Some v \<longrightarrow> t_free_shipping (apply_update t u) = v)"
  "(u_new_publish_option u = None \<longrightarrow> t_new_publish_option (apply_update t u) = t_new_publish_option t)"
  "(\<forall>v. u_new_publish_option u = Some v \<longrightarrow> t_new_publish_option (apply_update t u) = v)"
  "(u_region u = None \<longrightarrow> t_region (apply_update t u) = t_region t)"
  "(\<forall>v. u_region u = Some v \<longrightarrow> t_region (apply_update t u) = v)"
  "(u_decision_mode u = None \<longrightarrow> t_decision_mode (apply_update t u) = t_decision_mode t)"
  "(\<forall>v. u_decision_mode u = Some v \<longrightarrow> t_decision_mode (apply_update t u) = v)"
  "(u_keyword_rule_groups u = None \<longrightarrow> t_keyword_rule_groups (apply_update t u) = t_keyword_rule_groups t)"
  "(\<forall>v. u_keyword_rule_groups u = Some v \<longrightarrow>
      t_keyword_rule_groups (apply_update t u) = dict_groups v)"
  "(u_is_running u = None \<longrightarrow> t_is_running (apply_update t u) = t_is_running t)"
  "(\<forall>v. u_is_running u = Some v \<longrightarrow> t_is_running (apply_update t u) = v)"
  by (simp_all add: apply_update_def)

lemma noop_field: "x = None \<or> x = Some y \<Longrightarrow> (case x of None \<Rightarrow> y | Some v \<Rightarrow> v) = y"
  by auto

lemma noop_groups:
  "x = None \<or> (\<exists>v. x = Some v \<and> f v = y) \<Longrightarrow> (case x of None \<Rightarrow> y | Some v \<Rightarrow> f v) = y"
  by auto

lemma apply_update_noop:
  assumes "u_task_name u = None \<or> u_task_name u = Some (t_task_name t)"
    and "u_enabled u = None \<or> u_enabled u = Some (t_enabled t)"
    and "u_keyword u = None \<or> u_keyword u = Some (t_keyword t)"
    and "u_description u = None \<or> u_description u = Some (t_description t)"
    and "u_max_pages u = None \<or> u_max_pages u = Some (t_max_pages t)"
    and "u_personal_only u = None \<or> u_personal_only u = Some (t_personal_only t)"
    and "u_min_price u = None \<or> u_min_price u = Some (t_min_price t)"
    and "u_max_price u = None \<or> u_max_price u = Some (t_max_price t)"
    and "u_cron u = None \<or> u_cron u = Some (t_cron t)"
    and "u_ai_prompt_base_file u = None \<or> u_ai_prompt_base_file u = Some (t_ai_prompt_base_file t)"
    and "u_ai_prompt_criteria_file u = None \<or> u_ai_prompt_criteria_file u = Some (t_ai_prompt_criteria_file t)"
    and "u_account_state_file u = None \<or> u_account_state_file u = Some (t_account_state_file t)"
    and "u_free_shipping u = None \<or> u_free_shipping u = Some (t_free_shipping t)"
    and "u_new_publish_option u = None \<or> u_new_publish_option u = Some (t_new_publish_option t)"
    and "u_region u = None \<or> u_region u = Some (t_region t)"
    and "u_decision_mode u = None \<or> u_decision_mode u = Some (t_decision_mode t)"
    and "u_keyword_rule_groups u = None \<or>
       (\<exists>v. u_keyword_rule_groups u = Some v \<and> dict_groups v = t_keyword_rule_groups t)"
    and "u_is_running u = None \<or> u_is_running u = Some (t_is_running t)"
  shows "apply_update t u = t"
  unfolding apply_update_def
  by (simp only: assms(1-16,18) [THEN noop_field] assms(17) [THEN noop_groups]) simp

text \<open>
  Claim C8, as stated, fails in its last part. The update that sets
  \<open>keyword_rule_groups\<close> to the very group the task holds stores that group as the
  dictionary of its set fields, so the task returned differs from the original, in the
  values it holds and in its \<open>dict()\<close>.
\<close>

theorem apply_update_same_groups_counterexample:
  "t_keyword_rule_groups task_with_group = Some [GroupModel group_a7m4] \<and>
   u_keyword_rule_groups update_same_groups = Some (Some [group_a7m4]) \<and>
   apply_update task_with_group update_same_groups \<noteq> task_with_group \<and>
   task_dict (apply_update task_with_group update_same_groups) \<noteq> task_dict task_with_group"
proof -
  have t: "t_keyword_rule_groups task_with_group = Some [GroupModel group_a7m4]"
    by (simp add: task_with_group_def)
  have u: "u_keyword_rule_groups update_same_groups = Some (Some [group_a7m4])"
    by (simp add: update_same_groups_def)
  have r: "t_keyword_rule_groups (apply_update task_with_group update_same_groups) =
      Some [GroupDict \<lparr> gd_name = None, gd_include_keywords = Some [ascii ''a7m4''],
        gd_exclude_keywords = None \<rparr>]"
    by (simp add: apply_update_def u dict_groups_def group_dict_exclude_unset_def group_a7m4_def)
  have "t_keyword_rule_groups (apply_update task_with_group update_same_groups) \<noteq>
      t_keyword_rule_groups task_with_group"
    by (simp add: r t)
  then have a: "apply_update task_with_group update_same_groups \<noteq> task_with_group"
    by auto
  have "t_keyword_rule_groups (task_dict (apply_update task_with_group update_same_groups)) \<noteq>
      t_keyword_rule_groups (task_dict task_with_group)"
    by (simp add: task_dict_def r t group_value_dict_def group_dict_all_def group_a7m4_def)
  then have b: "task_dict (apply_update task_with_group update_same_groups) \<noteq>
      task_dict task_with_group"
    by auto
  from t u a b show ?thesis by (intro conjI)
qed

text \<open>
  Claim C8, amended. \<open>apply_update\<close> is a function of the task and the update, so the
  task it is applied to stays as it is. In the task it returns every field the update sets
  has the value \<open>update.dict(exclude_unset=True)\<close> holds for it (the update's value,
  with rule groups as the dictionaries of their set fields), every other field and the id
  have the value of the original, and when each of these stored values equals the
  original's, the result is the original.
\<close>

theorem apply_update_frame_effect:
  "t_id (apply_update t u) = t_id t \<and>
   (u_task_name u = None \<longrightarrow> t_task_name (apply_update t u) = t_task_name t) \<and>
   (\<forall>v. u_task_name u = Some v \<longrightarrow> t_task_name (apply_update t u) = v) \<and>
   (u_enabled u = None \<longrightarrow> t_enabled (apply_update t u) = t_enabled t) \<and>
   (\<forall>v. u_enabled u = Some v \<longrightarrow> t_enabled (apply_update t u) = v) \<and>
   (u_keyword u = None \<longrightarrow> t_keyword (apply_update t u) = t_keyword t) \<and>
   (\<forall>v. u_keyword u = Some v \<longrightarrow> t_keyword (apply_update t u) = v) \<and>
   (u_description u = None \<longrightarrow> t_description (apply_update t u) = t_description t) \<and>
   (\<forall>v. u_description u = Some v \<longrightarrow> t_description (apply_update t u) = v) \<and>
   (u_max_pages u = None \<longrightarrow> t_max_pages (apply_update t u) = t_max_pages t) \<and>
   (\<forall>v. u_max_pages u = Some v \<longrightarrow> t_max_pages (apply_update t u) = v) \<and>
   (u_personal_only u = None \<longrightarrow> t_personal_only (apply_update t u) = t_personal_only t) \<and>
   (\<forall>v. u_personal_only u = Some v \<longrightarrow> t_personal_only (apply_update t u) = v) \<and>
   (u_min_price u = None \<longrightarrow> t_min_price (apply_update t u) = t_min_price t) \<and>
   (\<forall>v. u_min_price u = Some v \<longrightarrow> t_min_price (apply_update t u) = v) \<and>
   (u_max_price u = None \<longrightarrow> t_max_price (apply_update t u) = t_max_price t) \<and>
   (\<forall>v. u_max_price u = Some v \<longrightarrow> t_max_price (apply_update t u) = v) \<and>
   (u_cron u = None \<longrightarrow> t_cron (apply_update t u) = t_cron t) \<and>
   (\<forall>v. u_cron u = Some v \<longrightarrow> t_cron (apply_update t u) = v) \<and>
   (u_ai_prompt_base_file u = None \<longrightarrow> t_ai_prompt_base_file (apply_update t u) = t_ai_prompt_base_file t) \<and>
   (\<forall>v. u_ai_prompt_base_file u = Some v \<longrightarrow> t_ai_prompt_base_file (apply_update t u) = v) \<and>
   (u_ai_prompt_criteria_file u = None \<longrightarrow> t_ai_prompt_criteria_file (apply_update t u) = t_ai_prompt_criteria_file t) \<and>
   (\<forall>v. u_ai_prompt_criteria_file u = Some v \<longrightarrow> t_ai_prompt_criteria_file (apply_update t u) = v) \<and>
   (u_account_state_file u = None \<longrightarrow> t_account_state_file (apply_update t u) = t_account_state_file t) \<and>
   (\<forall>v. u_account_state_file u = Some v \<longrightarrow> t_account_state_file (apply_update t u) = v) \<and>
   (u_free_shipping u = None \<longrightarrow> t_free_shipping (apply_update t u) = t_free_shipping t) \<and>
   (\<forall>v. u_free_shipping u = Some v \<longrightarrow> t_free_shipping (apply_update t u) = v) \<and>
   (u_new_publish_option u = None \<longrightarrow> t_new_publish_option (apply_update t u) = t_new_publish_option t) \<and>
   (\<forall>v. u_new_publish_option u = Some v \<longrightarrow> t_new_publish_option (apply_update t u) = v) \<and>
   (u_region u = None \<longrightarrow> t_region (apply_update t u) = t_region t) \<and>
   (\<forall>v. u_region u = Some v \<longrightarrow> t_region (apply_update t u) = v) \<and>
   (u_decision_mode u = None \<longrightarrow> t_decision_mode (apply_update t u) = t_decision_mode t) \<and>
   (\<forall>v. u_decision_mode u = Some v \<longrightarrow> t_decision_mode (apply_update t u) = v) \<and>
   (u_keyword_rule_groups u = None \<longrightarrow> t_keyword_rule_groups (apply_update t u) = t_keyword_rule_groups t) \<and>
   (\<forall>v. u_keyword_rule_groups u = Some v \<longrightarrow>
      t_keyword_rule_groups (apply_update t u) = dict_groups v) \<and>
   (u_is_running u = None \<longrightarrow> t_is_running (apply_update t u) = t_is_running t) \<and>
   (\<forall>v. u_is_running u = Some v \<longrightarrow> t_is_running (apply_update t u) = v) \<and>
   (((u_task_name u = None \<or> u_task_name u = Some (t_task_name t)) \<and>
      (u_enabled u = None \<or> u_enabled u = Some (t_enabled t)) \<and>
      (u_keyword u = None \<or> u_keyword u = Some (t_keyword t)) \<and>
      (u_description u = None \<or> u_description u = Some (t_description t)) \<and>
      (u_max_pages u = None \<or> u_max_pages u = Some (t_max_pages t)) \<and>
      (u_personal_only u = None \<or> u_personal_only u = Some (t_personal_only t)) \<and>
      (u_min_price u = None \<or> u_min_price u = Some (t_min_price t)) \<and>
      (u_max_price u = None \<or> u_max_price u = Some (t_max_price t)) \<and>
      (u_cron u = None \<or> u_cron u = Some (t_cron t)) \<and>
      (u_ai_prompt_base_file u = None \<or> u_ai_prompt_base_file u = Some (t_ai_prompt_base_file t)) \<and>
      (u_ai_prompt_criteria_file u = None \<or> u_ai_prompt_criteria_file u = Some (t_ai_prompt_criteria_file t)) \<and>
      (u_account_state_file u = None \<or> u_account_state_file u = Some (t_account_state_file t)) \<and>
      (u_free_shipping u = None \<or> u_free_shipping u = Some (t_free_shipping t)) \<and>
      (u_new_publish_option u = None \<or> u_new_publish_option u = Some (t_new_publish_option t)) \<and>
      (u_region u = None \<or> u_region u = Some (t_region t)) \<and>
      (u_decision_mode u = None \<or> u_decision_mode u = Some (t_decision_mode t)) \<and>
      (u_keyword_rule_groups u = None \<or>
       (\<exists>v. u_keyword_rule_groups u = Some v \<and> dict_groups v = t_keyword_rule_groups t)) \<and>
      (u_is_running u = None \<or> u_is_running u = Some (t_is_running t))) \<longrightarrow>
      apply_update t u = t)"
proof -
  have noop: "((u_task_name u = None \<or> u_task_name u = Some (t_task_name t)) \<and>
      (u_enabled u = None \<or> u_enabled u = Some (t_enabled t)) \<and>
      (u_keyword u = None \<or> u_keyword u = Some (t_keyword t)) \<and>
      (u_description u = None \<or> u_description u = Some (t_description t)) \<and>
      (u_max_pages u = None \<or> u_max_pages u = Some (t_max_pages t)) \<and>
      (u_personal_only u = None \<or> u_personal_only u = Some (t_personal_only t)) \<and>
      (u_min_price u = None \<or> u_min_price u = Some (t_min_price t)) \<and>
      (u_max_price u = None \<or> u_max_price u = Some (t_max_price t)) \<and>
      (u_cron u = None \<or> u_cron u = Some (t_cron t)) \<and>
      (u_ai_prompt_base_file u = None \<or> u_ai_prompt_base_file u = Some (t_ai_prompt_base_file t)) \<and>
      (u_ai_prompt_criteria_file u = None \<or> u_ai_prompt_criteria_file u = Some (t_ai_prompt_criteria_file t)) \<and>
      (u_account_state_file u = None \<or> u_account_state_file u = Some (t_account_state_file t)) \<and>
      (u_free_shipping u = None \<or> u_free_shipping u = Some (t_free_shipping t)) \<and>
      (u_new_publish_option u = None \<or> u_new_publish_option u = Some (t_new_publish_option t)) \<and>
      (u_region u = None \<or> u_region u = Some (t_region t)) \<and>
      (u_decision_mode u = None \<or> u_decision_mode u = Some (t_decision_mode t)) \<and>
      (u_keyword_rule_groups u = None \<or>
       (\<exists>v. u_keyword_rule_groups u = Some v \<and> dict_groups v = t_keyword_rule_groups t)) \<and>
      (u_is_running u = None \<or> u_is_running u = Some (t_is_running t))) \<longrightarrow>
      apply_update t u = t"
    by (intro impI, elim conjE) (rule apply_update_noop)
  show ?thesis
    by (intro conjI) (rule apply_update_frame noop)+
qed

lemma update_same_description_fields:
  "u_task_name update_same_description = None"
  "u_enabled update_same_description = None"
  "u_keyword update_same_description = None"
  "u_description update_same_description = Some (Some (ascii ''mint body''))"
  "u_max_pages update_same_description = None"
  "u_personal_only update_same_description = None"
  "u_min_price update_same_description = None"
  "u_max_price update_same_description = None"
  "u_cron update_same_description = None"
  "u_ai_prompt_base_file update_same_description = None"
  "u_ai_prompt_criteria_file update_same_description = None"
  "u_account_state_file update_same_description = None"
  "u_free_shipping update_same_description = None"
  "u_new_publish_option update_same_description = None"
  "u_region update_same_description = None"
  "u_decision_mode update_same_description = None"
  "u_keyword_rule_groups update_same_description = None"
  "u_is_running update_same_description = None"
  by (simp_all add: update_same_description_def empty_update_def)

lemma sample_task_description: "t_description sample_task = Some (ascii ''mint body'')"
  by (simp add: sample_task_def)

theorem apply_update_frame_effect_witness:
  "u_decision_mode update_only_mode = Some (Some Keyword) \<and>
   u_description update_only_mode = None \<and>
   t_decision_mode (apply_update sample_task update_only_mode) = Some Keyword \<and>
   t_description (apply_update sample_task update_only_mode) = Some (ascii ''mint body'') \<and>
   u_description update_same_description = Some (t_description sample_task) \<and>
   apply_update sample_task update_same_description = sample_task"
proof -
  note mode = apply_update_frame_effect [where t = sample_task and u = update_only_mode]
  note same = apply_update_frame_effect [where t = sample_task and u = update_same_description]
  have c1: "t_decision_mode (apply_update sample_task update_only_mode) = Some Keyword"
    using mode by (simp add: update_only_mode_fields)
  have c2: "t_description (apply_update sample_task update_only_mode) =
      Some (ascii ''mint body'')"
    using mode by (simp add: update_only_mode_fields sample_task_description)
  have c3: "apply_update sample_task update_same_description = sample_task"
    using same by (simp add: update_same_description_fields sample_task_description)
  from c1 c2 c3 show ?thesis
    by (simp add: update_only_mode_fields update_same_description_fields
        sample_task_description)
qed

end
